theory Spec2Isabelle
  imports Complex_Main
begin

section \<open>Numbers, arrays and failures\<close>

text \<open>
  The module \<^verbatim>\<open>welleng/survey.py\<close> computes on numpy arrays of floats. Floats are
  idealised as \<^typ>\<open>real\<close>; a one-dimensional array is a list, an \<open>(n,3)\<close> array is a
  list of triples, a three-dimensional array is a list of lists of lists. No statement
  of the module writes into an array in place, so arrays are values.

  Every way the module can stop is a value of \<open>error\<close>. The three assertions carry the
  names the specification gives them; the other constructors are the failures that
  Python and numpy raise by themselves.
\<close>

type_synonym vec3 = "real \<times> real \<times> real"

datatype error =
    InvalidConfiguration  \<comment> \<open>\<^verbatim>\<open>assert error_model in error_models, "Unrecognized error model"\<close>\<close>
  | IndexOutOfRange       \<comment> \<open>\<^verbatim>\<open>assert index < len(survey.md) - 1, "Index is out of range"\<close>\<close>
  | OutOfRange            \<comment> \<open>\<^verbatim>\<open>assert x <= survey.delta_md[index + 1], "x is out of range"\<close>\<close>
  | IndexError            \<comment> \<open>a subscript outside the array\<close>
  | ShapeError            \<comment> \<open>numpy cannot form a rectangular array of floats\<close>
  | TypeError             \<comment> \<open>subscript of \<^verbatim>\<open>None\<close>\<close>
  | ZeroDivisionError     \<comment> \<open>division of two Python floats by zero\<close>
  | NonFinite             \<comment> \<open>numpy division by zero: \<^verbatim>\<open>inf\<close> or \<^verbatim>\<open>nan\<close>, no real number\<close>

definition radians :: "real \<Rightarrow> real" where
  "radians d = d * pi / 180"

definition degrees :: "real \<Rightarrow> real" where
  "degrees r = r * 180 / pi"

text \<open>A subscript \<^verbatim>\<open>xs[i]\<close>: a negative index counts from the end.\<close>

definition py_index :: "'a list \<Rightarrow> int \<Rightarrow> error + 'a" where
  "py_index xs i =
     (if 0 \<le> i \<and> i < int (length xs) then Inr (xs ! nat i)
      else if - int (length xs) \<le> i \<and> i < 0 then Inr (xs ! nat (int (length xs) + i))
      else Inl IndexError)"

text \<open>
  \<^verbatim>\<open>np.array([a, b, c]).T\<close> for three one-dimensional arrays: the \<open>(n,3)\<close> array of
  their rows. An absent component (\<^verbatim>\<open>None\<close>) or components of different lengths do
  not form an array of floats.
\<close>

definition stack3T :: "real list option \<Rightarrow> real list option \<Rightarrow> real list option \<Rightarrow> error + vec3 list" where
  "stack3T a b c =
     (case (a, b, c) of
        (Some xs, Some ys, Some zs) \<Rightarrow>
          if length ys = length xs \<and> length zs = length xs then Inr (zip xs (zip ys zs))
          else Inl ShapeError
      | _ \<Rightarrow> Inl ShapeError)"

text \<open>The columns of an \<open>(n,3)\<close> array, as the unpacking \<^verbatim>\<open>a, b, c = arr.T\<close> yields them.\<close>

definition col0 :: "vec3 list \<Rightarrow> real list" where
  "col0 ps = map fst ps"

definition col1 :: "vec3 list \<Rightarrow> real list" where
  "col1 ps = map (\<lambda>p. fst (snd p)) ps"

definition col2 :: "vec3 list \<Rightarrow> real list" where
  "col2 ps = map (\<lambda>p. snd (snd p)) ps"

text \<open>\<^verbatim>\<open>arr.T\<close> for a three-dimensional array reverses the axes: \<open>T[k][j][i] = arr[i][j][k]\<close>.\<close>

definition ndarray_T3 :: "'a list list list \<Rightarrow> 'a list list list" where
  "ndarray_T3 m =
     (let d0 = length m;
          d1 = (if m = [] then 0 else length (hd m));
          d2 = (if d1 = 0 then 0 else length (hd (hd m)))
      in map (\<lambda>k. map (\<lambda>j. map (\<lambda>i. m ! i ! j ! k) [0..<d0]) [0..<d1]) [0..<d2])"

text \<open>Elementwise product \<^verbatim>\<open>a * b\<close> of two arrays of one length.\<close>

definition arr_mul :: "real list \<Rightarrow> real list \<Rightarrow> real list" where
  "arr_mul a b = map2 (*) a b"

section \<open>The covariance builder\<close>

text \<open>
  \<^verbatim>\<open>make_cov(a, b, c, diag=False)\<close>. The nine entries are arrays of length \<open>n\<close>, stacked
  into a \<open>(3,3,n)\<close> array and transposed to \<open>(n,3,3)\<close>. Sequences of different lengths
  give a ragged nesting, which numpy refuses.
\<close>

definition make_cov :: "real list \<Rightarrow> real list \<Rightarrow> real list \<Rightarrow> bool \<Rightarrow> error + real list list list" where
  "make_cov a b c diag =
     (if length b \<noteq> length a \<or> length c \<noteq> length a then Inl ShapeError
      else if diag then
        (let z = replicate (length a) 0
         in Inr (ndarray_T3
              [[arr_mul a a, z, z],
               [z, arr_mul b b, z],
               [z, z, arr_mul c c]]))
      else
        Inr (ndarray_T3
              [[arr_mul a a, arr_mul a b, arr_mul a c],
               [arr_mul a b, arr_mul b b, arr_mul b c],
               [arr_mul a c, arr_mul b c, arr_mul c c]]))"

section \<open>The collaborators\<close>

text \<open>
  \<^verbatim>\<open>survey.py\<close> imports the minimum-curvature solver \<^verbatim>\<open>MinCurve\<close>, the helpers
  \<^verbatim>\<open>get_nev\<close>, \<^verbatim>\<open>get_vec\<close>, \<^verbatim>\<open>get_angles\<close> and the class \<^verbatim>\<open>ErrorModel\<close> from other
  modules. They are parameters of the embedding, collected in the record \<open>collab\<close>;
  every theorem below holds for all of them. \<^verbatim>\<open>get_vec\<close> is only ever called with
  \<^verbatim>\<open>deg=False\<close>. The type \<open>'w\<close> is that of the opaque well reference parameters.

  Each call of a collaborator is logged as an \<open>event\<close>, so that the order of the
  computation relative to a failing check can be stated.
\<close>

datatype event = Call_MinCurve | Call_get_nev | Call_get_vec | Call_get_angles | Call_ErrorModel

record mincurve =
  mc_dogleg :: "real list"
  mc_rf :: "real list"
  mc_delta_md :: "real list"
  mc_dls :: "real list"
  mc_poss :: "vec3 list"

record errormodel =
  cov_HLAs :: "real list list list"
  cov_NEVs :: "real list list list"

record 'w collab =
  MinCurve :: "real list \<Rightarrow> real list \<Rightarrow> real list \<Rightarrow> vec3 \<Rightarrow> string \<Rightarrow> mincurve"
  get_nev :: "vec3 list \<Rightarrow> vec3 \<Rightarrow> vec3 \<Rightarrow> vec3 list"
  get_vec :: "real list \<Rightarrow> real list \<Rightarrow> vec3 list"
  get_angles :: "vec3 \<Rightarrow> (real \<times> real) list"
  ErrorModel :: "vec3 list \<Rightarrow> vec3 \<Rightarrow> 'w option \<Rightarrow> errormodel"

section \<open>The Survey class\<close>

text \<open>
  The attributes of a \<^verbatim>\<open>Survey\<close> object, each under the prefix \<open>sv_\<close>, and the
  arguments of its constructor, each under the prefix \<open>arg_\<close>. An attribute or
  argument that may be \<^verbatim>\<open>None\<close> is an option.
\<close>

record 'w survey =
  sv_unit :: string
  sv_deg :: bool
  sv_start_xyz :: vec3
  sv_start_nev :: vec3
  sv_md :: "real list"
  sv_inc_rad :: "real list"
  sv_azi_rad :: "real list"
  sv_inc_deg :: "real list"
  sv_azi_deg :: "real list"
  sv_radius :: "real list option"
  sv_survey_deg :: "vec3 list"
  sv_survey_rad :: "vec3 list"
  sv_n :: "real list option"
  sv_e :: "real list option"
  sv_tvd :: "real list option"
  sv_x :: "real list option"
  sv_y :: "real list option"
  sv_z :: "real list option"
  sv_vec :: "vec3 list option"
  sv_dogleg :: "real list"
  sv_rf :: "real list"
  sv_delta_md :: "real list"
  sv_dls :: "real list"
  sv_error_model :: "string option"
  sv_well_ref_params :: "'w option"
  sv_cov_hla :: "real list list list option"
  sv_cov_nev :: "real list list list option"
  sv_err :: "errormodel option"

record 'w init_args =
  arg_md :: "real list"
  arg_inc :: "real list"
  arg_azi :: "real list"
  arg_n :: "real list option"
  arg_e :: "real list option"
  arg_tvd :: "real list option"
  arg_x :: "real list option"
  arg_y :: "real list option"
  arg_z :: "real list option"
  arg_vec :: "vec3 list option"
  arg_radius :: "real list option"
  arg_cov_nev :: "real list list list option"
  arg_cov_hla :: "real list list list option"
  arg_error_model :: "string option"
  arg_well_ref_params :: "'w option"
  arg_start_xyz :: vec3
  arg_start_nev :: vec3
  arg_deg :: bool
  arg_unit :: string

text \<open>The call \<^verbatim>\<open>Survey(md, inc, azi)\<close> with every keyword argument at its default.\<close>

definition Survey_args :: "real list \<Rightarrow> real list \<Rightarrow> real list \<Rightarrow> 'w init_args" where
  "Survey_args md inc azi =
     \<lparr>arg_md = md, arg_inc = inc, arg_azi = azi,
      arg_n = None, arg_e = None, arg_tvd = None,
      arg_x = None, arg_y = None, arg_z = None,
      arg_vec = None, arg_radius = None,
      arg_cov_nev = None, arg_cov_hla = None,
      arg_error_model = None, arg_well_ref_params = None,
      arg_start_xyz = (0, 0, 0), arg_start_nev = (0, 0, 0),
      arg_deg = True, arg_unit = ''meters''\<rparr>"

text \<open>
  A fresh object has no attribute yet. The record holds an empty value in each field
  until \<^verbatim>\<open>__init__\<close> assigns it; no field is read before its assignment.
\<close>

definition new_object :: "'w survey" where
  "new_object =
     \<lparr>sv_unit = [], sv_deg = False, sv_start_xyz = (0, 0, 0), sv_start_nev = (0, 0, 0),
      sv_md = [], sv_inc_rad = [], sv_azi_rad = [], sv_inc_deg = [], sv_azi_deg = [],
      sv_radius = None, sv_survey_deg = [], sv_survey_rad = [],
      sv_n = None, sv_e = None, sv_tvd = None, sv_x = None, sv_y = None, sv_z = None,
      sv_vec = None, sv_dogleg = [], sv_rf = [], sv_delta_md = [], sv_dls = [],
      sv_error_model = None, sv_well_ref_params = None,
      sv_cov_hla = None, sv_cov_nev = None, sv_err = None\<rparr>"

definition error_models :: "string list" where
  "error_models = [''ISCWSA_MWD'']"

text \<open>\<^verbatim>\<open>Survey._make_angles(inc, azi, deg)\<close>\<close>

definition Survey_make_angles :: "'w survey \<Rightarrow> real list \<Rightarrow> real list \<Rightarrow> bool \<Rightarrow> 'w survey" where
  "Survey_make_angles self inc azi deg =
     (if deg then
        self\<lparr>sv_inc_rad := map radians inc, sv_azi_rad := map radians azi,
             sv_inc_deg := inc, sv_azi_deg := azi\<rparr>
      else
        self\<lparr>sv_inc_rad := inc, sv_azi_rad := azi,
             sv_inc_deg := map degrees inc, sv_azi_deg := map degrees azi\<rparr>)"

text \<open>\<^verbatim>\<open>Survey._get_nev()\<close>\<close>

definition Survey_get_nev :: "'w collab \<Rightarrow> event list \<Rightarrow> 'w survey \<Rightarrow> event list \<times> (error + 'w survey)" where
  "Survey_get_nev c tr self =
     (case stack3T (sv_x self) (sv_y self) (sv_z self) of
        Inl err \<Rightarrow> (tr, Inl err)
      | Inr pos \<Rightarrow>
          (let nev = get_nev c pos (sv_start_xyz self) (sv_start_nev self)
           in (tr @ [Call_get_nev],
               Inr (self\<lparr>sv_n := Some (col0 nev), sv_e := Some (col1 nev), sv_tvd := Some (col2 nev)\<rparr>))))"

text \<open>\<^verbatim>\<open>Survey._min_curve()\<close>\<close>

definition Survey_min_curve :: "'w collab \<Rightarrow> event list \<Rightarrow> 'w survey \<Rightarrow> event list \<times> (error + 'w survey)" where
  "Survey_min_curve c tr self =
     (let mc = MinCurve c (sv_md self) (sv_inc_rad self) (sv_azi_rad self) (sv_start_xyz self) (sv_unit self);
          tr1 = tr @ [Call_MinCurve];
          self1 = self\<lparr>sv_dogleg := mc_dogleg mc, sv_rf := mc_rf mc,
                       sv_delta_md := mc_delta_md mc, sv_dls := mc_dls mc\<rparr>;
          self2 = (if sv_x self1 = None
                   then self1\<lparr>sv_x := Some (col0 (mc_poss mc)), sv_y := Some (col1 (mc_poss mc)),
                              sv_z := Some (col2 (mc_poss mc))\<rparr>
                   else self1)
      in case (if sv_n self2 = None then Survey_get_nev c tr1 self2 else (tr1, Inr self2)) of
           (tr2, Inl err) \<Rightarrow> (tr2, Inl err)
         | (tr2, Inr self3) \<Rightarrow>
             if sv_vec self3 = None
             then (tr2 @ [Call_get_vec],
                   Inr (self3\<lparr>sv_vec := Some (get_vec c (sv_inc_rad self3) (sv_azi_rad self3))\<rparr>))
             else (tr2, Inr self3))"

text \<open>
  \<^verbatim>\<open>Survey._get_errors()\<close>. The test \<^verbatim>\<open>if self.error_model:\<close> is Python truthiness:
  neither \<^verbatim>\<open>None\<close> nor the empty string.
\<close>

definition Survey_get_errors :: "'w collab \<Rightarrow> event list \<Rightarrow> 'w survey \<Rightarrow> event list \<times> 'w survey" where
  "Survey_get_errors c tr self =
     (if sv_error_model self \<noteq> None \<and> sv_error_model self \<noteq> Some [] then
        if sv_error_model self = Some ''ISCWSA_MWD'' then
          (let err = ErrorModel c (sv_survey_deg self) (sv_start_xyz self) (sv_well_ref_params self);
               self1 = self\<lparr>sv_err := Some err\<rparr>;
               self2 = self1\<lparr>sv_cov_hla := Some (ndarray_T3 (cov_HLAs err))\<rparr>;
               self3 = self2\<lparr>sv_cov_nev := Some (ndarray_T3 (cov_NEVs err))\<rparr>
           in (tr @ [Call_ErrorModel], self3))
        else (tr, self)
      else (tr, self))"

text \<open>
  \<^verbatim>\<open>Survey.__init__\<close>, statement by statement. The result is the list of collaborator
  calls made so far and either the failure or the initialised object: a constructor
  that raises hands no object to its caller.
\<close>

definition Survey_init :: "'w collab \<Rightarrow> event list \<Rightarrow> 'w init_args \<Rightarrow> event list \<times> (error + 'w survey)" where
  "Survey_init c tr a =
     (let self1 = new_object\<lparr>sv_unit := arg_unit a, sv_deg := arg_deg a,
                             sv_start_xyz := arg_start_xyz a, sv_start_nev := arg_start_nev a,
                             sv_md := arg_md a\<rparr>;
          self2 = Survey_make_angles self1 (arg_inc a) (arg_azi a) (arg_deg a);
          self3 = self2\<lparr>sv_radius := arg_radius a\<rparr>
      in case stack3T (Some (sv_md self3)) (Some (sv_inc_deg self3)) (Some (sv_azi_deg self3)) of
           Inl err \<Rightarrow> (tr, Inl err)
         | Inr sdeg \<Rightarrow>
      (case stack3T (Some (sv_md self3)) (Some (sv_inc_rad self3)) (Some (sv_azi_rad self3)) of
           Inl err \<Rightarrow> (tr, Inl err)
         | Inr srad \<Rightarrow>
      (let self4 = self3\<lparr>sv_survey_deg := sdeg, sv_survey_rad := srad,
                         sv_n := arg_n a, sv_e := arg_e a, sv_tvd := arg_tvd a,
                         sv_x := arg_x a, sv_y := arg_y a, sv_z := arg_z a,
                         sv_vec := arg_vec a\<rparr>
       in case Survey_min_curve c tr self4 of
            (tr1, Inl err) \<Rightarrow> (tr1, Inl err)
          | (tr1, Inr self5) \<Rightarrow>
              if arg_error_model a \<noteq> None \<and> the (arg_error_model a) \<notin> set error_models
              then (tr1, Inl InvalidConfiguration)
              else
                (let self6 = self5\<lparr>sv_error_model := arg_error_model a,
                                   sv_well_ref_params := arg_well_ref_params a,
                                   sv_cov_hla := arg_cov_hla a, sv_cov_nev := arg_cov_nev a\<rparr>
                 in case Survey_get_errors c tr1 self6 of (tr2, self7) \<Rightarrow> (tr2, Inr self7)))))"

section \<open>Objects in a heap\<close>

text \<open>
  Surveys are objects with identity: \<^verbatim>\<open>interpolate_survey\<close> receives a reference,
  builds a second object and calls a mutating method on it. The heap is the list of
  the objects allocated so far, a reference is a position in it, and the world is
  the heap with the log of collaborator calls.
\<close>

type_synonym 'w world = "'w survey list \<times> event list"

text \<open>The expression \<^verbatim>\<open>Survey(...)\<close>: run \<^verbatim>\<open>__init__\<close> and, if it returns, allocate the object.\<close>

definition new_Survey :: "'w collab \<Rightarrow> 'w world \<Rightarrow> 'w init_args \<Rightarrow> 'w world \<times> (error + nat)" where
  "new_Survey c w a =
     (case w of (h, tr) \<Rightarrow>
        (case Survey_init c tr a of
           (tr1, Inl err) \<Rightarrow> ((h, tr1), Inl err)
         | (tr1, Inr self) \<Rightarrow> ((h @ [self], tr1), Inr (length h))))"

section \<open>Station interpolation\<close>

definition scale3 :: "real \<Rightarrow> vec3 \<Rightarrow> vec3" where
  "scale3 k v = (case v of (a, b, c) \<Rightarrow> (k * a, k * b, k * c))"

definition add3 :: "vec3 \<Rightarrow> vec3 \<Rightarrow> vec3" where
  "add3 u v = (case u of (a, b, c) \<Rightarrow> case v of (a', b', c') \<Rightarrow> (a + a', b + b', c + c'))"

text \<open>A subscript of an attribute that may be \<^verbatim>\<open>None\<close>.\<close>

definition py_index_opt :: "'a list option \<Rightarrow> int \<Rightarrow> error + 'a" where
  "py_index_opt xs i = (case xs of None \<Rightarrow> Inl TypeError | Some ys \<Rightarrow> py_index ys i)"

text \<open>
  \<^verbatim>\<open>interpolate_survey(survey, x, index=0)\<close>, where \<open>r\<close> is the reference to
  \<^verbatim>\<open>survey\<close> and \<open>index\<close> the value of \<^verbatim>\<open>int(index)\<close>. The quotient
  \<^verbatim>\<open>survey.dogleg[index + 1] / survey.delta_md[index + 1]\<close> is a numpy division, which
  yields \<^verbatim>\<open>inf\<close> for a zero divisor; the code then goes on with \<^verbatim>\<open>nan\<close> (for \<open>x = 0\<close>)
  or stops in \<^verbatim>\<open>math.sin\<close> (for \<open>x < 0\<close>). No real number stands for these values, so
  the embedding stops there with \<open>NonFinite\<close>. The quotients by
  \<^verbatim>\<open>math.sin(total_dogleg)\<close> are Python divisions, which raise for a zero divisor.
\<close>

definition interpolate_survey :: "'w collab \<Rightarrow> 'w world \<Rightarrow> nat \<Rightarrow> real \<Rightarrow> int \<Rightarrow> 'w world \<times> (error + nat)" where
  "interpolate_survey c w r x index =
     (case w of (h, tr) \<Rightarrow>
      (let survey = h ! r in
       if \<not> index < int (length (sv_md survey)) - 1 then (w, Inl IndexOutOfRange) else
       (case py_index (sv_delta_md survey) (index + 1) of Inl err \<Rightarrow> (w, Inl err) | Inr dmd \<Rightarrow>
       if \<not> x \<le> dmd then (w, Inl OutOfRange) else
       (case py_index (sv_dogleg survey) (index + 1) of Inl err \<Rightarrow> (w, Inl err) | Inr total_dogleg \<Rightarrow>
       (case
          (if total_dogleg = 0 then
             (case py_index (sv_azi_rad survey) index of Inl err \<Rightarrow> (tr, Inl err) | Inr azi \<Rightarrow>
              case py_index (sv_inc_rad survey) index of Inl err \<Rightarrow> (tr, Inl err) | Inr inc \<Rightarrow>
                (tr, Inr (inc, azi)))
           else
             (case py_index_opt (sv_vec survey) index of Inl err \<Rightarrow> (tr, Inl err) | Inr t1 \<Rightarrow>
              case py_index_opt (sv_vec survey) (index + 1) of Inl err \<Rightarrow> (tr, Inl err) | Inr t2 \<Rightarrow>
              if dmd = 0 then (tr, Inl NonFinite) else
              (let dogleg = x * (total_dogleg / dmd) in
               if sin total_dogleg = 0 then (tr, Inl ZeroDivisionError) else
               (let t = add3 (scale3 (sin (total_dogleg - dogleg) / sin total_dogleg) t1)
                             (scale3 (sin dogleg / sin total_dogleg) t2)
                in case py_index (get_angles c t) 0 of
                     Inl err \<Rightarrow> (tr @ [Call_get_angles], Inl err)
                   | Inr ia \<Rightarrow> (tr @ [Call_get_angles], Inr ia)))))
        of (tr1, Inl err) \<Rightarrow> ((h, tr1), Inl err)
         | (tr1, Inr (inc, azi)) \<Rightarrow>
       (case py_index (sv_md survey) index of Inl err \<Rightarrow> ((h, tr1), Inl err) | Inr md0 \<Rightarrow>
        case py_index (sv_inc_rad survey) index of Inl err \<Rightarrow> ((h, tr1), Inl err) | Inr inc0 \<Rightarrow>
        case py_index (sv_azi_rad survey) index of Inl err \<Rightarrow> ((h, tr1), Inl err) | Inr azi0 \<Rightarrow>
        case stack3T (sv_x survey) (sv_y survey) (sv_z survey) of Inl err \<Rightarrow> ((h, tr1), Inl err) | Inr xyz \<Rightarrow>
        case py_index xyz index of Inl err \<Rightarrow> ((h, tr1), Inl err) | Inr start_xyz \<Rightarrow>
        case stack3T (sv_n survey) (sv_e survey) (sv_tvd survey) of Inl err \<Rightarrow> ((h, tr1), Inl err) | Inr nev \<Rightarrow>
        case py_index nev index of Inl err \<Rightarrow> ((h, tr1), Inl err) | Inr start_nev \<Rightarrow>
        (case new_Survey c (h, tr1)
                ((Survey_args [md0, md0 + x] [inc0, inc] [azi0, azi])
                   \<lparr>arg_start_xyz := start_xyz, arg_start_nev := start_nev, arg_deg := False\<rparr>) of
           (w2, Inl err) \<Rightarrow> (w2, Inl err)
         | ((h2, tr2), Inr s) \<Rightarrow>
             (case Survey_min_curve c tr2 (h2 ! s) of
                (tr3, Inl err) \<Rightarrow> ((h2, tr3), Inl err)
              | (tr3, Inr self) \<Rightarrow> ((h2[s := self], tr3), Inr s)))))))))"

section \<open>Reference collaborators\<close>

text \<open>
  Modelled from the spec: the collaborators live in \<^verbatim>\<open>welleng.utils\<close> and
  \<^verbatim>\<open>welleng.error\<close>, which are not part of the source under study. The instances
  below follow the interfaces of the specification (section 6) and its glossary: the
  tangent of a station is the unit vector of its inclination and azimuth, the dogleg
  of an interval is the angle between the tangents at its two ends, delta-MD is the
  difference of consecutive measured depths, index 0 has no preceding interval, the
  path between two stations is a circular arc weighted by the ratio factor, and the
  NEV frame is a translation of the Cartesian one. They serve to run the embedding
  on concrete surveys, and to state what the interpolation returns at the two ends of
  an interval, which depends on what the solver and the angle helpers compute. The
  other general theorems hold for every collaborator.
\<close>

definition dot3 :: "vec3 \<Rightarrow> vec3 \<Rightarrow> real" where
  "dot3 u v = (case u of (a, b, c) \<Rightarrow> case v of (a', b', c') \<Rightarrow> a * a' + b * b' + c * c')"

definition ref_get_vec :: "real list \<Rightarrow> real list \<Rightarrow> vec3 list" where
  "ref_get_vec inc azi = map2 (\<lambda>i a. (sin i * sin a, sin i * cos a, cos i)) inc azi"

definition ref_get_nev :: "vec3 list \<Rightarrow> vec3 \<Rightarrow> vec3 \<Rightarrow> vec3 list" where
  "ref_get_nev pos start_xyz start_nev =
     map (\<lambda>p. case p of (x, y, z) \<Rightarrow> case start_xyz of (x0, y0, z0) \<Rightarrow> case start_nev of (n0, e0, v0) \<Rightarrow>
            (y - y0 + n0, x - x0 + e0, z - z0 + v0)) pos"

definition ref_get_angles :: "vec3 \<Rightarrow> (real \<times> real) list" where
  "ref_get_angles v =
     (case v of (x, y, z) \<Rightarrow>
        (let inc = arccos (z / sqrt (x * x + y * y + z * z));
             a = Arg (Complex y x)
         in [(inc, if a < 0 then a + 2 * pi else a)]))"

fun ref_delta_md :: "real list \<Rightarrow> real list" where
  "ref_delta_md (m0 # m1 # ms) = (m1 - m0) # ref_delta_md (m1 # ms)"
| "ref_delta_md ms = []"

fun ref_dogleg :: "vec3 list \<Rightarrow> real list" where
  "ref_dogleg (u # v # vs) = arccos (dot3 u v) # ref_dogleg (v # vs)"
| "ref_dogleg vs = []"

definition ref_rf :: "real \<Rightarrow> real" where
  "ref_rf d = (if d = 0 then 1 else 2 / d * tan (d / 2))"

fun ref_steps :: "real list \<Rightarrow> vec3 list \<Rightarrow> vec3 list" where
  "ref_steps (m0 # m1 # ms) (u # v # vs) =
     scale3 ((m1 - m0) / 2 * ref_rf (arccos (dot3 u v))) (add3 u v) # ref_steps (m1 # ms) (v # vs)"
| "ref_steps ms vs = []"

fun ref_path :: "vec3 \<Rightarrow> vec3 list \<Rightarrow> vec3 list" where
  "ref_path p [] = [p]"
| "ref_path p (s # ss) = p # ref_path (add3 p s) ss"

definition ref_MinCurve :: "real list \<Rightarrow> real list \<Rightarrow> real list \<Rightarrow> vec3 \<Rightarrow> string \<Rightarrow> mincurve" where
  "ref_MinCurve md inc azi start_xyz unit =
     (let vecs = ref_get_vec inc azi;
          dmd = (if md = [] then [] else 0 # ref_delta_md md);
          dl = (if md = [] then [] else 0 # ref_dogleg vecs)
      in \<lparr>mc_dogleg = dl,
          mc_rf = map ref_rf dl,
          mc_delta_md = dmd,
          mc_dls = map2 (\<lambda>d m. if m = 0 then 0 else degrees d / m * 30) dl dmd,
          mc_poss = (if md = [] then [] else ref_path start_xyz (ref_steps md vecs))\<rparr>)"

text \<open>
  The error model is only given its output shape, \<open>(3,3,n)\<close>: every covariance entry of
  station \<open>k\<close> is its measured depth. The ISCWSA formulas are not reproduced.
\<close>

definition ref_ErrorModel :: "vec3 list \<Rightarrow> vec3 \<Rightarrow> unit option \<Rightarrow> errormodel" where
  "ref_ErrorModel survey_deg surface_loc well_ref_params =
     \<lparr>cov_HLAs = replicate 3 (replicate 3 (col0 survey_deg)),
      cov_NEVs = replicate 3 (replicate 3 (col0 survey_deg))\<rparr>"

definition ref_collab :: "unit collab" where
  "ref_collab =
     \<lparr>MinCurve = ref_MinCurve, get_nev = ref_get_nev, get_vec = ref_get_vec,
      get_angles = ref_get_angles, ErrorModel = ref_ErrorModel\<rparr>"

section \<open>Example surveys\<close>

text \<open>
  Surveys built by the constructor with the reference collaborators, in an empty
  world: two vertical wells, a vertical interval whose azimuth turns from 0 to 1
  radian, and a build section from vertical to horizontal. Then four variations: the
  build section at azimuth 1 radian, a well whose measured depth decreases, a vertical
  well constructed with positions of the caller (station 1 is 5 units off the
  vertical), and the build section constructed with tangent vectors of the caller
  (both vertical).
\<close>

definition vertical_well :: "unit world" where
  "vertical_well = fst (new_Survey ref_collab ([], []) (Survey_args [0, 100] [0, 0] [0, 0]))"

definition twisted_well :: "unit world" where
  "twisted_well = fst (new_Survey ref_collab ([], []) ((Survey_args [0, 100] [0, 0] [0, 1])\<lparr>arg_deg := False\<rparr>))"

definition build_section :: "unit world" where
  "build_section = fst (new_Survey ref_collab ([], []) ((Survey_args [0, 100] [0, pi / 2] [0, 0])\<lparr>arg_deg := False\<rparr>))"

definition long_vertical_well :: "unit world" where
  "long_vertical_well = fst (new_Survey ref_collab ([], []) (Survey_args [0, 100, 200] [0, 0, 0] [0, 0, 0]))"

definition turned_build_section :: "unit world" where
  "turned_build_section = fst (new_Survey ref_collab ([], []) ((Survey_args [0, 100] [0, pi / 2] [1, 1])\<lparr>arg_deg := False\<rparr>))"

definition reversed_well :: "unit world" where
  "reversed_well = fst (new_Survey ref_collab ([], []) (Survey_args [100, 0] [0, 0] [0, 0]))"

definition offset_well :: "unit world" where
  "offset_well = fst (new_Survey ref_collab ([], [])
     ((Survey_args [0, 100] [0, 0] [0, 0])\<lparr>arg_x := Some [0, 5], arg_y := Some [0, 0], arg_z := Some [0, 100]\<rparr>))"

definition restated_build_section :: "unit world" where
  "restated_build_section = fst (new_Survey ref_collab ([], [])
     ((Survey_args [0, 100] [0, pi / 2] [0, 0])\<lparr>arg_deg := False, arg_vec := Some [(0, 0, 1), (0, 0, 1)]\<rparr>))"

section \<open>Proof support\<close>

text \<open>
  The object as \<^verbatim>\<open>__init__\<close> has assigned it when it reaches \<^verbatim>\<open>self._min_curve()\<close>,
  for \<^verbatim>\<open>md\<close>, \<^verbatim>\<open>inc\<close> and \<^verbatim>\<open>azi\<close> of one length. It is what the first lets of
  \<open>Survey_init\<close> compute, named so that the lemmas can refer to it.
\<close>

definition attributes_assigned :: "'w init_args \<Rightarrow> 'w survey" where
  "attributes_assigned a =
     (let self3 = (Survey_make_angles
                     (new_object\<lparr>sv_unit := arg_unit a, sv_deg := arg_deg a,
                                 sv_start_xyz := arg_start_xyz a, sv_start_nev := arg_start_nev a,
                                 sv_md := arg_md a\<rparr>)
                     (arg_inc a) (arg_azi a) (arg_deg a))\<lparr>sv_radius := arg_radius a\<rparr>
      in self3\<lparr>sv_survey_deg := zip (sv_md self3) (zip (sv_inc_deg self3) (sv_azi_deg self3)),
               sv_survey_rad := zip (sv_md self3) (zip (sv_inc_rad self3) (sv_azi_rad self3)),
               sv_n := arg_n a, sv_e := arg_e a, sv_tvd := arg_tvd a,
               sv_x := arg_x a, sv_y := arg_y a, sv_z := arg_z a,
               sv_vec := arg_vec a\<rparr>)"

text \<open>
  The parts of \<^verbatim>\<open>interpolate_survey\<close> after its checks: the choice of the
  interpolated angles, the arguments of the new survey, and the three statements
  \<^verbatim>\<open>s = Survey(...); s._min_curve(); return s\<close>. They are the inner terms of the
  definition of \<open>interpolate_survey\<close>, named so that the lemmas can refer to them.
\<close>

definition interpolated_angles ::
  "'w collab \<Rightarrow> event list \<Rightarrow> 'w survey \<Rightarrow> real \<Rightarrow> int \<Rightarrow> real \<Rightarrow> real \<Rightarrow> event list \<times> (error + real \<times> real)" where
  "interpolated_angles c tr survey x index dmd total_dogleg =
     (if total_dogleg = 0 then
             (case py_index (sv_azi_rad survey) index of Inl err \<Rightarrow> (tr, Inl err) | Inr azi \<Rightarrow>
              case py_index (sv_inc_rad survey) index of Inl err \<Rightarrow> (tr, Inl err) | Inr inc \<Rightarrow>
                (tr, Inr (inc, azi)))
           else
             (case py_index_opt (sv_vec survey) index of Inl err \<Rightarrow> (tr, Inl err) | Inr t1 \<Rightarrow>
              case py_index_opt (sv_vec survey) (index + 1) of Inl err \<Rightarrow> (tr, Inl err) | Inr t2 \<Rightarrow>
              if dmd = 0 then (tr, Inl NonFinite) else
              (let dogleg = x * (total_dogleg / dmd) in
               if sin total_dogleg = 0 then (tr, Inl ZeroDivisionError) else
               (let t = add3 (scale3 (sin (total_dogleg - dogleg) / sin total_dogleg) t1)
                             (scale3 (sin dogleg / sin total_dogleg) t2)
                in case py_index (get_angles c t) 0 of
                     Inl err \<Rightarrow> (tr @ [Call_get_angles], Inl err)
                   | Inr ia \<Rightarrow> (tr @ [Call_get_angles], Inr ia)))))"

definition construct_result :: "'w collab \<Rightarrow> 'w world \<Rightarrow> 'w init_args \<Rightarrow> 'w world \<times> (error + nat)" where
  "construct_result c w a =
     (case new_Survey c w a of
           (w2, Inl err) \<Rightarrow> (w2, Inl err)
         | ((h2, tr2), Inr s) \<Rightarrow>
             (case Survey_min_curve c tr2 (h2 ! s) of
                (tr3, Inl err) \<Rightarrow> ((h2, tr3), Inl err)
              | (tr3, Inr self) \<Rightarrow> ((h2[s := self], tr3), Inr s)))"

definition interpolated_station ::
  "'w collab \<Rightarrow> 'w survey list \<Rightarrow> event list \<Rightarrow> 'w survey \<Rightarrow> real \<Rightarrow> int \<Rightarrow> real \<times> real \<Rightarrow> 'w world \<times> (error + nat)" where
  "interpolated_station c h tr1 survey x index ia =
     (case ia of (inc, azi) \<Rightarrow>
       (case py_index (sv_md survey) index of Inl err \<Rightarrow> ((h, tr1), Inl err) | Inr md0 \<Rightarrow>
        case py_index (sv_inc_rad survey) index of Inl err \<Rightarrow> ((h, tr1), Inl err) | Inr inc0 \<Rightarrow>
        case py_index (sv_azi_rad survey) index of Inl err \<Rightarrow> ((h, tr1), Inl err) | Inr azi0 \<Rightarrow>
        case stack3T (sv_x survey) (sv_y survey) (sv_z survey) of Inl err \<Rightarrow> ((h, tr1), Inl err) | Inr xyz \<Rightarrow>
        case py_index xyz index of Inl err \<Rightarrow> ((h, tr1), Inl err) | Inr start_xyz \<Rightarrow>
        case stack3T (sv_n survey) (sv_e survey) (sv_tvd survey) of Inl err \<Rightarrow> ((h, tr1), Inl err) | Inr nev \<Rightarrow>
        case py_index nev index of Inl err \<Rightarrow> ((h, tr1), Inl err) | Inr start_nev \<Rightarrow>
        construct_result c (h, tr1)
                ((Survey_args [md0, md0 + x] [inc0, inc] [azi0, azi])
                   \<lparr>arg_start_xyz := start_xyz, arg_start_nev := start_nev, arg_deg := False\<rparr>)))"

text \<open>
  What \<^verbatim>\<open>interpolate_survey\<close> reads of a constructed survey: the per-station sequences,
  each present and of the length of \<^verbatim>\<open>md\<close>. The constructor establishes this when the
  caller overrides nothing and the collaborators return sequences of that length
  (lemma \<open>constructed_stations_ok\<close>).
\<close>

definition has_length :: "'a list option \<Rightarrow> nat \<Rightarrow> bool" where
  "has_length xs n = (case xs of None \<Rightarrow> False | Some ys \<Rightarrow> length ys = n)"

definition stations_ok :: "'w survey \<Rightarrow> bool" where
  "stations_ok s =
     (let n = length (sv_md s)
      in length (sv_inc_rad s) = n \<and> length (sv_azi_rad s) = n \<and>
         length (sv_dogleg s) = n \<and> length (sv_delta_md s) = n \<and>
         has_length (sv_x s) n \<and> has_length (sv_y s) n \<and> has_length (sv_z s) n \<and>
         has_length (sv_n s) n \<and> has_length (sv_e s) n \<and> has_length (sv_tvd s) n \<and>
         has_length (sv_vec s) n)"

text \<open>
  Station \<open>k\<close> of a survey: its Cartesian position, read from the attributes
  \<^verbatim>\<open>x\<close>, \<^verbatim>\<open>y\<close> and \<^verbatim>\<open>z\<close>, and its inclination and azimuth in radians.
\<close>

definition station_xyz :: "'w survey \<Rightarrow> nat \<Rightarrow> vec3" where
  "station_xyz s k = (the (sv_x s) ! k, the (sv_y s) ! k, the (sv_z s) ! k)"

definition station_angles :: "'w survey \<Rightarrow> nat \<Rightarrow> real \<times> real" where
  "station_angles s k = (sv_inc_rad s ! k, sv_azi_rad s ! k)"

section \<open>Properties of the covariance builder\<close>

lemma upt_0_3: "[0..<3] = [0, Suc 0, Suc (Suc 0)]"
  by (simp add: numeral_3_eq_3 upt_conv_Cons)

lemma ndarray_T3_33n:
  assumes "length m00 = n"
  shows "length (ndarray_T3 [[m00,m01,m02],[m10,m11,m12],[m20,m21,m22]]) = n"
    and "k < n \<Longrightarrow> ndarray_T3 [[m00,m01,m02],[m10,m11,m12],[m20,m21,m22]] ! k
         = [[m00 ! k, m10 ! k, m20 ! k],[m01 ! k, m11 ! k, m21 ! k],[m02 ! k, m12 ! k, m22 ! k]]"
  using assms by (simp_all add: ndarray_T3_def Let_def upt_0_3)

text \<open>
  Claim C7. For sequences \<open>a\<close>, \<open>b\<close>, \<open>c\<close> of one length \<open>n\<close>, \<^verbatim>\<open>make_cov\<close> returns
  \<open>n\<close> matrices of three rows and three columns. With \<^verbatim>\<open>diag\<close> true the matrix of
  station \<open>k\<close> has \<open>a\<^sup>2\<close>, \<open>b\<^sup>2\<close>, \<open>c\<^sup>2\<close> on the diagonal and zero elsewhere; with
  \<^verbatim>\<open>diag\<close> false it has the same diagonal, the products \<open>a\<cdot>b\<close>, \<open>a\<cdot>c\<close>, \<open>b\<cdot>c\<close> off
  the diagonal, and is symmetric.
\<close>

theorem make_cov_stations:
  assumes "length b = length a" and "length c = length a"
  shows "(\<exists>cov. make_cov a b c True = Inr cov \<and> length cov = length a \<and>
            (\<forall>k<length a. cov ! k = [[(a ! k)\<^sup>2, 0, 0], [0, (b ! k)\<^sup>2, 0], [0, 0, (c ! k)\<^sup>2]]))
       \<and> (\<exists>cov. make_cov a b c False = Inr cov \<and> length cov = length a \<and>
            (\<forall>k<length a. cov ! k = [[(a ! k)\<^sup>2, a ! k * b ! k, a ! k * c ! k],
                                      [a ! k * b ! k, (b ! k)\<^sup>2, b ! k * c ! k],
                                      [a ! k * c ! k, b ! k * c ! k, (c ! k)\<^sup>2]]
                 \<and> (\<forall>i<3. \<forall>j<3. cov ! k ! i ! j = cov ! k ! j ! i)))"
proof (intro conjI)
  show "\<exists>cov. make_cov a b c True = Inr cov \<and> length cov = length a \<and>
            (\<forall>k<length a. cov ! k = [[(a ! k)\<^sup>2, 0, 0], [0, (b ! k)\<^sup>2, 0], [0, 0, (c ! k)\<^sup>2]])"
    using assms by (simp add: make_cov_def Let_def ndarray_T3_33n arr_mul_def power2_eq_square)
next
  show "\<exists>cov. make_cov a b c False = Inr cov \<and> length cov = length a \<and>
            (\<forall>k<length a. cov ! k = [[(a ! k)\<^sup>2, a ! k * b ! k, a ! k * c ! k],
                                      [a ! k * b ! k, (b ! k)\<^sup>2, b ! k * c ! k],
                                      [a ! k * c ! k, b ! k * c ! k, (c ! k)\<^sup>2]]
                 \<and> (\<forall>i<3. \<forall>j<3. cov ! k ! i ! j = cov ! k ! j ! i))"
    using assms
    by (simp add: make_cov_def Let_def ndarray_T3_33n arr_mul_def power2_eq_square)
       (auto simp: less_Suc_eq numeral_3_eq_3)
qed

theorem make_cov_stations_witness:
  "make_cov [1, 2] [3, 4] [5, 6] True = Inr [[[1, 0, 0], [0, 9, 0], [0, 0, 25]], [[4, 0, 0], [0, 16, 0], [0, 0, 36]]]
   \<and> make_cov [1, 2] [3, 4] [5, 6] False
       = Inr [[[1, 3, 5], [3, 9, 15], [5, 15, 25]], [[4, 8, 12], [8, 16, 24], [12, 24, 36]]]"
  using make_cov_stations [of "[3, 4]" "[1, 2]" "[5, 6]"]
  by (simp add: make_cov_def Let_def ndarray_T3_def arr_mul_def upt_0_3 upt_conv_Cons)


section \<open>Properties of the constructor\<close>
lemma stack3T_Some:
  "stack3T (Some xs) (Some ys) (Some zs) =
     (if length ys = length xs \<and> length zs = length xs then Inr (zip xs (zip ys zs)) else Inl ShapeError)"
  by (simp add: stack3T_def)

lemma stack3T_error: "stack3T a b c = Inl e \<Longrightarrow> e = ShapeError"
  by (auto simp: stack3T_def split: option.splits if_splits)

lemma stack3T_cols: "stack3T (Some (col0 p)) (Some (col1 p)) (Some (col2 p)) = Inr p"
  by (simp add: stack3T_def col0_def col1_def col2_def zip_map_map) (induction p; simp)

lemma stack3T_Inr_length:
  "stack3T a b c = Inr p \<Longrightarrow> a = Some (col0 p) \<and> b = Some (col1 p) \<and> c = Some (col2 p)"
  by (auto simp: stack3T_def col0_def col1_def col2_def split: option.splits if_splits
           intro: nth_equalityI)



lemma Survey_min_curve_frame:
  assumes "Survey_min_curve c tr self = (tr', Inr s')"
  shows "sv_md s' = sv_md self" and "sv_inc_rad s' = sv_inc_rad self" and "sv_azi_rad s' = sv_azi_rad self"
    and "sv_inc_deg s' = sv_inc_deg self" and "sv_azi_deg s' = sv_azi_deg self"
    and "sv_start_xyz s' = sv_start_xyz self" and "sv_start_nev s' = sv_start_nev self"
    and "sv_unit s' = sv_unit self" and "sv_survey_deg s' = sv_survey_deg self"
    and "sv_error_model s' = sv_error_model self" and "sv_well_ref_params s' = sv_well_ref_params self"
    and "sv_cov_hla s' = sv_cov_hla self" and "sv_cov_nev s' = sv_cov_nev self"
  using assms
  by (auto simp: Survey_min_curve_def Survey_get_nev_def Let_def
      split: sum.splits if_splits prod.splits)

lemma Survey_min_curve_geometry:
  assumes "Survey_min_curve c tr self = (tr', Inr s')"
  shows "sv_dogleg s' = mc_dogleg (MinCurve c (sv_md self) (sv_inc_rad self) (sv_azi_rad self) (sv_start_xyz self) (sv_unit self))"
    and "sv_rf s' = mc_rf (MinCurve c (sv_md self) (sv_inc_rad self) (sv_azi_rad self) (sv_start_xyz self) (sv_unit self))"
    and "sv_delta_md s' = mc_delta_md (MinCurve c (sv_md self) (sv_inc_rad self) (sv_azi_rad self) (sv_start_xyz self) (sv_unit self))"
    and "sv_dls s' = mc_dls (MinCurve c (sv_md self) (sv_inc_rad self) (sv_azi_rad self) (sv_start_xyz self) (sv_unit self))"
  using assms
  by (auto simp: Survey_min_curve_def Survey_get_nev_def Let_def
      split: sum.splits if_splits prod.splits)

lemma Survey_min_curve_xyz:
  assumes "Survey_min_curve c tr self = (tr', Inr s')"
  shows "sv_x self = None \<Longrightarrow>
           sv_x s' = Some (col0 (mc_poss (MinCurve c (sv_md self) (sv_inc_rad self) (sv_azi_rad self) (sv_start_xyz self) (sv_unit self)))) \<and>
           sv_y s' = Some (col1 (mc_poss (MinCurve c (sv_md self) (sv_inc_rad self) (sv_azi_rad self) (sv_start_xyz self) (sv_unit self)))) \<and>
           sv_z s' = Some (col2 (mc_poss (MinCurve c (sv_md self) (sv_inc_rad self) (sv_azi_rad self) (sv_start_xyz self) (sv_unit self))))"
    and "sv_x self \<noteq> None \<Longrightarrow> sv_x s' = sv_x self \<and> sv_y s' = sv_y self \<and> sv_z s' = sv_z self"
  using assms
  by (auto simp: Survey_min_curve_def Survey_get_nev_def Let_def
      split: sum.splits if_splits prod.splits)

lemma Survey_min_curve_nev:
  assumes "Survey_min_curve c tr self = (tr', Inr s')"
  shows "sv_n self \<noteq> None \<Longrightarrow> sv_n s' = sv_n self \<and> sv_e s' = sv_e self \<and> sv_tvd s' = sv_tvd self"
    and "sv_n self = None \<Longrightarrow>
           \<exists>pos. stack3T (sv_x s') (sv_y s') (sv_z s') = Inr pos \<and>
             sv_n s' = Some (col0 (get_nev c pos (sv_start_xyz self) (sv_start_nev self))) \<and>
             sv_e s' = Some (col1 (get_nev c pos (sv_start_xyz self) (sv_start_nev self))) \<and>
             sv_tvd s' = Some (col2 (get_nev c pos (sv_start_xyz self) (sv_start_nev self)))"
  using assms
  by (auto simp: Survey_min_curve_def Survey_get_nev_def Let_def
      split: sum.splits if_splits prod.splits)

lemma Survey_min_curve_vec:
  assumes "Survey_min_curve c tr self = (tr', Inr s')"
  shows "sv_vec self \<noteq> None \<Longrightarrow> sv_vec s' = sv_vec self"
    and "sv_vec self = None \<Longrightarrow> sv_vec s' = Some (get_vec c (sv_inc_rad self) (sv_azi_rad self))"
  using assms
  by (auto simp: Survey_min_curve_def Survey_get_nev_def Let_def
      split: sum.splits if_splits prod.splits)

lemma Survey_min_curve_trace:
  "fst (Survey_min_curve c tr self) =
     tr @ [Call_MinCurve]
        @ (if sv_n self = None \<and>
              (sv_x self = None \<or> (\<exists>p. stack3T (sv_x self) (sv_y self) (sv_z self) = Inr p))
           then [Call_get_nev] else [])
        @ (if sv_vec self = None \<and>
              (sv_n self \<noteq> None \<or> sv_x self = None \<or> (\<exists>p. stack3T (sv_x self) (sv_y self) (sv_z self) = Inr p))
           then [Call_get_vec] else [])"
  by (auto simp: Survey_min_curve_def Survey_get_nev_def Let_def stack3T_cols
      split: sum.splits if_splits prod.splits)

lemma Survey_min_curve_error:
  "Survey_min_curve c tr self = (tr', Inl e) \<longleftrightarrow>
     (sv_n self = None \<and> sv_x self \<noteq> None \<and> stack3T (sv_x self) (sv_y self) (sv_z self) = Inl e
      \<and> tr' = tr @ [Call_MinCurve])"
  by (auto simp: Survey_min_curve_def Survey_get_nev_def Let_def stack3T_cols
      split: sum.splits if_splits prod.splits)


lemma Survey_get_errors_frame:
  assumes "Survey_get_errors c tr self = (tr', s')"
  shows "sv_md s' = sv_md self" and "sv_inc_rad s' = sv_inc_rad self" and "sv_azi_rad s' = sv_azi_rad self"
    and "sv_inc_deg s' = sv_inc_deg self" and "sv_azi_deg s' = sv_azi_deg self"
    and "sv_start_xyz s' = sv_start_xyz self" and "sv_start_nev s' = sv_start_nev self"
    and "sv_unit s' = sv_unit self" and "sv_survey_deg s' = sv_survey_deg self"
    and "sv_x s' = sv_x self" and "sv_y s' = sv_y self" and "sv_z s' = sv_z self"
    and "sv_n s' = sv_n self" and "sv_e s' = sv_e self" and "sv_tvd s' = sv_tvd self"
    and "sv_vec s' = sv_vec self" and "sv_dogleg s' = sv_dogleg self" and "sv_delta_md s' = sv_delta_md self"
    and "sv_rf s' = sv_rf self" and "sv_dls s' = sv_dls self"
    and "sv_error_model s' = sv_error_model self" and "sv_well_ref_params s' = sv_well_ref_params self"
  using assms
  by (auto simp: Survey_get_errors_def Let_def split: if_splits)

lemma Survey_get_errors_cov:
  assumes "Survey_get_errors c tr self = (tr', s')"
  shows "sv_error_model self = Some ''ISCWSA_MWD'' \<Longrightarrow>
           tr' = tr @ [Call_ErrorModel] \<and>
           sv_cov_hla s' = Some (ndarray_T3 (cov_HLAs (ErrorModel c (sv_survey_deg self) (sv_start_xyz self) (sv_well_ref_params self)))) \<and>
           sv_cov_nev s' = Some (ndarray_T3 (cov_NEVs (ErrorModel c (sv_survey_deg self) (sv_start_xyz self) (sv_well_ref_params self))))"
    and "sv_error_model self \<noteq> Some ''ISCWSA_MWD'' \<Longrightarrow>
           tr' = tr \<and> s' = self"
  using assms
  by (auto simp: Survey_get_errors_def Let_def split: if_splits)


lemma attributes_assigned_fields:
  shows "sv_md (attributes_assigned a) = arg_md a"
    and "sv_inc_rad (attributes_assigned a) = (if arg_deg a then map radians (arg_inc a) else arg_inc a)"
    and "sv_azi_rad (attributes_assigned a) = (if arg_deg a then map radians (arg_azi a) else arg_azi a)"
    and "sv_inc_deg (attributes_assigned a) = (if arg_deg a then arg_inc a else map degrees (arg_inc a))"
    and "sv_azi_deg (attributes_assigned a) = (if arg_deg a then arg_azi a else map degrees (arg_azi a))"
    and "sv_start_xyz (attributes_assigned a) = arg_start_xyz a"
    and "sv_start_nev (attributes_assigned a) = arg_start_nev a"
    and "sv_unit (attributes_assigned a) = arg_unit a"
    and "sv_survey_deg (attributes_assigned a)
           = zip (arg_md a) (zip (sv_inc_deg (attributes_assigned a)) (sv_azi_deg (attributes_assigned a)))"
    and "sv_x (attributes_assigned a) = arg_x a" and "sv_y (attributes_assigned a) = arg_y a"
    and "sv_z (attributes_assigned a) = arg_z a" and "sv_n (attributes_assigned a) = arg_n a"
    and "sv_e (attributes_assigned a) = arg_e a" and "sv_tvd (attributes_assigned a) = arg_tvd a"
    and "sv_vec (attributes_assigned a) = arg_vec a"
    and "sv_error_model (attributes_assigned a) = None"
    and "sv_cov_hla (attributes_assigned a) = None" and "sv_cov_nev (attributes_assigned a) = None"
  by (simp_all add: attributes_assigned_def Survey_make_angles_def new_object_def Let_def)

lemma Survey_init_unfold:
  "Survey_init c tr a =
     (if length (arg_inc a) \<noteq> length (arg_md a) \<or> length (arg_azi a) \<noteq> length (arg_md a)
      then (tr, Inl ShapeError)
      else case Survey_min_curve c tr (attributes_assigned a) of
             (tr1, Inl err) \<Rightarrow> (tr1, Inl err)
           | (tr1, Inr self5) \<Rightarrow>
               if arg_error_model a \<noteq> None \<and> arg_error_model a \<noteq> Some ''ISCWSA_MWD''
               then (tr1, Inl InvalidConfiguration)
               else (case Survey_get_errors c tr1
                            (self5\<lparr>sv_error_model := arg_error_model a,
                                   sv_well_ref_params := arg_well_ref_params a,
                                   sv_cov_hla := arg_cov_hla a, sv_cov_nev := arg_cov_nev a\<rparr>) of
                       (tr2, self7) \<Rightarrow> (tr2, Inr self7)))"
proof -
  have len: "length (sv_inc_deg (Survey_make_angles s i z d)) = length i"
            "length (sv_azi_deg (Survey_make_angles s i z d)) = length z"
            "length (sv_inc_rad (Survey_make_angles s i z d)) = length i"
            "length (sv_azi_rad (Survey_make_angles s i z d)) = length z"
            "sv_md (Survey_make_angles s i z d) = sv_md s"
    for s :: "'w survey" and i z d
    by (simp_all add: Survey_make_angles_def)
  show ?thesis
    unfolding Survey_init_def attributes_assigned_def Let_def
    by (cases "arg_error_model a")
       (auto simp: stack3T_Some len error_models_def split: prod.split sum.split)
qed


lemma Survey_init_InrE:
  assumes "Survey_init c tr a = (tr', Inr s)"
  obtains tr1 s5 where
    "length (arg_inc a) = length (arg_md a)" and "length (arg_azi a) = length (arg_md a)"
    and "Survey_min_curve c tr (attributes_assigned a) = (tr1, Inr s5)"
    and "arg_error_model a = None \<or> arg_error_model a = Some ''ISCWSA_MWD''"
    and "Survey_get_errors c tr1
           (s5\<lparr>sv_error_model := arg_error_model a, sv_well_ref_params := arg_well_ref_params a,
               sv_cov_hla := arg_cov_hla a, sv_cov_nev := arg_cov_nev a\<rparr>) = (tr', s)"
  using assms unfolding Survey_init_unfold
  by (auto split: if_splits prod.splits sum.splits)

lemma Survey_init_fields:
  assumes "Survey_init c tr a = (tr', Inr s)"
  shows "sv_md s = arg_md a"
    and "sv_inc_rad s = (if arg_deg a then map radians (arg_inc a) else arg_inc a)"
    and "sv_azi_rad s = (if arg_deg a then map radians (arg_azi a) else arg_azi a)"
    and "sv_inc_deg s = (if arg_deg a then arg_inc a else map degrees (arg_inc a))"
    and "sv_azi_deg s = (if arg_deg a then arg_azi a else map degrees (arg_azi a))"
    and "sv_start_xyz s = arg_start_xyz a"
    and "sv_start_nev s = arg_start_nev a"
    and "sv_unit s = arg_unit a"
    and "sv_survey_deg s = zip (arg_md a) (zip (sv_inc_deg s) (sv_azi_deg s))"
    and "sv_well_ref_params s = arg_well_ref_params a"
    and "sv_error_model s = arg_error_model a"
proof -
  from assms obtain tr1 s5 where
    mc: "Survey_min_curve c tr (attributes_assigned a) = (tr1, Inr s5)" and
    ge: "Survey_get_errors c tr1
           (s5\<lparr>sv_error_model := arg_error_model a, sv_well_ref_params := arg_well_ref_params a,
               sv_cov_hla := arg_cov_hla a, sv_cov_nev := arg_cov_nev a\<rparr>) = (tr', s)"
    by (rule Survey_init_InrE)
  note f = Survey_get_errors_frame [OF ge] Survey_min_curve_frame [OF mc] attributes_assigned_fields
  show "sv_md s = arg_md a" by (simp add: f)
  show "sv_inc_rad s = (if arg_deg a then map radians (arg_inc a) else arg_inc a)" by (simp add: f)
  show "sv_azi_rad s = (if arg_deg a then map radians (arg_azi a) else arg_azi a)" by (simp add: f)
  show "sv_inc_deg s = (if arg_deg a then arg_inc a else map degrees (arg_inc a))" by (simp add: f)
  show "sv_azi_deg s = (if arg_deg a then arg_azi a else map degrees (arg_azi a))" by (simp add: f)
  show "sv_start_xyz s = arg_start_xyz a" by (simp add: f)
  show "sv_start_nev s = arg_start_nev a" by (simp add: f)
  show "sv_unit s = arg_unit a" by (simp add: f)
  show "sv_survey_deg s = zip (arg_md a) (zip (sv_inc_deg s) (sv_azi_deg s))" by (simp add: f)
  show "sv_well_ref_params s = arg_well_ref_params a" by (simp add: f)
  show "sv_error_model s = arg_error_model a" by (simp add: f)
qed

text \<open>
  Claim C10. Whether the caller's positions are kept depends on \<^verbatim>\<open>x\<close> alone, and
  whether the caller's NEV coordinates are kept on \<^verbatim>\<open>n\<close> alone. Without \<^verbatim>\<open>x\<close>, all of
  \<^verbatim>\<open>x\<close>, \<^verbatim>\<open>y\<close>, \<^verbatim>\<open>z\<close> are the solver's positions, whatever \<^verbatim>\<open>y\<close> and \<^verbatim>\<open>z\<close> the caller
  gave; with \<^verbatim>\<open>x\<close>, all three are the caller's, an absent one staying absent. Without
  \<^verbatim>\<open>n\<close>, all of \<^verbatim>\<open>n\<close>, \<^verbatim>\<open>e\<close>, \<^verbatim>\<open>tvd\<close> are the projection of the stored positions;
  with \<^verbatim>\<open>n\<close>, all three are the caller's.
\<close>

theorem Survey_init_overrides:
  assumes "Survey_init c tr a = (tr', Inr s)"
  shows "(arg_x a = None \<longrightarrow>
            sv_x s = Some (col0 (mc_poss (MinCurve c (sv_md s) (sv_inc_rad s) (sv_azi_rad s) (sv_start_xyz s) (sv_unit s)))) \<and>
            sv_y s = Some (col1 (mc_poss (MinCurve c (sv_md s) (sv_inc_rad s) (sv_azi_rad s) (sv_start_xyz s) (sv_unit s)))) \<and>
            sv_z s = Some (col2 (mc_poss (MinCurve c (sv_md s) (sv_inc_rad s) (sv_azi_rad s) (sv_start_xyz s) (sv_unit s)))))
       \<and> (arg_x a \<noteq> None \<longrightarrow> sv_x s = arg_x a \<and> sv_y s = arg_y a \<and> sv_z s = arg_z a)
       \<and> (arg_n a \<noteq> None \<longrightarrow> sv_n s = arg_n a \<and> sv_e s = arg_e a \<and> sv_tvd s = arg_tvd a)
       \<and> (arg_n a = None \<longrightarrow>
            (\<exists>pos. stack3T (sv_x s) (sv_y s) (sv_z s) = Inr pos \<and>
               sv_n s = Some (col0 (get_nev c pos (sv_start_xyz s) (sv_start_nev s))) \<and>
               sv_e s = Some (col1 (get_nev c pos (sv_start_xyz s) (sv_start_nev s))) \<and>
               sv_tvd s = Some (col2 (get_nev c pos (sv_start_xyz s) (sv_start_nev s)))))"
proof -
  from assms obtain tr1 s5 where
    mc: "Survey_min_curve c tr (attributes_assigned a) = (tr1, Inr s5)" and
    ge: "Survey_get_errors c tr1
           (s5\<lparr>sv_error_model := arg_error_model a, sv_well_ref_params := arg_well_ref_params a,
               sv_cov_hla := arg_cov_hla a, sv_cov_nev := arg_cov_nev a\<rparr>) = (tr', s)"
    by (rule Survey_init_InrE)
  note g = Survey_get_errors_frame [OF ge]
  note f = Survey_min_curve_frame [OF mc] attributes_assigned_fields
  have same: "sv_md s = sv_md (attributes_assigned a)" "sv_inc_rad s = sv_inc_rad (attributes_assigned a)"
    "sv_azi_rad s = sv_azi_rad (attributes_assigned a)" "sv_start_xyz s = sv_start_xyz (attributes_assigned a)"
    "sv_start_nev s = sv_start_nev (attributes_assigned a)" "sv_unit s = sv_unit (attributes_assigned a)"
    by (simp_all add: g Survey_min_curve_frame [OF mc])
  have xyz: "sv_x s = sv_x s5" "sv_y s = sv_y s5" "sv_z s = sv_z s5"
    and nev: "sv_n s = sv_n s5" "sv_e s = sv_e s5" "sv_tvd s = sv_tvd s5"
    by (simp_all add: g)
  have 1: "arg_x a = None \<longrightarrow>
            sv_x s = Some (col0 (mc_poss (MinCurve c (sv_md s) (sv_inc_rad s) (sv_azi_rad s) (sv_start_xyz s) (sv_unit s)))) \<and>
            sv_y s = Some (col1 (mc_poss (MinCurve c (sv_md s) (sv_inc_rad s) (sv_azi_rad s) (sv_start_xyz s) (sv_unit s)))) \<and>
            sv_z s = Some (col2 (mc_poss (MinCurve c (sv_md s) (sv_inc_rad s) (sv_azi_rad s) (sv_start_xyz s) (sv_unit s))))"
    unfolding same xyz using Survey_min_curve_xyz(1) [OF mc]
    by (simp add: attributes_assigned_fields(10))
  have 2: "arg_x a \<noteq> None \<longrightarrow> sv_x s = arg_x a \<and> sv_y s = arg_y a \<and> sv_z s = arg_z a"
    unfolding xyz using Survey_min_curve_xyz(2) [OF mc]
    by (simp add: attributes_assigned_fields)
  have 3: "arg_n a \<noteq> None \<longrightarrow> sv_n s = arg_n a \<and> sv_e s = arg_e a \<and> sv_tvd s = arg_tvd a"
    unfolding nev using Survey_min_curve_nev(1) [OF mc]
    by (simp add: attributes_assigned_fields)
  have 4: "arg_n a = None \<longrightarrow>
            (\<exists>pos. stack3T (sv_x s) (sv_y s) (sv_z s) = Inr pos \<and>
               sv_n s = Some (col0 (get_nev c pos (sv_start_xyz s) (sv_start_nev s))) \<and>
               sv_e s = Some (col1 (get_nev c pos (sv_start_xyz s) (sv_start_nev s))) \<and>
               sv_tvd s = Some (col2 (get_nev c pos (sv_start_xyz s) (sv_start_nev s))))"
    unfolding same xyz nev using Survey_min_curve_nev(2) [OF mc]
    by (simp add: attributes_assigned_fields(13))
  from 1 2 3 4 show ?thesis by blast
qed

lemma Survey_min_curve_succeeds:
  assumes "sv_n self \<noteq> None \<or> sv_x self = None \<or> (\<exists>p. stack3T (sv_x self) (sv_y self) (sv_z self) = Inr p)"
  shows "\<exists>s'. Survey_min_curve c tr self = (fst (Survey_min_curve c tr self), Inr s')"
proof (cases "snd (Survey_min_curve c tr self)")
  case (Inl e)
  then have "Survey_min_curve c tr self = (fst (Survey_min_curve c tr self), Inl e)"
    by (simp add: prod_eq_iff)
  with assms show ?thesis
    unfolding Survey_min_curve_error by auto
next
  case (Inr s')
  then show ?thesis by (auto simp: prod_eq_iff)
qed

lemma Survey_get_errors_trace:
  "fst (Survey_get_errors c tr self) =
     tr @ (if sv_error_model self = Some ''ISCWSA_MWD'' then [Call_ErrorModel] else [])"
  by (simp add: Survey_get_errors_def Let_def)

lemma Survey_init_succeeds:
  assumes "length (arg_inc a) = length (arg_md a)" and "length (arg_azi a) = length (arg_md a)"
    and "arg_error_model a = None \<or> arg_error_model a = Some ''ISCWSA_MWD''"
    and "arg_n a \<noteq> None \<or> arg_x a = None \<or> (\<exists>p. stack3T (arg_x a) (arg_y a) (arg_z a) = Inr p)"
  shows "\<exists>s. Survey_init c tr a =
           (tr @ [Call_MinCurve] @ (if arg_n a = None then [Call_get_nev] else [])
               @ (if arg_vec a = None then [Call_get_vec] else [])
               @ (if arg_error_model a = None then [] else [Call_ErrorModel]), Inr s)"
proof -
  have ok: "sv_n (attributes_assigned a) \<noteq> None \<or> sv_x (attributes_assigned a) = None \<or>
        (\<exists>p. stack3T (sv_x (attributes_assigned a)) (sv_y (attributes_assigned a)) (sv_z (attributes_assigned a)) = Inr p)"
    using assms(4) by (simp add: attributes_assigned_fields)
  from Survey_min_curve_succeeds [OF ok, of c tr] obtain s5 where
    mc: "Survey_min_curve c tr (attributes_assigned a) = (fst (Survey_min_curve c tr (attributes_assigned a)), Inr s5)"
    by blast
  have t: "fst (Survey_min_curve c tr (attributes_assigned a)) =
      tr @ [Call_MinCurve] @ (if arg_n a = None then [Call_get_nev] else [])
         @ (if arg_vec a = None then [Call_get_vec] else [])"
    using assms(4) unfolding Survey_min_curve_trace by (auto simp: attributes_assigned_fields)
  show ?thesis
    unfolding Survey_init_unfold using assms(1-3)
    by (subst mc) (auto simp: t Survey_get_errors_trace case_prod_beta)
qed

lemma Survey_init_error:
  assumes "Survey_init c tr a = (tr', Inl e)"
  shows "e = ShapeError \<or> e = InvalidConfiguration"
  using assms unfolding Survey_init_unfold
  by (auto simp: Survey_min_curve_error split: if_splits prod.splits sum.splits dest: stack3T_error)

text \<open>
  Claim C8. When \<^verbatim>\<open>error_model\<close> is set (a construction that returns has the
  recognised tag), the stored \<^verbatim>\<open>cov_hla\<close> and \<^verbatim>\<open>cov_nev\<close> are the transposed outputs of
  the error model called on the degree table, the start location and the well
  reference parameters, whatever the caller supplied. When it is unset, the caller's
  \<^verbatim>\<open>cov_hla\<close> and \<^verbatim>\<open>cov_nev\<close> are stored as they are and the error model is not called.
\<close>

theorem Survey_init_covariance:
  assumes "Survey_init c tr a = (tr', Inr s)"
  shows "(arg_error_model a \<noteq> None \<longrightarrow>
            sv_cov_hla s = Some (ndarray_T3 (cov_HLAs (ErrorModel c (sv_survey_deg s) (sv_start_xyz s) (sv_well_ref_params s)))) \<and>
            sv_cov_nev s = Some (ndarray_T3 (cov_NEVs (ErrorModel c (sv_survey_deg s) (sv_start_xyz s) (sv_well_ref_params s)))))
       \<and> (arg_error_model a = None \<longrightarrow>
            sv_cov_hla s = arg_cov_hla a \<and> sv_cov_nev s = arg_cov_nev a \<and>
            Call_ErrorModel \<notin> set (drop (length tr) tr'))"
proof -
  from assms obtain tr1 s5 where
    mc: "Survey_min_curve c tr (attributes_assigned a) = (tr1, Inr s5)" and
    em: "arg_error_model a = None \<or> arg_error_model a = Some ''ISCWSA_MWD''" and
    ge: "Survey_get_errors c tr1
           (s5\<lparr>sv_error_model := arg_error_model a, sv_well_ref_params := arg_well_ref_params a,
               sv_cov_hla := arg_cov_hla a, sv_cov_nev := arg_cov_nev a\<rparr>) = (tr', s)"
    by (rule Survey_init_InrE)
  note g = Survey_get_errors_frame [OF ge]
  have same: "sv_survey_deg s = sv_survey_deg s5" "sv_start_xyz s = sv_start_xyz s5"
    "sv_well_ref_params s = arg_well_ref_params a"
    by (simp_all add: g)
  have tr1: "tr1 = fst (Survey_min_curve c tr (attributes_assigned a))"
    by (simp add: mc)
  have active: "arg_error_model a \<noteq> None \<longrightarrow>
            sv_cov_hla s = Some (ndarray_T3 (cov_HLAs (ErrorModel c (sv_survey_deg s) (sv_start_xyz s) (sv_well_ref_params s)))) \<and>
            sv_cov_nev s = Some (ndarray_T3 (cov_NEVs (ErrorModel c (sv_survey_deg s) (sv_start_xyz s) (sv_well_ref_params s))))"
    unfolding same using em Survey_get_errors_cov(1) [OF ge] by auto
  have inactive: "arg_error_model a = None \<longrightarrow>
            sv_cov_hla s = arg_cov_hla a \<and> sv_cov_nev s = arg_cov_nev a \<and>
            Call_ErrorModel \<notin> set (drop (length tr) tr')"
    using Survey_get_errors_cov(2) [OF ge] unfolding tr1 Survey_min_curve_trace by auto
  from active inactive show ?thesis by blast
qed

text \<open>
  Claim C2, amended. A construction whose \<^verbatim>\<open>error_model\<close> is set to anything but the
  recognised tag returns no object and never calls the error model. The check comes
  after \<^verbatim>\<open>self._min_curve()\<close>: when \<^verbatim>\<open>md\<close>, \<^verbatim>\<open>inc\<close>, \<^verbatim>\<open>azi\<close> have one length and the
  positions can be projected, the failure is \<open>InvalidConfiguration\<close>, raised once the
  solver, the NEV projection and the tangent helper have run.
\<close>

theorem Survey_init_unrecognised:
  assumes "arg_error_model a = Some t" and "t \<noteq> ''ISCWSA_MWD''"
  shows "(\<exists>e. snd (Survey_init c tr a) = Inl e)
       \<and> Call_ErrorModel \<notin> set (drop (length tr) (fst (Survey_init c tr a)))
       \<and> (length (arg_inc a) = length (arg_md a) \<and> length (arg_azi a) = length (arg_md a) \<and>
          (arg_n a \<noteq> None \<or> arg_x a = None \<or> (\<exists>p. stack3T (arg_x a) (arg_y a) (arg_z a) = Inr p)) \<longrightarrow>
            Survey_init c tr a =
              (tr @ [Call_MinCurve] @ (if arg_n a = None then [Call_get_nev] else [])
                  @ (if arg_vec a = None then [Call_get_vec] else []),
               Inl InvalidConfiguration))"
proof -
  have bad: "arg_error_model a \<noteq> None \<and> arg_error_model a \<noteq> Some ''ISCWSA_MWD''"
    using assms by simp
  have eq: "Survey_init c tr a =
     (if length (arg_inc a) \<noteq> length (arg_md a) \<or> length (arg_azi a) \<noteq> length (arg_md a)
      then (tr, Inl ShapeError)
      else case snd (Survey_min_curve c tr (attributes_assigned a)) of
             Inl err \<Rightarrow> (fst (Survey_min_curve c tr (attributes_assigned a)), Inl err)
           | Inr self5 \<Rightarrow> (fst (Survey_min_curve c tr (attributes_assigned a)), Inl InvalidConfiguration))"
    unfolding Survey_init_unfold using bad by (auto split: prod.splits sum.splits)
  have 1: "\<exists>e. snd (Survey_init c tr a) = Inl e"
    unfolding eq by (auto split: sum.splits)
  have 2: "Call_ErrorModel \<notin> set (drop (length tr) (fst (Survey_init c tr a)))"
    unfolding eq by (auto simp: Survey_min_curve_trace split: sum.splits)
  have 3: "Survey_init c tr a =
              (tr @ [Call_MinCurve] @ (if arg_n a = None then [Call_get_nev] else [])
                  @ (if arg_vec a = None then [Call_get_vec] else []),
               Inl InvalidConfiguration)"
    if len: "length (arg_inc a) = length (arg_md a) \<and> length (arg_azi a) = length (arg_md a)"
    and pos: "arg_n a \<noteq> None \<or> arg_x a = None \<or> (\<exists>p. stack3T (arg_x a) (arg_y a) (arg_z a) = Inr p)"
  proof -
    have ok: "sv_n (attributes_assigned a) \<noteq> None \<or> sv_x (attributes_assigned a) = None \<or>
        (\<exists>p. stack3T (sv_x (attributes_assigned a)) (sv_y (attributes_assigned a)) (sv_z (attributes_assigned a)) = Inr p)"
      using pos by (simp add: attributes_assigned_fields)
    from Survey_min_curve_succeeds [OF ok, of c tr] obtain s5 where
      mc: "snd (Survey_min_curve c tr (attributes_assigned a)) = Inr s5"
      by (metis snd_conv)
    have t: "fst (Survey_min_curve c tr (attributes_assigned a)) =
        tr @ [Call_MinCurve] @ (if arg_n a = None then [Call_get_nev] else [])
           @ (if arg_vec a = None then [Call_get_vec] else [])"
      using pos unfolding Survey_min_curve_trace by (auto simp: attributes_assigned_fields)
    show ?thesis unfolding eq using len by (simp add: mc t)
  qed
  from 1 2 3 show ?thesis by blast
qed

subsection \<open>Concrete constructions\<close>

lemmas model_defs = Survey_init_def Survey_min_curve_def Survey_get_nev_def Survey_get_errors_def
  Survey_make_angles_def new_object_def Survey_args_def stack3T_def col0_def col1_def col2_def
  error_models_def
lemmas ref_defs = ref_collab_def ref_MinCurve_def ref_get_vec_def ref_get_nev_def ref_get_angles_def
  ref_ErrorModel_def dot3_def scale3_def add3_def ref_rf_def degrees_def radians_def

text \<open>
  Claim C2 as stated fails: for a vertical two-station survey with the unknown tag
  \<^verbatim>\<open>"ISCWSA"\<close> the solver, the NEV projection and the tangent helper have all been
  called when the assertion fails.
\<close>

theorem Survey_init_checks_after_min_curve:
  "Survey_init ref_collab [] ((Survey_args [0, 100] [0, 0] [0, 0])\<lparr>arg_error_model := Some ''ISCWSA''\<rparr>)
     = ([Call_MinCurve, Call_get_nev, Call_get_vec], Inl InvalidConfiguration)"
  by (simp add: model_defs ref_defs Let_def)

theorem Survey_init_unrecognised_witness:
  "snd (Survey_init ref_collab [] ((Survey_args [0, 50] [0, 0] [0, 0])\<lparr>arg_error_model := Some ''MWD''\<rparr>))
     = Inl InvalidConfiguration
   \<and> Call_ErrorModel \<notin> set (fst (Survey_init ref_collab []
         ((Survey_args [0, 50] [0, 0] [0, 0])\<lparr>arg_error_model := Some ''MWD''\<rparr>)))"
  using Survey_init_unrecognised [of "(Survey_args [0, 50] [0, 0] [0, 0])\<lparr>arg_error_model := Some ''MWD''\<rparr>"
          "''MWD''" ref_collab "[]"]
  by (simp add: Survey_args_def)

theorem Survey_init_overrides_witness:
  "(\<exists>tr' s. Survey_init ref_collab []
       ((Survey_args [0, 100] [0, 0] [0, 0])\<lparr>arg_x := Some [5, 6], arg_n := Some [7, 8]\<rparr>) = (tr', Inr s)
      \<and> sv_x s = Some [5, 6] \<and> sv_y s = None \<and> sv_z s = None
      \<and> sv_n s = Some [7, 8] \<and> sv_e s = None \<and> sv_tvd s = None)
   \<and> (\<exists>tr' s. Survey_init ref_collab []
       ((Survey_args [0, 100] [0, 0] [0, 0])\<lparr>arg_y := Some [9, 9], arg_e := Some [4, 4]\<rparr>) = (tr', Inr s)
      \<and> sv_x s = Some [0, 0] \<and> sv_y s = Some [0, 0] \<and> sv_z s = Some [0, 100]
      \<and> sv_n s = Some [0, 0] \<and> sv_e s = Some [0, 0] \<and> sv_tvd s = Some [0, 100])"
proof (intro conjI)
  let ?a = "(Survey_args [0, 100] [0, 0] [0, 0])\<lparr>arg_x := Some [5, 6], arg_n := Some [7, 8]\<rparr> :: unit init_args"
  obtain tr' s where r: "Survey_init ref_collab [] ?a = (tr', Inr s)"
    using Survey_init_succeeds [of ?a ref_collab "[]"] by (auto simp: Survey_args_def)
  from Survey_init_overrides [OF r]
  have "sv_x s = Some [5, 6] \<and> sv_y s = None \<and> sv_z s = None
      \<and> sv_n s = Some [7, 8] \<and> sv_e s = None \<and> sv_tvd s = None"
    by (simp add: Survey_args_def)
  with r show "\<exists>tr' s. Survey_init ref_collab [] ?a = (tr', Inr s)
      \<and> sv_x s = Some [5, 6] \<and> sv_y s = None \<and> sv_z s = None
      \<and> sv_n s = Some [7, 8] \<and> sv_e s = None \<and> sv_tvd s = None"
    by blast
next
  let ?a = "(Survey_args [0, 100] [0, 0] [0, 0])\<lparr>arg_y := Some [9, 9], arg_e := Some [4, 4]\<rparr> :: unit init_args"
  obtain tr' s where r: "Survey_init ref_collab [] ?a = (tr', Inr s)"
    using Survey_init_succeeds [of ?a ref_collab "[]"] by (auto simp: Survey_args_def)
  from Survey_init_overrides [OF r]
  have "sv_x s = Some [0, 0] \<and> sv_y s = Some [0, 0] \<and> sv_z s = Some [0, 100]
      \<and> sv_n s = Some [0, 0] \<and> sv_e s = Some [0, 0] \<and> sv_tvd s = Some [0, 100]"
    by (auto simp: Survey_init_fields [OF r] Survey_args_def ref_defs Let_def stack3T_def col0_def col1_def col2_def)
  with r show "\<exists>tr' s. Survey_init ref_collab [] ?a = (tr', Inr s)
      \<and> sv_x s = Some [0, 0] \<and> sv_y s = Some [0, 0] \<and> sv_z s = Some [0, 100]
      \<and> sv_n s = Some [0, 0] \<and> sv_e s = Some [0, 0] \<and> sv_tvd s = Some [0, 100]"
    by blast
qed

theorem Survey_init_covariance_witness:
  "(\<exists>tr' s. Survey_init ref_collab []
       ((Survey_args [0, 100] [0, 0] [0, 0])\<lparr>arg_cov_hla := Some [[[1]]], arg_error_model := Some ''ISCWSA_MWD''\<rparr>)
         = (tr', Inr s)
      \<and> sv_cov_hla s = Some [[[0, 0, 0], [0, 0, 0], [0, 0, 0]], [[100, 100, 100], [100, 100, 100], [100, 100, 100]]]
      \<and> sv_cov_nev s = Some [[[0, 0, 0], [0, 0, 0], [0, 0, 0]], [[100, 100, 100], [100, 100, 100], [100, 100, 100]]])
   \<and> (\<exists>tr' s. Survey_init ref_collab []
       ((Survey_args [0, 100] [0, 0] [0, 0])\<lparr>arg_cov_hla := Some [[[1]]]\<rparr>) = (tr', Inr s)
      \<and> sv_cov_hla s = Some [[[1]]] \<and> sv_cov_nev s = None \<and> Call_ErrorModel \<notin> set tr')"
proof (intro conjI)
  let ?a = "(Survey_args [0, 100] [0, 0] [0, 0])\<lparr>arg_cov_hla := Some [[[1]]], arg_error_model := Some ''ISCWSA_MWD''\<rparr> :: unit init_args"
  obtain tr' s where r: "Survey_init ref_collab [] ?a = (tr', Inr s)"
    using Survey_init_succeeds [of ?a ref_collab "[]"] by (auto simp: Survey_args_def)
  from Survey_init_covariance [OF r]
  have "sv_cov_hla s = Some [[[0, 0, 0], [0, 0, 0], [0, 0, 0]], [[100, 100, 100], [100, 100, 100], [100, 100, 100]]]
      \<and> sv_cov_nev s = Some [[[0, 0, 0], [0, 0, 0], [0, 0, 0]], [[100, 100, 100], [100, 100, 100], [100, 100, 100]]]"
    by (simp add: Survey_init_fields [OF r] Survey_args_def ref_defs Let_def col0_def
          ndarray_T3_def upt_0_3 upt_conv_Cons numeral_3_eq_3)
  with r show "\<exists>tr' s. Survey_init ref_collab [] ?a = (tr', Inr s)
      \<and> sv_cov_hla s = Some [[[0, 0, 0], [0, 0, 0], [0, 0, 0]], [[100, 100, 100], [100, 100, 100], [100, 100, 100]]]
      \<and> sv_cov_nev s = Some [[[0, 0, 0], [0, 0, 0], [0, 0, 0]], [[100, 100, 100], [100, 100, 100], [100, 100, 100]]]"
    by blast
next
  let ?a = "(Survey_args [0, 100] [0, 0] [0, 0])\<lparr>arg_cov_hla := Some [[[1]]]\<rparr> :: unit init_args"
  obtain tr' s where r: "Survey_init ref_collab [] ?a = (tr', Inr s)"
    using Survey_init_succeeds [of ?a ref_collab "[]"] by (auto simp: Survey_args_def)
  from Survey_init_covariance [OF r]
  have "sv_cov_hla s = Some [[[1]]] \<and> sv_cov_nev s = None \<and> Call_ErrorModel \<notin> set tr'"
    by (simp add: Survey_args_def)
  with r show "\<exists>tr' s. Survey_init ref_collab [] ?a = (tr', Inr s)
      \<and> sv_cov_hla s = Some [[[1]]] \<and> sv_cov_nev s = None \<and> Call_ErrorModel \<notin> set tr'"
    by blast
qed


section \<open>Properties of the interpolation\<close>

lemma interpolate_survey_unfold:
  "interpolate_survey c (h, tr) r x index =
     (if \<not> index < int (length (sv_md (h ! r))) - 1 then ((h, tr), Inl IndexOutOfRange) else
      case py_index (sv_delta_md (h ! r)) (index + 1) of Inl err \<Rightarrow> ((h, tr), Inl err) | Inr dmd \<Rightarrow>
      if \<not> x \<le> dmd then ((h, tr), Inl OutOfRange) else
      case py_index (sv_dogleg (h ! r)) (index + 1) of Inl err \<Rightarrow> ((h, tr), Inl err) | Inr total_dogleg \<Rightarrow>
      case interpolated_angles c tr (h ! r) x index dmd total_dogleg of
        (tr1, Inl err) \<Rightarrow> ((h, tr1), Inl err)
      | (tr1, Inr ia) \<Rightarrow> interpolated_station c h tr1 (h ! r) x index ia)"
  unfolding interpolate_survey_def interpolated_angles_def interpolated_station_def
    construct_result_def Let_def
  by (simp split: sum.split prod.split)

lemma py_index_nat: "0 \<le> i \<Longrightarrow> i < int (length xs) \<Longrightarrow> py_index xs i = Inr (xs ! nat i)"
  by (simp add: py_index_def)

lemma py_index_error: "py_index xs i = Inl e \<Longrightarrow> e = IndexError"
  by (auto simp: py_index_def split: if_splits)

lemma py_index_opt_error: "py_index_opt xs i = Inl e \<Longrightarrow> e = IndexError \<or> e = TypeError"
  by (auto simp: py_index_opt_def split: option.splits dest: py_index_error)

lemma interpolated_angles_error:
  assumes "interpolated_angles c tr survey x index dmd total_dogleg = (tr1, Inl e)"
  shows "e = IndexError \<or> e = TypeError \<or> e = NonFinite \<or> e = ZeroDivisionError"
  using assms unfolding interpolated_angles_def Let_def
  by (auto split: if_splits sum.splits dest: py_index_error py_index_opt_error)

lemma interpolated_angles_tangent:
  assumes "0 \<le> index" and "index < int (length (sv_inc_rad survey))"
    and "index < int (length (sv_azi_rad survey))"
  shows "interpolated_angles c tr survey x index dmd 0
           = (tr, Inr (sv_inc_rad survey ! nat index, sv_azi_rad survey ! nat index))"
  using assms by (simp add: interpolated_angles_def py_index_nat)

lemma interpolated_angles_slerp:
  assumes "total_dogleg \<noteq> 0" and "dmd \<noteq> 0" and "sin total_dogleg \<noteq> 0"
    and "sv_vec survey = Some vs" and "0 \<le> index" and "index + 1 < int (length vs)"
    and "get_angles c (add3 (scale3 (sin (total_dogleg - x * (total_dogleg / dmd)) / sin total_dogleg) (vs ! nat index))
                            (scale3 (sin (x * (total_dogleg / dmd)) / sin total_dogleg) (vs ! nat (index + 1))))
           = ia # rest"
  shows "interpolated_angles c tr survey x index dmd total_dogleg = (tr @ [Call_get_angles], Inr ia)"
  using assms by (simp add: interpolated_angles_def py_index_opt_def py_index_nat Let_def)

lemma Survey_min_curve_again:
  assumes "sv_x self = Some xs" and "sv_n self = Some ns" and "sv_vec self = Some vs"
  shows "Survey_min_curve c tr self =
           (tr @ [Call_MinCurve],
            Inr (self\<lparr>sv_dogleg := mc_dogleg (MinCurve c (sv_md self) (sv_inc_rad self) (sv_azi_rad self) (sv_start_xyz self) (sv_unit self)),
                      sv_rf := mc_rf (MinCurve c (sv_md self) (sv_inc_rad self) (sv_azi_rad self) (sv_start_xyz self) (sv_unit self)),
                      sv_delta_md := mc_delta_md (MinCurve c (sv_md self) (sv_inc_rad self) (sv_azi_rad self) (sv_start_xyz self) (sv_unit self)),
                      sv_dls := mc_dls (MinCurve c (sv_md self) (sv_inc_rad self) (sv_azi_rad self) (sv_start_xyz self) (sv_unit self))\<rparr>))"
  by (simp add: Survey_min_curve_def Let_def assms)

lemma Survey_init_derived:
  assumes "Survey_init c tr a = (tr', Inr s)"
    and "arg_x a = None" and "arg_n a = None" and "arg_vec a = None"
  shows "sv_x s = Some (col0 (mc_poss (MinCurve c (sv_md s) (sv_inc_rad s) (sv_azi_rad s) (sv_start_xyz s) (sv_unit s))))"
    and "sv_y s = Some (col1 (mc_poss (MinCurve c (sv_md s) (sv_inc_rad s) (sv_azi_rad s) (sv_start_xyz s) (sv_unit s))))"
    and "sv_z s = Some (col2 (mc_poss (MinCurve c (sv_md s) (sv_inc_rad s) (sv_azi_rad s) (sv_start_xyz s) (sv_unit s))))"
    and "sv_n s = Some (col0 (get_nev c (mc_poss (MinCurve c (sv_md s) (sv_inc_rad s) (sv_azi_rad s) (sv_start_xyz s) (sv_unit s))) (sv_start_xyz s) (sv_start_nev s)))"
    and "sv_e s = Some (col1 (get_nev c (mc_poss (MinCurve c (sv_md s) (sv_inc_rad s) (sv_azi_rad s) (sv_start_xyz s) (sv_unit s))) (sv_start_xyz s) (sv_start_nev s)))"
    and "sv_tvd s = Some (col2 (get_nev c (mc_poss (MinCurve c (sv_md s) (sv_inc_rad s) (sv_azi_rad s) (sv_start_xyz s) (sv_unit s))) (sv_start_xyz s) (sv_start_nev s)))"
    and "sv_vec s = Some (get_vec c (sv_inc_rad s) (sv_azi_rad s))"
    and "sv_dogleg s = mc_dogleg (MinCurve c (sv_md s) (sv_inc_rad s) (sv_azi_rad s) (sv_start_xyz s) (sv_unit s))"
    and "sv_delta_md s = mc_delta_md (MinCurve c (sv_md s) (sv_inc_rad s) (sv_azi_rad s) (sv_start_xyz s) (sv_unit s))"
    and "sv_rf s = mc_rf (MinCurve c (sv_md s) (sv_inc_rad s) (sv_azi_rad s) (sv_start_xyz s) (sv_unit s))"
    and "sv_dls s = mc_dls (MinCurve c (sv_md s) (sv_inc_rad s) (sv_azi_rad s) (sv_start_xyz s) (sv_unit s))"
proof -
  from assms(1) obtain tr1 s5 where
    mc: "Survey_min_curve c tr (attributes_assigned a) = (tr1, Inr s5)" and
    ge: "Survey_get_errors c tr1
           (s5\<lparr>sv_error_model := arg_error_model a, sv_well_ref_params := arg_well_ref_params a,
               sv_cov_hla := arg_cov_hla a, sv_cov_nev := arg_cov_nev a\<rparr>) = (tr', s)"
    by (rule Survey_init_InrE)
  note g = Survey_get_errors_frame [OF ge]
  have same: "sv_md s = sv_md (attributes_assigned a)" "sv_inc_rad s = sv_inc_rad (attributes_assigned a)"
    "sv_azi_rad s = sv_azi_rad (attributes_assigned a)" "sv_start_xyz s = sv_start_xyz (attributes_assigned a)"
    "sv_start_nev s = sv_start_nev (attributes_assigned a)" "sv_unit s = sv_unit (attributes_assigned a)"
    by (simp_all add: g Survey_min_curve_frame [OF mc])
  have later: "sv_x s = sv_x s5" "sv_y s = sv_y s5" "sv_z s = sv_z s5"
    "sv_n s = sv_n s5" "sv_e s = sv_e s5" "sv_tvd s = sv_tvd s5" "sv_vec s = sv_vec s5"
    "sv_dogleg s = sv_dogleg s5" "sv_delta_md s = sv_delta_md s5" "sv_rf s = sv_rf s5" "sv_dls s = sv_dls s5"
    by (simp_all add: g)
  have x0: "sv_x (attributes_assigned a) = None" and n0: "sv_n (attributes_assigned a) = None"
    and v0: "sv_vec (attributes_assigned a) = None"
    using assms(2-4) by (simp_all add: attributes_assigned_fields)
  note xyz = Survey_min_curve_xyz(1) [OF mc x0]
  show "sv_x s = Some (col0 (mc_poss (MinCurve c (sv_md s) (sv_inc_rad s) (sv_azi_rad s) (sv_start_xyz s) (sv_unit s))))"
    unfolding same later using xyz by simp
  show "sv_y s = Some (col1 (mc_poss (MinCurve c (sv_md s) (sv_inc_rad s) (sv_azi_rad s) (sv_start_xyz s) (sv_unit s))))"
    unfolding same later using xyz by simp
  show "sv_z s = Some (col2 (mc_poss (MinCurve c (sv_md s) (sv_inc_rad s) (sv_azi_rad s) (sv_start_xyz s) (sv_unit s))))"
    unfolding same later using xyz by simp
  from Survey_min_curve_nev(2) [OF mc n0] obtain pos where
    pos: "stack3T (sv_x s5) (sv_y s5) (sv_z s5) = Inr pos" and
    nev: "sv_n s5 = Some (col0 (get_nev c pos (sv_start_xyz (attributes_assigned a)) (sv_start_nev (attributes_assigned a))))"
         "sv_e s5 = Some (col1 (get_nev c pos (sv_start_xyz (attributes_assigned a)) (sv_start_nev (attributes_assigned a))))"
         "sv_tvd s5 = Some (col2 (get_nev c pos (sv_start_xyz (attributes_assigned a)) (sv_start_nev (attributes_assigned a))))"
    by blast
  have "pos = mc_poss (MinCurve c (sv_md (attributes_assigned a)) (sv_inc_rad (attributes_assigned a))
                 (sv_azi_rad (attributes_assigned a)) (sv_start_xyz (attributes_assigned a)) (sv_unit (attributes_assigned a)))"
    using pos xyz by (simp add: stack3T_cols)
  with nev
  show "sv_n s = Some (col0 (get_nev c (mc_poss (MinCurve c (sv_md s) (sv_inc_rad s) (sv_azi_rad s) (sv_start_xyz s) (sv_unit s))) (sv_start_xyz s) (sv_start_nev s)))"
    and "sv_e s = Some (col1 (get_nev c (mc_poss (MinCurve c (sv_md s) (sv_inc_rad s) (sv_azi_rad s) (sv_start_xyz s) (sv_unit s))) (sv_start_xyz s) (sv_start_nev s)))"
    and "sv_tvd s = Some (col2 (get_nev c (mc_poss (MinCurve c (sv_md s) (sv_inc_rad s) (sv_azi_rad s) (sv_start_xyz s) (sv_unit s))) (sv_start_xyz s) (sv_start_nev s)))"
    unfolding same later by simp_all
  show "sv_vec s = Some (get_vec c (sv_inc_rad s) (sv_azi_rad s))"
    unfolding same later using Survey_min_curve_vec(2) [OF mc v0] by simp
  show "sv_dogleg s = mc_dogleg (MinCurve c (sv_md s) (sv_inc_rad s) (sv_azi_rad s) (sv_start_xyz s) (sv_unit s))"
    and "sv_delta_md s = mc_delta_md (MinCurve c (sv_md s) (sv_inc_rad s) (sv_azi_rad s) (sv_start_xyz s) (sv_unit s))"
    and "sv_rf s = mc_rf (MinCurve c (sv_md s) (sv_inc_rad s) (sv_azi_rad s) (sv_start_xyz s) (sv_unit s))"
    and "sv_dls s = mc_dls (MinCurve c (sv_md s) (sv_inc_rad s) (sv_azi_rad s) (sv_start_xyz s) (sv_unit s))"
    unfolding same later using Survey_min_curve_geometry [OF mc] by simp_all
qed

lemma has_length_Some: "has_length xs n \<Longrightarrow> \<exists>ys. xs = Some ys \<and> length ys = n"
  by (cases xs) (simp_all add: has_length_def)

lemma construct_result_interpolated:
  fixes c :: "'w collab"
  defines "a \<equiv> \<lambda>m0 m1 i0 i1 a0 a1 sx sn.
     (Survey_args [m0, m1] [i0, i1] [a0, a1])
        \<lparr>arg_start_xyz := sx, arg_start_nev := sn, arg_deg := False\<rparr>"
  shows "\<exists>obj. Survey_init c tr (a m0 m1 i0 i1 a0 a1 sx sn)
                 = (tr @ [Call_MinCurve, Call_get_nev, Call_get_vec], Inr obj)
             \<and> new_Survey c (h, tr) (a m0 m1 i0 i1 a0 a1 sx sn)
                 = ((h @ [obj], tr @ [Call_MinCurve, Call_get_nev, Call_get_vec]), Inr (length h))
             \<and> construct_result c (h, tr) (a m0 m1 i0 i1 a0 a1 sx sn)
                 = ((h @ [obj\<lparr>sv_dogleg := mc_dogleg (MinCurve c (sv_md obj) (sv_inc_rad obj) (sv_azi_rad obj) (sv_start_xyz obj) (sv_unit obj)),
                      sv_rf := mc_rf (MinCurve c (sv_md obj) (sv_inc_rad obj) (sv_azi_rad obj) (sv_start_xyz obj) (sv_unit obj)),
                      sv_delta_md := mc_delta_md (MinCurve c (sv_md obj) (sv_inc_rad obj) (sv_azi_rad obj) (sv_start_xyz obj) (sv_unit obj)),
                      sv_dls := mc_dls (MinCurve c (sv_md obj) (sv_inc_rad obj) (sv_azi_rad obj) (sv_start_xyz obj) (sv_unit obj))\<rparr>],
                     tr @ [Call_MinCurve, Call_get_nev, Call_get_vec, Call_MinCurve]), Inr (length h))"
proof -
  have "\<exists>s. Survey_init c tr (a m0 m1 i0 i1 a0 a1 sx sn) =
           (tr @ [Call_MinCurve] @ (if arg_n (a m0 m1 i0 i1 a0 a1 sx sn) = None then [Call_get_nev] else [])
               @ (if arg_vec (a m0 m1 i0 i1 a0 a1 sx sn) = None then [Call_get_vec] else [])
               @ (if arg_error_model (a m0 m1 i0 i1 a0 a1 sx sn) = None then [] else [Call_ErrorModel]), Inr s)"
    by (rule Survey_init_succeeds) (simp_all add: a_def Survey_args_def)
  then obtain obj where
    init: "Survey_init c tr (a m0 m1 i0 i1 a0 a1 sx sn) = (tr @ [Call_MinCurve, Call_get_nev, Call_get_vec], Inr obj)"
    by (auto simp: a_def Survey_args_def)
  then have new: "new_Survey c (h, tr) (a m0 m1 i0 i1 a0 a1 sx sn)
                 = ((h @ [obj], tr @ [Call_MinCurve, Call_get_nev, Call_get_vec]), Inr (length h))"
    by (simp add: new_Survey_def)
  have none: "arg_x (a m0 m1 i0 i1 a0 a1 sx sn) = None" "arg_n (a m0 m1 i0 i1 a0 a1 sx sn) = None"
    "arg_vec (a m0 m1 i0 i1 a0 a1 sx sn) = None"
    by (simp_all add: a_def Survey_args_def)
  note d = Survey_init_derived [OF init none]
  have "construct_result c (h, tr) (a m0 m1 i0 i1 a0 a1 sx sn)
                 = ((h @ [obj\<lparr>sv_dogleg := mc_dogleg (MinCurve c (sv_md obj) (sv_inc_rad obj) (sv_azi_rad obj) (sv_start_xyz obj) (sv_unit obj)),
                      sv_rf := mc_rf (MinCurve c (sv_md obj) (sv_inc_rad obj) (sv_azi_rad obj) (sv_start_xyz obj) (sv_unit obj)),
                      sv_delta_md := mc_delta_md (MinCurve c (sv_md obj) (sv_inc_rad obj) (sv_azi_rad obj) (sv_start_xyz obj) (sv_unit obj)),
                      sv_dls := mc_dls (MinCurve c (sv_md obj) (sv_inc_rad obj) (sv_azi_rad obj) (sv_start_xyz obj) (sv_unit obj))\<rparr>],
                     tr @ [Call_MinCurve, Call_get_nev, Call_get_vec, Call_MinCurve]), Inr (length h))"
    unfolding construct_result_def new
    by (simp add: Survey_min_curve_again [OF d(1) d(4) d(7)])
  with init new show ?thesis by blast
qed

lemma interpolated_station_ok:
  fixes c :: "'w collab"
  assumes ok: "stations_ok survey" and i0: "0 \<le> index" and i1: "index < int (length (sv_md survey))"
  shows "\<exists>obj.
     interpolated_station c h tr1 survey x index (inc, azi)
       = ((h @ [obj], tr1 @ [Call_MinCurve, Call_get_nev, Call_get_vec, Call_MinCurve]), Inr (length h))
     \<and> sv_md obj = [sv_md survey ! nat index, sv_md survey ! nat index + x]
     \<and> sv_inc_rad obj = [sv_inc_rad survey ! nat index, inc]
     \<and> sv_azi_rad obj = [sv_azi_rad survey ! nat index, azi]
     \<and> sv_inc_deg obj = [degrees (sv_inc_rad survey ! nat index), degrees inc]
     \<and> sv_azi_deg obj = [degrees (sv_azi_rad survey ! nat index), degrees azi]
     \<and> sv_unit obj = ''meters''
     \<and> sv_start_xyz obj = (the (sv_x survey) ! nat index, the (sv_y survey) ! nat index, the (sv_z survey) ! nat index)
     \<and> sv_start_nev obj = (the (sv_n survey) ! nat index, the (sv_e survey) ! nat index, the (sv_tvd survey) ! nat index)
     \<and> sv_x obj = Some (col0 (mc_poss (MinCurve c (sv_md obj) (sv_inc_rad obj) (sv_azi_rad obj) (sv_start_xyz obj) (sv_unit obj))))
     \<and> sv_y obj = Some (col1 (mc_poss (MinCurve c (sv_md obj) (sv_inc_rad obj) (sv_azi_rad obj) (sv_start_xyz obj) (sv_unit obj))))
     \<and> sv_z obj = Some (col2 (mc_poss (MinCurve c (sv_md obj) (sv_inc_rad obj) (sv_azi_rad obj) (sv_start_xyz obj) (sv_unit obj))))
     \<and> sv_dogleg obj = mc_dogleg (MinCurve c (sv_md obj) (sv_inc_rad obj) (sv_azi_rad obj) (sv_start_xyz obj) (sv_unit obj))
     \<and> sv_delta_md obj = mc_delta_md (MinCurve c (sv_md obj) (sv_inc_rad obj) (sv_azi_rad obj) (sv_start_xyz obj) (sv_unit obj))"
proof -
  let ?n = "length (sv_md survey)"
  let ?i = "nat index"
  from ok have len: "length (sv_inc_rad survey) = ?n" "length (sv_azi_rad survey) = ?n"
    and hl: "has_length (sv_x survey) ?n" "has_length (sv_y survey) ?n" "has_length (sv_z survey) ?n"
            "has_length (sv_n survey) ?n" "has_length (sv_e survey) ?n" "has_length (sv_tvd survey) ?n"
    by (simp_all add: stations_ok_def Let_def)
  from hl obtain xs ys zs ns es ts where
    xyz: "sv_x survey = Some xs" "sv_y survey = Some ys" "sv_z survey = Some zs" and
    nev: "sv_n survey = Some ns" "sv_e survey = Some es" "sv_tvd survey = Some ts" and
    lens: "length xs = ?n" "length ys = ?n" "length zs = ?n" "length ns = ?n" "length es = ?n" "length ts = ?n"
    by (blast dest: has_length_Some)
  have p1: "py_index (sv_md survey) index = Inr (sv_md survey ! ?i)"
    and p2: "py_index (sv_inc_rad survey) index = Inr (sv_inc_rad survey ! ?i)"
    and p3: "py_index (sv_azi_rad survey) index = Inr (sv_azi_rad survey ! ?i)"
    using i0 i1 by (simp_all add: py_index_nat len)
  have s1: "stack3T (sv_x survey) (sv_y survey) (sv_z survey) = Inr (zip xs (zip ys zs))"
    and s2: "stack3T (sv_n survey) (sv_e survey) (sv_tvd survey) = Inr (zip ns (zip es ts))"
    by (simp_all add: xyz nev lens stack3T_Some)
  have p4: "py_index (zip xs (zip ys zs)) index = Inr (xs ! ?i, ys ! ?i, zs ! ?i)"
    and p5: "py_index (zip ns (zip es ts)) index = Inr (ns ! ?i, es ! ?i, ts ! ?i)"
    using i0 i1 by (simp_all add: py_index_nat lens)
  let ?a = "(Survey_args [sv_md survey ! ?i, sv_md survey ! ?i + x] [sv_inc_rad survey ! ?i, inc]
               [sv_azi_rad survey ! ?i, azi])
             \<lparr>arg_start_xyz := (xs ! ?i, ys ! ?i, zs ! ?i), arg_start_nev := (ns ! ?i, es ! ?i, ts ! ?i),
              arg_deg := False\<rparr> :: 'w init_args"
  define obj' where "obj' = (\<lambda>obj0 :: 'w survey. obj0\<lparr>sv_dogleg := mc_dogleg (MinCurve c (sv_md obj0) (sv_inc_rad obj0) (sv_azi_rad obj0) (sv_start_xyz obj0) (sv_unit obj0)),
                      sv_rf := mc_rf (MinCurve c (sv_md obj0) (sv_inc_rad obj0) (sv_azi_rad obj0) (sv_start_xyz obj0) (sv_unit obj0)),
                      sv_delta_md := mc_delta_md (MinCurve c (sv_md obj0) (sv_inc_rad obj0) (sv_azi_rad obj0) (sv_start_xyz obj0) (sv_unit obj0)),
                      sv_dls := mc_dls (MinCurve c (sv_md obj0) (sv_inc_rad obj0) (sv_azi_rad obj0) (sv_start_xyz obj0) (sv_unit obj0))\<rparr>)"
  from construct_result_interpolated [of c tr1 _ _ _ _ _ _ _ _ h] obtain obj0 where
    init: "Survey_init c tr1 ?a = (tr1 @ [Call_MinCurve, Call_get_nev, Call_get_vec], Inr obj0)" and
    built: "construct_result c (h, tr1) ?a
              = ((h @ [obj' obj0], tr1 @ [Call_MinCurve, Call_get_nev, Call_get_vec, Call_MinCurve]), Inr (length h))"
    unfolding obj'_def by blast
  have none: "arg_x ?a = None" "arg_n ?a = None" "arg_vec ?a = None"
    by (simp_all add: Survey_args_def)
  note d = Survey_init_derived [OF init none]
  note f = Survey_init_fields [OF init]
  define obj where "obj = obj' obj0"
  have run: "interpolated_station c h tr1 survey x index (inc, azi)
       = ((h @ [obj], tr1 @ [Call_MinCurve, Call_get_nev, Call_get_vec, Call_MinCurve]), Inr (length h))"
    unfolding interpolated_station_def
    by (simp add: p1 p2 p3 s1 s2 p4 p5 built obj_def)
  have same: "sv_md obj = sv_md obj0" "sv_inc_rad obj = sv_inc_rad obj0" "sv_azi_rad obj = sv_azi_rad obj0"
    "sv_inc_deg obj = sv_inc_deg obj0" "sv_azi_deg obj = sv_azi_deg obj0"
    "sv_unit obj = sv_unit obj0" "sv_start_xyz obj = sv_start_xyz obj0" "sv_start_nev obj = sv_start_nev obj0"
    "sv_x obj = sv_x obj0" "sv_y obj = sv_y obj0" "sv_z obj = sv_z obj0"
    by (simp_all add: obj_def obj'_def)
  have geo: "sv_dogleg obj = mc_dogleg (MinCurve c (sv_md obj0) (sv_inc_rad obj0) (sv_azi_rad obj0) (sv_start_xyz obj0) (sv_unit obj0))"
    "sv_delta_md obj = mc_delta_md (MinCurve c (sv_md obj0) (sv_inc_rad obj0) (sv_azi_rad obj0) (sv_start_xyz obj0) (sv_unit obj0))"
    by (simp_all add: obj_def obj'_def)
  have args: "sv_md obj0 = [sv_md survey ! ?i, sv_md survey ! ?i + x]"
    "sv_inc_rad obj0 = [sv_inc_rad survey ! ?i, inc]" "sv_azi_rad obj0 = [sv_azi_rad survey ! ?i, azi]"
    "sv_inc_deg obj0 = [degrees (sv_inc_rad survey ! ?i), degrees inc]"
    "sv_azi_deg obj0 = [degrees (sv_azi_rad survey ! ?i), degrees azi]"
    "sv_unit obj0 = ''meters''"
    "sv_start_xyz obj0 = (xs ! ?i, ys ! ?i, zs ! ?i)" "sv_start_nev obj0 = (ns ! ?i, es ! ?i, ts ! ?i)"
    by (simp_all add: f Survey_args_def)
  show ?thesis
    apply (rule exI [of _ obj])
    unfolding same geo
    using run d(1-3) args by (simp add: xyz nev)
qed

lemma construct_result_shape:
  "\<exists>obj. construct_result c (h, tr)
            ((Survey_args [m0, m1] [i0, i1] [a0, a1])\<lparr>arg_start_xyz := sx, arg_start_nev := sn, arg_deg := False\<rparr>)
          = ((h @ [obj], tr @ [Call_MinCurve, Call_get_nev, Call_get_vec, Call_MinCurve]), Inr (length h))"
  using construct_result_interpolated [where c = c and tr = tr and h = h] by blast

lemma interpolated_station_cases:
  "(\<exists>e. interpolated_station c h tr1 survey x index ia = ((h, tr1), Inl e) \<and> (e = IndexError \<or> e = ShapeError))
   \<or> (\<exists>obj. interpolated_station c h tr1 survey x index ia
              = ((h @ [obj], tr1 @ [Call_MinCurve, Call_get_nev, Call_get_vec, Call_MinCurve]), Inr (length h)))"
  unfolding interpolated_station_def
  by (auto split: sum.split prod.split dest: py_index_error stack3T_error intro: construct_result_shape)

lemma interpolate_survey_cases:
  "(\<exists>e tr'. interpolate_survey c (h, tr) r x index = ((h, tr'), Inl e))
   \<or> (\<exists>obj tr'. interpolate_survey c (h, tr) r x index = ((h @ [obj], tr'), Inr (length h)))"
proof -
  have st: "(\<exists>e tr'. interpolated_station c h tr1 (h ! r) x index ia = ((h, tr'), Inl e))
     \<or> (\<exists>obj tr'. interpolated_station c h tr1 (h ! r) x index ia = ((h @ [obj], tr'), Inr (length h)))"
    for tr1 ia
    using interpolated_station_cases [of c h tr1 "h ! r" x index ia] by blast
  show ?thesis
    unfolding interpolate_survey_unfold
    by (auto split: sum.split prod.split simp: st)
qed

lemma interpolate_survey_Inl:
  assumes "snd (interpolate_survey c (h, tr) r x index) = Inl e"
  shows "(e = IndexOutOfRange \<and> \<not> index < int (length (sv_md (h ! r))) - 1)
       \<or> (e = OutOfRange \<and> index < int (length (sv_md (h ! r))) - 1 \<and>
            (\<exists>dmd. py_index (sv_delta_md (h ! r)) (index + 1) = Inr dmd \<and> \<not> x \<le> dmd))
       \<or> ((e = IndexError \<or> e = TypeError \<or> e = NonFinite \<or> e = ZeroDivisionError \<or> e = ShapeError)
            \<and> index < int (length (sv_md (h ! r))) - 1)"
proof -
  have st: "snd (interpolated_station c h tr1 (h ! r) x index ia) = Inl e \<Longrightarrow> e = IndexError \<or> e = ShapeError"
    for tr1 ia
    using interpolated_station_cases [of c h tr1 "h ! r" x index ia] by auto
  show ?thesis
    using assms unfolding interpolate_survey_unfold
    by (auto split: sum.splits prod.splits if_splits
             dest: py_index_error interpolated_angles_error st)
qed

text \<open>
  Claim C9. \<^verbatim>\<open>interpolate_survey\<close> changes no object that existed before the call:
  every address of the old heap holds the same survey afterwards, the input survey
  among them. A returned reference is the address of a newly allocated object.
\<close>

theorem interpolate_survey_frame:
  assumes "interpolate_survey c (h, tr) r x index = ((h', tr'), res)"
  shows "(\<forall>a<length h. h' ! a = h ! a) \<and> length h \<le> length h'
       \<and> (\<forall>s. res = Inr s \<longrightarrow> s = length h \<and> s < length h')"
  using interpolate_survey_cases [of c h tr r x index] assms
  by (auto simp: nth_append)

text \<open>
  Claim C5, amended. \<^verbatim>\<open>interpolate_survey\<close> fails with \<open>IndexOutOfRange\<close> exactly when
  \<open>index \<ge> n - 1\<close>, for \<open>n\<close> stations; an index below 0 is not rejected by this
  check. The failure comes before anything else: the heap and the log of collaborator
  calls are as they were.
\<close>

theorem interpolate_survey_index_check:
  "(snd (interpolate_survey c (h, tr) r x index) = Inl IndexOutOfRange
      \<longleftrightarrow> int (length (sv_md (h ! r))) - 1 \<le> index)
   \<and> (int (length (sv_md (h ! r))) - 1 \<le> index
      \<longrightarrow> interpolate_survey c (h, tr) r x index = ((h, tr), Inl IndexOutOfRange))"
proof -
  have 1: "interpolate_survey c (h, tr) r x index = ((h, tr), Inl IndexOutOfRange)"
    if "int (length (sv_md (h ! r))) - 1 \<le> index"
    using that unfolding interpolate_survey_unfold by simp
  have 2: "int (length (sv_md (h ! r))) - 1 \<le> index"
    if "snd (interpolate_survey c (h, tr) r x index) = Inl IndexOutOfRange"
    using interpolate_survey_Inl [OF that] by auto
  from 1 2 show ?thesis by auto
qed

text \<open>
  Claim C6. For an index in \<open>[0, n-2]\<close>, \<^verbatim>\<open>interpolate_survey\<close> fails with \<open>OutOfRange\<close>
  exactly when \<open>x\<close> exceeds the delta-MD of the interval; \<open>x\<close> equal to it is not
  refused. The failure comes before any interpolation: the heap and the log of
  collaborator calls are as they were.
\<close>

theorem interpolate_survey_x_check:
  assumes "0 \<le> index" and "index < int (length (sv_md (h ! r))) - 1"
    and "length (sv_delta_md (h ! r)) = length (sv_md (h ! r))"
  shows "(snd (interpolate_survey c (h, tr) r x index) = Inl OutOfRange
            \<longleftrightarrow> sv_delta_md (h ! r) ! nat (index + 1) < x)
       \<and> (sv_delta_md (h ! r) ! nat (index + 1) < x
            \<longrightarrow> interpolate_survey c (h, tr) r x index = ((h, tr), Inl OutOfRange))"
proof -
  have dmd: "py_index (sv_delta_md (h ! r)) (index + 1) = Inr (sv_delta_md (h ! r) ! nat (index + 1))"
    using assms by (simp add: py_index_nat)
  have 1: "interpolate_survey c (h, tr) r x index = ((h, tr), Inl OutOfRange)"
    if "sv_delta_md (h ! r) ! nat (index + 1) < x"
    using that assms(2) unfolding interpolate_survey_unfold by (simp add: dmd)
  have 2: "sv_delta_md (h ! r) ! nat (index + 1) < x"
    if "snd (interpolate_survey c (h, tr) r x index) = Inl OutOfRange"
    using interpolate_survey_Inl [OF that] by (auto simp: dmd)
  from 1 2 show ?thesis by auto
qed

lemma interpolate_survey_ok:
  fixes c :: "'w collab"
  assumes ok: "stations_ok (h ! r)" and i0: "0 \<le> index"
    and i1: "index < int (length (sv_md (h ! r))) - 1"
    and x: "x \<le> sv_delta_md (h ! r) ! nat (index + 1)"
    and ang: "interpolated_angles c tr (h ! r) x index (sv_delta_md (h ! r) ! nat (index + 1))
                (sv_dogleg (h ! r) ! nat (index + 1)) = (tr1, Inr (inc, azi))"
  shows "\<exists>obj.
     interpolate_survey c (h, tr) r x index
       = ((h @ [obj], tr1 @ [Call_MinCurve, Call_get_nev, Call_get_vec, Call_MinCurve]), Inr (length h))
     \<and> sv_md obj = [sv_md (h ! r) ! nat index, sv_md (h ! r) ! nat index + x]
     \<and> sv_inc_rad obj = [sv_inc_rad (h ! r) ! nat index, inc]
     \<and> sv_azi_rad obj = [sv_azi_rad (h ! r) ! nat index, azi]
     \<and> sv_inc_deg obj = [degrees (sv_inc_rad (h ! r) ! nat index), degrees inc]
     \<and> sv_azi_deg obj = [degrees (sv_azi_rad (h ! r) ! nat index), degrees azi]
     \<and> sv_unit obj = ''meters''
     \<and> sv_start_xyz obj = (the (sv_x (h ! r)) ! nat index, the (sv_y (h ! r)) ! nat index, the (sv_z (h ! r)) ! nat index)
     \<and> sv_start_nev obj = (the (sv_n (h ! r)) ! nat index, the (sv_e (h ! r)) ! nat index, the (sv_tvd (h ! r)) ! nat index)
     \<and> sv_x obj = Some (col0 (mc_poss (MinCurve c (sv_md obj) (sv_inc_rad obj) (sv_azi_rad obj) (sv_start_xyz obj) (sv_unit obj))))
     \<and> sv_y obj = Some (col1 (mc_poss (MinCurve c (sv_md obj) (sv_inc_rad obj) (sv_azi_rad obj) (sv_start_xyz obj) (sv_unit obj))))
     \<and> sv_z obj = Some (col2 (mc_poss (MinCurve c (sv_md obj) (sv_inc_rad obj) (sv_azi_rad obj) (sv_start_xyz obj) (sv_unit obj))))
     \<and> sv_dogleg obj = mc_dogleg (MinCurve c (sv_md obj) (sv_inc_rad obj) (sv_azi_rad obj) (sv_start_xyz obj) (sv_unit obj))
     \<and> sv_delta_md obj = mc_delta_md (MinCurve c (sv_md obj) (sv_inc_rad obj) (sv_azi_rad obj) (sv_start_xyz obj) (sv_unit obj))"
proof -
  from ok have len: "length (sv_delta_md (h ! r)) = length (sv_md (h ! r))"
    "length (sv_dogleg (h ! r)) = length (sv_md (h ! r))"
    by (simp_all add: stations_ok_def Let_def)
  have dmd: "py_index (sv_delta_md (h ! r)) (index + 1) = Inr (sv_delta_md (h ! r) ! nat (index + 1))"
    and dl: "py_index (sv_dogleg (h ! r)) (index + 1) = Inr (sv_dogleg (h ! r) ! nat (index + 1))"
    using i0 i1 by (simp_all add: py_index_nat len)
  have "interpolate_survey c (h, tr) r x index = interpolated_station c h tr1 (h ! r) x index (inc, azi)"
    unfolding interpolate_survey_unfold using i1 x by (simp add: dmd dl ang)
  moreover have "index < int (length (sv_md (h ! r)))"
    using i1 by simp
  ultimately show ?thesis
    using interpolated_station_ok [OF ok i0, of c h tr1 x inc azi] by simp
qed

text \<open>
  Claim C3. On a survey whose sequences all have the length of \<^verbatim>\<open>md\<close>, for an index
  in \<open>[0, n-2]\<close> and \<open>x\<close> within the interval, a zero dogleg of the interval gives the
  interpolated station (station 1 of the result) the inclination and azimuth of the
  station at \<open>index\<close>. \<^verbatim>\<open>get_angles\<close> is not called: the log only gains the calls of
  the construction of the result.
\<close>

theorem interpolate_survey_tangent:
  fixes c :: "'w collab"
  assumes "stations_ok (h ! r)" and "0 \<le> index"
    and "index < int (length (sv_md (h ! r))) - 1"
    and "x \<le> sv_delta_md (h ! r) ! nat (index + 1)"
    and "sv_dogleg (h ! r) ! nat (index + 1) = 0"
  shows "\<exists>obj.
     interpolate_survey c (h, tr) r x index
       = ((h @ [obj], tr @ [Call_MinCurve, Call_get_nev, Call_get_vec, Call_MinCurve]), Inr (length h))
     \<and> sv_md obj ! 1 = sv_md (h ! r) ! nat index + x
     \<and> sv_inc_rad obj ! 1 = sv_inc_rad (h ! r) ! nat index
     \<and> sv_azi_rad obj ! 1 = sv_azi_rad (h ! r) ! nat index
     \<and> sv_inc_deg obj ! 1 = degrees (sv_inc_rad (h ! r) ! nat index)
     \<and> sv_azi_deg obj ! 1 = degrees (sv_azi_rad (h ! r) ! nat index)"
proof -
  from assms(1) have len: "length (sv_inc_rad (h ! r)) = length (sv_md (h ! r))"
    "length (sv_azi_rad (h ! r)) = length (sv_md (h ! r))"
    by (simp_all add: stations_ok_def Let_def)
  have ang: "interpolated_angles c tr (h ! r) x index (sv_delta_md (h ! r) ! nat (index + 1))
                (sv_dogleg (h ! r) ! nat (index + 1))
              = (tr, Inr (sv_inc_rad (h ! r) ! nat index, sv_azi_rad (h ! r) ! nat index))"
    unfolding assms(5) using assms(2,3) by (intro interpolated_angles_tangent) (simp_all add: len)
  from interpolate_survey_ok [OF assms(1-4) ang] show ?thesis
    by auto
qed

lemma slerp_start:
  assumes "sin D \<noteq> 0"
  shows "add3 (scale3 (sin (D - 0 * (D / dmd)) / sin D) t1) (scale3 (sin (0 * (D / dmd)) / sin D) t2) = t1"
  using assms by (cases t1; cases t2) (simp add: add3_def scale3_def)

lemma slerp_end:
  assumes "sin D \<noteq> 0" and "dmd \<noteq> 0"
  shows "add3 (scale3 (sin (D - dmd * (D / dmd)) / sin D) t1) (scale3 (sin (dmd * (D / dmd)) / sin D) t2) = t2"
  using assms by (cases t1; cases t2) (simp add: add3_def scale3_def)

subsection \<open>The two ends of an interval\<close>

lemma py_index_Inr_nat:
  assumes "py_index xs i = Inr v" and "0 \<le> i"
  shows "i < int (length xs)" and "v = xs ! nat i"
  using assms by (auto simp: py_index_def split: if_splits)

lemma py_index_0_Cons: "py_index xs 0 = Inr v \<Longrightarrow> \<exists>rest. xs = v # rest"
  by (cases xs) (auto simp: py_index_def split: if_splits)

lemma Survey_init_solver:
  assumes init: "Survey_init c tr a = (tr', Inr s)"
  shows "sv_dogleg s = mc_dogleg (MinCurve c (sv_md s) (sv_inc_rad s) (sv_azi_rad s) (sv_start_xyz s) (sv_unit s))"
    and "sv_delta_md s = mc_delta_md (MinCurve c (sv_md s) (sv_inc_rad s) (sv_azi_rad s) (sv_start_xyz s) (sv_unit s))"
    and "arg_x a = None \<Longrightarrow>
           sv_x s = Some (col0 (mc_poss (MinCurve c (sv_md s) (sv_inc_rad s) (sv_azi_rad s) (sv_start_xyz s) (sv_unit s)))) \<and>
           sv_y s = Some (col1 (mc_poss (MinCurve c (sv_md s) (sv_inc_rad s) (sv_azi_rad s) (sv_start_xyz s) (sv_unit s)))) \<and>
           sv_z s = Some (col2 (mc_poss (MinCurve c (sv_md s) (sv_inc_rad s) (sv_azi_rad s) (sv_start_xyz s) (sv_unit s))))"
    and "arg_vec a = None \<Longrightarrow> sv_vec s = Some (get_vec c (sv_inc_rad s) (sv_azi_rad s))"
    and "length (sv_inc_rad s) = length (sv_md s)" and "length (sv_azi_rad s) = length (sv_md s)"
proof -
  from init obtain tr1 s5 where
    len: "length (arg_inc a) = length (arg_md a)" "length (arg_azi a) = length (arg_md a)" and
    mc: "Survey_min_curve c tr (attributes_assigned a) = (tr1, Inr s5)" and
    ge: "Survey_get_errors c tr1
           (s5\<lparr>sv_error_model := arg_error_model a, sv_well_ref_params := arg_well_ref_params a,
               sv_cov_hla := arg_cov_hla a, sv_cov_nev := arg_cov_nev a\<rparr>) = (tr', s)"
    by (rule Survey_init_InrE)
  note g = Survey_get_errors_frame [OF ge]
  have same: "sv_md s = sv_md (attributes_assigned a)" "sv_inc_rad s = sv_inc_rad (attributes_assigned a)"
    "sv_azi_rad s = sv_azi_rad (attributes_assigned a)" "sv_start_xyz s = sv_start_xyz (attributes_assigned a)"
    "sv_unit s = sv_unit (attributes_assigned a)"
    by (simp_all add: g Survey_min_curve_frame [OF mc])
  have later: "sv_x s = sv_x s5" "sv_y s = sv_y s5" "sv_z s = sv_z s5" "sv_vec s = sv_vec s5"
    "sv_dogleg s = sv_dogleg s5" "sv_delta_md s = sv_delta_md s5"
    by (simp_all add: g)
  show "sv_dogleg s = mc_dogleg (MinCurve c (sv_md s) (sv_inc_rad s) (sv_azi_rad s) (sv_start_xyz s) (sv_unit s))"
    and "sv_delta_md s = mc_delta_md (MinCurve c (sv_md s) (sv_inc_rad s) (sv_azi_rad s) (sv_start_xyz s) (sv_unit s))"
    unfolding same later using Survey_min_curve_geometry [OF mc] by simp_all
  show "sv_x s = Some (col0 (mc_poss (MinCurve c (sv_md s) (sv_inc_rad s) (sv_azi_rad s) (sv_start_xyz s) (sv_unit s)))) \<and>
           sv_y s = Some (col1 (mc_poss (MinCurve c (sv_md s) (sv_inc_rad s) (sv_azi_rad s) (sv_start_xyz s) (sv_unit s)))) \<and>
           sv_z s = Some (col2 (mc_poss (MinCurve c (sv_md s) (sv_inc_rad s) (sv_azi_rad s) (sv_start_xyz s) (sv_unit s))))"
    if "arg_x a = None"
  proof -
    from that have "sv_x (attributes_assigned a) = None"
      by (simp add: attributes_assigned_fields)
    from Survey_min_curve_xyz(1) [OF mc this] show ?thesis
      unfolding same later by simp
  qed
  show "sv_vec s = Some (get_vec c (sv_inc_rad s) (sv_azi_rad s))" if "arg_vec a = None"
  proof -
    from that have "sv_vec (attributes_assigned a) = None"
      by (simp add: attributes_assigned_fields)
    from Survey_min_curve_vec(2) [OF mc this] show ?thesis
      unfolding same later by simp
  qed
  show "length (sv_inc_rad s) = length (sv_md s)" and "length (sv_azi_rad s) = length (sv_md s)"
    unfolding same by (simp_all add: attributes_assigned_fields len)
qed

lemma interpolated_angles_InrD:
  assumes "interpolated_angles c tr survey x index dmd total_dogleg = (tr1, Inr (inc, azi))"
    and "0 \<le> index"
  shows "total_dogleg = 0 \<Longrightarrow> inc = sv_inc_rad survey ! nat index \<and> azi = sv_azi_rad survey ! nat index"
    and "total_dogleg \<noteq> 0 \<Longrightarrow>
           dmd \<noteq> 0 \<and> sin total_dogleg \<noteq> 0 \<and>
           (\<exists>vs rest. sv_vec survey = Some vs \<and>
              get_angles c (add3 (scale3 (sin (total_dogleg - x * (total_dogleg / dmd)) / sin total_dogleg) (vs ! nat index))
                                 (scale3 (sin (x * (total_dogleg / dmd)) / sin total_dogleg) (vs ! nat (index + 1))))
                = (inc, azi) # rest)"
proof -
  show "inc = sv_inc_rad survey ! nat index \<and> azi = sv_azi_rad survey ! nat index" if "total_dogleg = 0"
  proof -
    from assms(1) that
    have a: "py_index (sv_azi_rad survey) index = Inr azi" and b: "py_index (sv_inc_rad survey) index = Inr inc"
      unfolding interpolated_angles_def by (simp_all split: sum.splits)
    from py_index_Inr_nat(2) [OF a assms(2)] py_index_Inr_nat(2) [OF b assms(2)] show ?thesis by simp
  qed
  show "dmd \<noteq> 0 \<and> sin total_dogleg \<noteq> 0 \<and>
           (\<exists>vs rest. sv_vec survey = Some vs \<and>
              get_angles c (add3 (scale3 (sin (total_dogleg - x * (total_dogleg / dmd)) / sin total_dogleg) (vs ! nat index))
                                 (scale3 (sin (x * (total_dogleg / dmd)) / sin total_dogleg) (vs ! nat (index + 1))))
                = (inc, azi) # rest)"
    if nz0: "total_dogleg \<noteq> 0"
  proof -
    define t where "t = (\<lambda>t1 t2. add3 (scale3 (sin (total_dogleg - x * (total_dogleg / dmd)) / sin total_dogleg) t1)
                                 (scale3 (sin (x * (total_dogleg / dmd)) / sin total_dogleg) t2))"
    have e: "interpolated_angles c tr survey x index dmd total_dogleg =
             (case py_index_opt (sv_vec survey) index of Inl err \<Rightarrow> (tr, Inl err) | Inr t1 \<Rightarrow>
              case py_index_opt (sv_vec survey) (index + 1) of Inl err \<Rightarrow> (tr, Inl err) | Inr t2 \<Rightarrow>
              if dmd = 0 then (tr, Inl NonFinite) else
               if sin total_dogleg = 0 then (tr, Inl ZeroDivisionError) else
               (case py_index (get_angles c (t t1 t2)) 0 of
                     Inl err \<Rightarrow> (tr @ [Call_get_angles], Inl err)
                   | Inr ia \<Rightarrow> (tr @ [Call_get_angles], Inr ia)))"
      unfolding interpolated_angles_def Let_def t_def using nz0 by (simp only: if_False)
    obtain r1 where r1: "py_index_opt (sv_vec survey) index = r1" by simp
    obtain r2 where r2: "py_index_opt (sv_vec survey) (index + 1) = r2" by simp
    obtain r3 where r3: "\<And>t1 t2. py_index (get_angles c (t t1 t2)) 0 = r3 t1 t2" by simp
    from assms(1) obtain t1 t2 where
      t1: "r1 = Inr t1" and
      t2: "r2 = Inr t2" and
      nz: "dmd \<noteq> 0" "sin total_dogleg \<noteq> 0" and
      ga: "r3 t1 t2 = Inr (inc, azi)"
      unfolding e r1 r2 r3 by (auto split: sum.splits if_splits)
    from t1 r1 obtain vs where vs: "sv_vec survey = Some vs" "py_index vs index = Inr t1"
      by (cases "sv_vec survey") (auto simp: py_index_opt_def)
    from t2 r2 vs have v2: "py_index vs (index + 1) = Inr t2"
      by (simp add: py_index_opt_def)
    have i1: "0 \<le> index + 1" using assms(2) by simp
    have tt: "t1 = vs ! nat index" "t2 = vs ! nat (index + 1)"
      using py_index_Inr_nat(2) [OF vs(2) assms(2)] py_index_Inr_nat(2) [OF v2 i1] by simp_all
    from ga r3 have "py_index (get_angles c (t t1 t2)) 0 = Inr (inc, azi)" by simp
    from py_index_0_Cons [OF this] obtain rest where "get_angles c (t t1 t2) = (inc, azi) # rest" ..
    then have "get_angles c (add3 (scale3 (sin (total_dogleg - x * (total_dogleg / dmd)) / sin total_dogleg) (vs ! nat index))
                                 (scale3 (sin (x * (total_dogleg / dmd)) / sin total_dogleg) (vs ! nat (index + 1))))
                = (inc, azi) # rest"
      unfolding t_def tt .
    with vs(1) nz show ?thesis by blast
  qed
qed

lemma interpolated_station_InrD:
  assumes ret: "interpolated_station c h tr1 survey x index (inc, azi) = ((h', tr'), Inr s)"
    and i0: "0 \<le> index"
  shows "\<exists>obj xyz.
       h' = h @ [obj] \<and> s = length h
     \<and> index < int (length (sv_md survey))
     \<and> stack3T (sv_x survey) (sv_y survey) (sv_z survey) = Inr xyz \<and> index < int (length xyz)
     \<and> sv_md obj = [sv_md survey ! nat index, sv_md survey ! nat index + x]
     \<and> sv_inc_rad obj = [sv_inc_rad survey ! nat index, inc]
     \<and> sv_azi_rad obj = [sv_azi_rad survey ! nat index, azi]
     \<and> sv_unit obj = ''meters''
     \<and> sv_start_xyz obj = xyz ! nat index
     \<and> sv_x obj = Some (col0 (mc_poss (MinCurve c (sv_md obj) (sv_inc_rad obj) (sv_azi_rad obj) (sv_start_xyz obj) (sv_unit obj))))
     \<and> sv_y obj = Some (col1 (mc_poss (MinCurve c (sv_md obj) (sv_inc_rad obj) (sv_azi_rad obj) (sv_start_xyz obj) (sv_unit obj))))
     \<and> sv_z obj = Some (col2 (mc_poss (MinCurve c (sv_md obj) (sv_inc_rad obj) (sv_azi_rad obj) (sv_start_xyz obj) (sv_unit obj))))"
proof -
  from ret obtain md0 inc0 azi0 xyz sx nev sn where
    p1: "py_index (sv_md survey) index = Inr md0" and
    p2: "py_index (sv_inc_rad survey) index = Inr inc0" and
    p3: "py_index (sv_azi_rad survey) index = Inr azi0" and
    s1: "stack3T (sv_x survey) (sv_y survey) (sv_z survey) = Inr xyz" and
    p4: "py_index xyz index = Inr sx" and
    cr: "construct_result c (h, tr1)
           ((Survey_args [md0, md0 + x] [inc0, inc] [azi0, azi])
              \<lparr>arg_start_xyz := sx, arg_start_nev := sn, arg_deg := False\<rparr>) = ((h', tr'), Inr s)"
    unfolding interpolated_station_def by (auto split: sum.splits)
  let ?a = "(Survey_args [md0, md0 + x] [inc0, inc] [azi0, azi])
              \<lparr>arg_start_xyz := sx, arg_start_nev := sn, arg_deg := False\<rparr> :: 'a init_args"
  from construct_result_interpolated [where c = c and tr = tr1 and h = h] obtain obj0 where
    init: "Survey_init c tr1 ?a = (tr1 @ [Call_MinCurve, Call_get_nev, Call_get_vec], Inr obj0)" and
    built: "construct_result c (h, tr1) ?a
              = ((h @ [obj0\<lparr>sv_dogleg := mc_dogleg (MinCurve c (sv_md obj0) (sv_inc_rad obj0) (sv_azi_rad obj0) (sv_start_xyz obj0) (sv_unit obj0)),
                      sv_rf := mc_rf (MinCurve c (sv_md obj0) (sv_inc_rad obj0) (sv_azi_rad obj0) (sv_start_xyz obj0) (sv_unit obj0)),
                      sv_delta_md := mc_delta_md (MinCurve c (sv_md obj0) (sv_inc_rad obj0) (sv_azi_rad obj0) (sv_start_xyz obj0) (sv_unit obj0)),
                      sv_dls := mc_dls (MinCurve c (sv_md obj0) (sv_inc_rad obj0) (sv_azi_rad obj0) (sv_start_xyz obj0) (sv_unit obj0))\<rparr>],
                  tr1 @ [Call_MinCurve, Call_get_nev, Call_get_vec, Call_MinCurve]), Inr (length h))"
    by blast
  define obj where "obj = obj0\<lparr>sv_dogleg := mc_dogleg (MinCurve c (sv_md obj0) (sv_inc_rad obj0) (sv_azi_rad obj0) (sv_start_xyz obj0) (sv_unit obj0)),
                      sv_rf := mc_rf (MinCurve c (sv_md obj0) (sv_inc_rad obj0) (sv_azi_rad obj0) (sv_start_xyz obj0) (sv_unit obj0)),
                      sv_delta_md := mc_delta_md (MinCurve c (sv_md obj0) (sv_inc_rad obj0) (sv_azi_rad obj0) (sv_start_xyz obj0) (sv_unit obj0)),
                      sv_dls := mc_dls (MinCurve c (sv_md obj0) (sv_inc_rad obj0) (sv_azi_rad obj0) (sv_start_xyz obj0) (sv_unit obj0))\<rparr>"
  from cr built have hs: "h' = h @ [obj]" "s = length h"
    by (simp_all add: obj_def)
  have none: "arg_x ?a = None" "arg_n ?a = None" "arg_vec ?a = None"
    by (simp_all add: Survey_args_def)
  note d = Survey_init_derived [OF init none]
  note f = Survey_init_fields [OF init]
  have same: "sv_md obj = sv_md obj0" "sv_inc_rad obj = sv_inc_rad obj0" "sv_azi_rad obj = sv_azi_rad obj0"
    "sv_unit obj = sv_unit obj0" "sv_start_xyz obj = sv_start_xyz obj0"
    "sv_x obj = sv_x obj0" "sv_y obj = sv_y obj0" "sv_z obj = sv_z obj0"
    by (simp_all add: obj_def)
  have args: "sv_md obj0 = [md0, md0 + x]" "sv_inc_rad obj0 = [inc0, inc]" "sv_azi_rad obj0 = [azi0, azi]"
    "sv_unit obj0 = ''meters''" "sv_start_xyz obj0 = sx"
    by (simp_all add: f Survey_args_def)
  note n1 = py_index_Inr_nat [OF p1 i0] and n2 = py_index_Inr_nat [OF p2 i0]
    and n3 = py_index_Inr_nat [OF p3 i0] and n4 = py_index_Inr_nat [OF p4 i0]
  show ?thesis
    apply (rule exI [of _ obj], rule exI [of _ xyz])
    unfolding same
    using hs s1 n1 n2 n3 n4 d(1-3) args by simp
qed

lemma interpolate_survey_InrD:
  assumes ret: "interpolate_survey c (h, tr) r x index = ((h', tr'), Inr s)"
    and i0: "0 \<le> index"
  shows "\<exists>tr1 inc azi.
       index + 1 < int (length (sv_delta_md (h ! r)))
     \<and> index + 1 < int (length (sv_dogleg (h ! r)))
     \<and> x \<le> sv_delta_md (h ! r) ! nat (index + 1)
     \<and> interpolated_angles c tr (h ! r) x index (sv_delta_md (h ! r) ! nat (index + 1))
           (sv_dogleg (h ! r) ! nat (index + 1)) = (tr1, Inr (inc, azi))
     \<and> interpolated_station c h tr1 (h ! r) x index (inc, azi) = ((h', tr'), Inr s)"
proof -
  have i1: "0 \<le> index + 1" using i0 by simp
  from ret obtain dmd D tr1 ia where
    a: "py_index (sv_delta_md (h ! r)) (index + 1) = Inr dmd" and x: "x \<le> dmd" and
    b: "py_index (sv_dogleg (h ! r)) (index + 1) = Inr D" and
    c: "interpolated_angles c tr (h ! r) x index dmd D = (tr1, Inr ia)" and
    d: "interpolated_station c h tr1 (h ! r) x index ia = ((h', tr'), Inr s)"
    unfolding interpolate_survey_unfold
    by (auto split: sum.splits if_splits prod.splits)
  note na = py_index_Inr_nat [OF a i1] and nb = py_index_Inr_nat [OF b i1]
  obtain inc azi where ia: "ia = (inc, azi)" by (cases ia)
  show ?thesis
    using na nb x c d unfolding ia by blast
qed

lemma Survey_init_supplied:
  assumes init: "Survey_init c tr a = (tr', Inr s)"
  shows "arg_x a = Some xs \<Longrightarrow> sv_x s = arg_x a \<and> sv_y s = arg_y a \<and> sv_z s = arg_z a"
    and "arg_vec a = Some vs \<Longrightarrow> sv_vec s = arg_vec a"
    and "arg_n a = None \<Longrightarrow>
           \<exists>pos. stack3T (sv_x s) (sv_y s) (sv_z s) = Inr pos \<and>
             sv_n s = Some (col0 (get_nev c pos (sv_start_xyz s) (sv_start_nev s))) \<and>
             sv_e s = Some (col1 (get_nev c pos (sv_start_xyz s) (sv_start_nev s))) \<and>
             sv_tvd s = Some (col2 (get_nev c pos (sv_start_xyz s) (sv_start_nev s)))"
proof -
  from init obtain tr1 s5 where
    mc: "Survey_min_curve c tr (attributes_assigned a) = (tr1, Inr s5)" and
    ge: "Survey_get_errors c tr1
           (s5\<lparr>sv_error_model := arg_error_model a, sv_well_ref_params := arg_well_ref_params a,
               sv_cov_hla := arg_cov_hla a, sv_cov_nev := arg_cov_nev a\<rparr>) = (tr', s)"
    by (rule Survey_init_InrE)
  note g = Survey_get_errors_frame [OF ge]
  have same: "sv_start_xyz s = sv_start_xyz (attributes_assigned a)"
    "sv_start_nev s = sv_start_nev (attributes_assigned a)"
    by (simp_all add: g Survey_min_curve_frame [OF mc])
  have later: "sv_x s = sv_x s5" "sv_y s = sv_y s5" "sv_z s = sv_z s5"
    "sv_n s = sv_n s5" "sv_e s = sv_e s5" "sv_tvd s = sv_tvd s5" "sv_vec s = sv_vec s5"
    by (simp_all add: g)
  show "sv_x s = arg_x a \<and> sv_y s = arg_y a \<and> sv_z s = arg_z a" if "arg_x a = Some xs"
  proof -
    from that have "sv_x (attributes_assigned a) \<noteq> None"
      by (simp add: attributes_assigned_fields)
    from Survey_min_curve_xyz(2) [OF mc this] show ?thesis
      unfolding later by (simp add: attributes_assigned_fields)
  qed
  show "sv_vec s = arg_vec a" if "arg_vec a = Some vs"
  proof -
    from that have "sv_vec (attributes_assigned a) \<noteq> None"
      by (simp add: attributes_assigned_fields)
    from Survey_min_curve_vec(1) [OF mc this] show ?thesis
      unfolding later by (simp add: attributes_assigned_fields)
  qed
  show "\<exists>pos. stack3T (sv_x s) (sv_y s) (sv_z s) = Inr pos \<and>
             sv_n s = Some (col0 (get_nev c pos (sv_start_xyz s) (sv_start_nev s))) \<and>
             sv_e s = Some (col1 (get_nev c pos (sv_start_xyz s) (sv_start_nev s))) \<and>
             sv_tvd s = Some (col2 (get_nev c pos (sv_start_xyz s) (sv_start_nev s)))"
    if "arg_n a = None"
  proof -
    from that have "sv_n (attributes_assigned a) = None"
      by (simp add: attributes_assigned_fields)
    from Survey_min_curve_nev(2) [OF mc this] show ?thesis
      unfolding later same .
  qed
qed

lemma slerp_section:
  fixes c :: "'w collab"
  assumes ok: "stations_ok (h ! r)" and i0: "0 \<le> index"
    and i1: "index < int (length (sv_md (h ! r))) - 1"
    and x: "x \<le> sv_delta_md (h ! r) ! nat (index + 1)"
    and xk: "x = 0 \<and> k = nat index \<or> x = sv_delta_md (h ! r) ! nat (index + 1) \<and> k = nat (index + 1)"
    and D: "sv_dogleg (h ! r) ! nat (index + 1) \<noteq> 0" "sin (sv_dogleg (h ! r) ! nat (index + 1)) \<noteq> 0"
      "sv_delta_md (h ! r) ! nat (index + 1) \<noteq> 0"
    and ga: "get_angles c (the (sv_vec (h ! r)) ! k) = (inc, azi) # rest"
  shows "\<exists>obj.
     interpolate_survey c (h, tr) r x index
       = ((h @ [obj], tr @ [Call_get_angles, Call_MinCurve, Call_get_nev, Call_get_vec, Call_MinCurve]), Inr (length h))
     \<and> sv_md obj = [sv_md (h ! r) ! nat index, sv_md (h ! r) ! nat index + x]
     \<and> sv_inc_rad obj = [sv_inc_rad (h ! r) ! nat index, inc]
     \<and> sv_azi_rad obj = [sv_azi_rad (h ! r) ! nat index, azi]
     \<and> sv_unit obj = ''meters''
     \<and> sv_start_xyz obj = (the (sv_x (h ! r)) ! nat index, the (sv_y (h ! r)) ! nat index, the (sv_z (h ! r)) ! nat index)
     \<and> sv_x obj = Some (col0 (mc_poss (MinCurve c (sv_md obj) (sv_inc_rad obj) (sv_azi_rad obj) (sv_start_xyz obj) (sv_unit obj))))
     \<and> sv_y obj = Some (col1 (mc_poss (MinCurve c (sv_md obj) (sv_inc_rad obj) (sv_azi_rad obj) (sv_start_xyz obj) (sv_unit obj))))
     \<and> sv_z obj = Some (col2 (mc_poss (MinCurve c (sv_md obj) (sv_inc_rad obj) (sv_azi_rad obj) (sv_start_xyz obj) (sv_unit obj))))"
proof -
  from ok have "has_length (sv_vec (h ! r)) (length (sv_md (h ! r)))"
    by (simp add: stations_ok_def Let_def)
  then obtain vs where vs: "sv_vec (h ! r) = Some vs" "length vs = length (sv_md (h ! r))"
    by (blast dest: has_length_Some)
  have t: "add3 (scale3 (sin (sv_dogleg (h ! r) ! nat (index + 1)
                              - x * (sv_dogleg (h ! r) ! nat (index + 1) / sv_delta_md (h ! r) ! nat (index + 1)))
                          / sin (sv_dogleg (h ! r) ! nat (index + 1))) (vs ! nat index))
                (scale3 (sin (x * (sv_dogleg (h ! r) ! nat (index + 1) / sv_delta_md (h ! r) ! nat (index + 1)))
                          / sin (sv_dogleg (h ! r) ! nat (index + 1))) (vs ! nat (index + 1)))
           = vs ! k"
    using xk D slerp_start slerp_end by metis
  have ang: "interpolated_angles c tr (h ! r) x index (sv_delta_md (h ! r) ! nat (index + 1))
                (sv_dogleg (h ! r) ! nat (index + 1))
              = (tr @ [Call_get_angles], Inr (inc, azi))"
  proof (rule interpolated_angles_slerp [where vs = vs and rest = rest])
    show "get_angles c
           (add3 (scale3 (sin (sv_dogleg (h ! r) ! nat (index + 1)
                              - x * (sv_dogleg (h ! r) ! nat (index + 1) / sv_delta_md (h ! r) ! nat (index + 1)))
                          / sin (sv_dogleg (h ! r) ! nat (index + 1))) (vs ! nat index))
                (scale3 (sin (x * (sv_dogleg (h ! r) ! nat (index + 1) / sv_delta_md (h ! r) ! nat (index + 1)))
                          / sin (sv_dogleg (h ! r) ! nat (index + 1))) (vs ! nat (index + 1))))
          = (inc, azi) # rest"
      unfolding t using ga vs by simp
  qed (use D vs i0 i1 in simp_all)
  from interpolate_survey_ok [OF ok i0 i1 x ang] show ?thesis
    by auto
qed

subsection \<open>The reference solver, station by station\<close>

lemma ref_path_length: "length (ref_path p ss) = Suc (length ss)"
  by (induction ss arbitrary: p) simp_all

lemma ref_path_0: "ref_path p ss ! 0 = p"
  by (cases ss) simp_all

lemma ref_path_Suc: "k < length ss \<Longrightarrow> ref_path p ss ! Suc k = add3 (ref_path p ss ! k) (ss ! k)"
proof (induction ss arbitrary: p k)
  case Nil
  then show ?case by simp
next
  case (Cons s ss)
  show ?case
  proof (cases k)
    case 0
    then show ?thesis by (simp add: ref_path_0)
  next
    case (Suc j)
    with Cons show ?thesis by simp
  qed
qed

lemma ref_steps_length: "length (ref_steps md vs) = min (length md) (length vs) - 1"
  by (induction md vs rule: ref_steps.induct) auto

lemma ref_steps_nth:
  "Suc k < length md \<Longrightarrow> Suc k < length vs \<Longrightarrow>
   ref_steps md vs ! k
     = scale3 ((md ! Suc k - md ! k) / 2 * ref_rf (arccos (dot3 (vs ! k) (vs ! Suc k))))
         (add3 (vs ! k) (vs ! Suc k))"
proof (induction md vs arbitrary: k rule: ref_steps.induct)
  case (1 m0 m1 ms u v vs)
  then show ?case by (cases k) simp_all
qed simp_all

lemma ref_delta_md_length: "length (ref_delta_md md) = length md - 1"
  by (induction md rule: ref_delta_md.induct) auto

lemma ref_delta_md_nth: "Suc k < length md \<Longrightarrow> ref_delta_md md ! k = md ! Suc k - md ! k"
proof (induction md arbitrary: k rule: ref_delta_md.induct)
  case (1 m0 m1 ms)
  then show ?case by (cases k) simp_all
qed simp_all

lemma ref_dogleg_length: "length (ref_dogleg vs) = length vs - 1"
  by (induction vs rule: ref_dogleg.induct) auto

lemma ref_dogleg_nth: "Suc k < length vs \<Longrightarrow> ref_dogleg vs ! k = arccos (dot3 (vs ! k) (vs ! Suc k))"
proof (induction vs arbitrary: k rule: ref_dogleg.induct)
  case (1 u v vs)
  then show ?case by (cases k) simp_all
qed simp_all

lemma ref_get_vec_length: "length (ref_get_vec inc azi) = min (length inc) (length azi)"
  by (simp add: ref_get_vec_def)

lemma ref_get_vec_nth:
  "k < length inc \<Longrightarrow> k < length azi \<Longrightarrow>
   ref_get_vec inc azi ! k = (sin (inc ! k) * sin (azi ! k), sin (inc ! k) * cos (azi ! k), cos (inc ! k))"
  by (simp add: ref_get_vec_def)

subsection \<open>Unit tangents\<close>

lemma tangent_unit:
  "dot3 (sin i * sin a, sin i * cos a, cos i) (sin i * sin a, sin i * cos a, cos i) = 1"
proof -
  have "dot3 (sin i * sin a, sin i * cos a, cos i) (sin i * sin a, sin i * cos a, cos i)
        = (sin i)\<^sup>2 * ((sin a)\<^sup>2 + (cos a)\<^sup>2) + (cos i)\<^sup>2"
    unfolding dot3_def by (simp only: prod.case power2_eq_square algebra_simps)
  also have "\<dots> = 1" by simp
  finally show ?thesis .
qed

lemma dot3_unit_bounds:
  assumes "dot3 u u = 1" and "dot3 v v = 1"
  shows "- 1 \<le> dot3 u v" and "dot3 u v \<le> 1"
proof -
  obtain a b c where u: "u = (a, b, c)" by (cases u)
  obtain a' b' c' where v: "v = (a', b', c')" by (cases v)
  have "0 \<le> (a - a')\<^sup>2 + (b - b')\<^sup>2 + (c - c')\<^sup>2" by simp
  also have "\<dots> = dot3 u u + dot3 v v - 2 * dot3 u v"
    by (simp add: u v dot3_def power2_eq_square algebra_simps)
  finally show "dot3 u v \<le> 1" using assms by simp
  have "0 \<le> (a + a')\<^sup>2 + (b + b')\<^sup>2 + (c + c')\<^sup>2" by simp
  also have "\<dots> = dot3 u u + dot3 v v + 2 * dot3 u v"
    by (simp add: u v dot3_def power2_eq_square algebra_simps)
  finally show "- 1 \<le> dot3 u v" using assms by simp
qed

lemma zero_dogleg_same_tangent:
  assumes "dot3 u u = 1" and "dot3 v v = 1" and "arccos (dot3 u v) = 0"
  shows "u = v"
proof -
  obtain a b c where u: "u = (a, b, c)" by (cases u)
  obtain a' b' c' where v: "v = (a', b', c')" by (cases v)
  have "cos (arccos (dot3 u v)) = dot3 u v"
    using dot3_unit_bounds [OF assms(1,2)] by simp
  then have d: "dot3 u v = 1" by (simp add: assms(3))
  have "(a - a')\<^sup>2 + (b - b')\<^sup>2 + (c - c')\<^sup>2 = dot3 u u + dot3 v v - 2 * dot3 u v"
    by (simp add: u v dot3_def power2_eq_square algebra_simps)
  also have "\<dots> = 0" using assms(1,2) d by simp
  finally have z: "(a - a')\<^sup>2 + (b - b')\<^sup>2 + (c - c')\<^sup>2 = 0" .
  have "(a - a')\<^sup>2 = 0 \<and> (b - b')\<^sup>2 = 0 \<and> (c - c')\<^sup>2 = 0"
    using z zero_le_power2 [of "a - a'"] zero_le_power2 [of "b - b'"] zero_le_power2 [of "c - c'"]
    by linarith
  then show ?thesis by (simp add: u v)
qed

lemma tangent_of_angles_of_tangent:
  assumes "ref_get_angles (sin i * sin a, sin i * cos a, cos i) = [(inc, azi)]"
  shows "(sin inc * sin azi, sin inc * cos azi, cos inc) = (sin i * sin a, sin i * cos a, cos i)"
proof -
  let ?x = "sin i * sin a" and ?y = "sin i * cos a" and ?z = "cos i"
  have one: "?x * ?x + ?y * ?y + ?z * ?z = 1"
    using tangent_unit [of i a] by (simp add: dot3_def)
  from assms have inc: "inc = arccos ?z"
    and azi: "azi = Arg (Complex ?y ?x) \<or> azi = Arg (Complex ?y ?x) + 2 * pi"
    by (auto simp: ref_get_angles_def Let_def one split: if_splits)
  have c: "cos inc = ?z" by (simp add: inc)
  have "sin inc = sqrt (1 - ?z\<^sup>2)"
    unfolding inc by (rule sin_arccos_abs) simp
  also have "1 - ?z\<^sup>2 = ?y\<^sup>2 + ?x\<^sup>2"
    using one by (simp add: power2_eq_square)
  also have "sqrt (?y\<^sup>2 + ?x\<^sup>2) = cmod (Complex ?y ?x)"
    by (simp add: cmod_def)
  finally have s: "sin inc = cmod (Complex ?y ?x)" .
  have sa: "sin azi = sin (Arg (Complex ?y ?x))" and ca: "cos azi = cos (Arg (Complex ?y ?x))"
    using azi by auto
  have "Im (rcis (cmod (Complex ?y ?x)) (Arg (Complex ?y ?x))) = ?x"
    and "Re (rcis (cmod (Complex ?y ?x)) (Arg (Complex ?y ?x))) = ?y"
    by (simp_all only: rcis_cmod_Arg complex.sel)
  then have "sin inc * sin azi = ?x" and "sin inc * cos azi = ?y"
    by (simp_all add: s sa ca)
  with c show ?thesis by simp
qed

text \<open>
  The reference \<^verbatim>\<open>get_angles\<close> returns the angles of a station for its tangent vector
  when the inclination lies strictly between 0 and \<open>\<pi>\<close> and the azimuth in \<open>[0, 2\<pi>)\<close>.
\<close>

lemma ref_get_angles_inverts:
  assumes i: "0 < i" "i < pi" and a: "0 \<le> a" "a < 2 * pi"
  shows "ref_get_angles (sin i * sin a, sin i * cos a, cos i) = [(i, a)]"
proof -
  let ?x = "sin i * sin a" and ?y = "sin i * cos a" and ?z = "cos i"
  have one: "?x * ?x + ?y * ?y + ?z * ?z = 1"
    using tangent_unit [of i a] by (simp add: dot3_def)
  have inc: "arccos ?z = i"
    using i by (simp add: arccos_cos)
  have s: "0 < sin i"
    using i by (rule sin_gt_zero)
  have z: "Complex ?y ?x = rcis (sin i) a"
    by (simp add: complex_eq_iff)
  have sg: "sgn (Complex ?y ?x) = cis a"
    unfolding z using s by (simp add: sgn_eq rcis_def norm_mult)
  have cis2: "cis (a - 2 * pi) = cis a"
    by (simp add: complex_eq_iff cos_diff sin_diff)
  have "(if Arg (Complex ?y ?x) < 0 then Arg (Complex ?y ?x) + 2 * pi else Arg (Complex ?y ?x)) = a"
  proof (cases "a \<le> pi")
    case True
    have "Arg (Complex ?y ?x) = a"
      using sg a True by (intro cis_Arg_unique) simp_all
    with a show ?thesis by simp
  next
    case False
    have "Arg (Complex ?y ?x) = a - 2 * pi"
      using sg a False by (intro cis_Arg_unique) (simp_all add: cis2)
    with a show ?thesis by simp
  qed
  then show ?thesis
    by (simp add: ref_get_angles_def Let_def one inc)
qed

lemma ref_collab_sel:
  "MinCurve ref_collab = ref_MinCurve" "get_vec ref_collab = ref_get_vec"
  "get_angles ref_collab = ref_get_angles" "get_nev ref_collab = ref_get_nev"
  by (simp_all add: ref_collab_def)

lemma ref_MinCurve_sel:
  "mc_dogleg (ref_MinCurve md inc azi p u) = (if md = [] then [] else 0 # ref_dogleg (ref_get_vec inc azi))"
  "mc_delta_md (ref_MinCurve md inc azi p u) = (if md = [] then [] else 0 # ref_delta_md md)"
  "mc_poss (ref_MinCurve md inc azi p u) = (if md = [] then [] else ref_path p (ref_steps md (ref_get_vec inc azi)))"
  by (simp_all add: ref_MinCurve_def Let_def)

lemma cols_nth: "k < length p \<Longrightarrow> (col0 p ! k, col1 p ! k, col2 p ! k) = p ! k"
  by (simp add: col0_def col1_def col2_def)

lemma station_xyz_stack:
  assumes "stack3T (sv_x s) (sv_y s) (sv_z s) = Inr p" and "k < length p"
  shows "station_xyz s k = p ! k"
  using stack3T_Inr_length [OF assms(1)] assms(2) by (simp add: station_xyz_def cols_nth)

lemma ref_get_angles_single: "\<exists>ia. ref_get_angles v = [ia]"
  by (cases v) (simp add: ref_get_angles_def Let_def)

lemma ref_two_stations:
  "mc_poss (ref_MinCurve [m0, m1] [i0, i1] [a0, a1] p u)
     = [p, add3 p (scale3 ((m1 - m0) / 2
              * ref_rf (arccos (dot3 (sin i0 * sin a0, sin i0 * cos a0, cos i0) (sin i1 * sin a1, sin i1 * cos a1, cos i1))))
             (add3 (sin i0 * sin a0, sin i0 * cos a0, cos i0) (sin i1 * sin a1, sin i1 * cos a1, cos i1)))]"
  by (simp add: ref_MinCurve_sel ref_get_vec_def)

lemma add3_zero_step: "add3 p (scale3 0 v) = p"
  by (cases p; cases v) (simp add: add3_def scale3_def)

text \<open>The survey the constructor builds with the reference collaborators, interval by interval.\<close>

lemma ref_constructed_interval:
  assumes built: "Survey_init ref_collab tr0 a = (tr1, Inr s)"
    and i: "Suc i < length (sv_md s)"
  shows "sv_delta_md s ! Suc i = sv_md s ! Suc i - sv_md s ! i"
    and "sv_dogleg s ! Suc i
           = arccos (dot3 (ref_get_vec (sv_inc_rad s) (sv_azi_rad s) ! i) (ref_get_vec (sv_inc_rad s) (sv_azi_rad s) ! Suc i))"
    and "\<And>j. j < length (sv_md s) \<Longrightarrow> ref_get_vec (sv_inc_rad s) (sv_azi_rad s) ! j
           = (sin (sv_inc_rad s ! j) * sin (sv_azi_rad s ! j), sin (sv_inc_rad s ! j) * cos (sv_azi_rad s ! j), cos (sv_inc_rad s ! j))"
    and "arg_vec a = None \<Longrightarrow> sv_vec s = Some (ref_get_vec (sv_inc_rad s) (sv_azi_rad s))"
    and "arg_x a = None \<Longrightarrow>
           station_xyz s (Suc i)
             = add3 (station_xyz s i)
                 (scale3 ((sv_md s ! Suc i - sv_md s ! i) / 2 * ref_rf (sv_dogleg s ! Suc i))
                    (add3 (ref_get_vec (sv_inc_rad s) (sv_azi_rad s) ! i) (ref_get_vec (sv_inc_rad s) (sv_azi_rad s) ! Suc i)))"
proof -
  note g = Survey_init_solver [OF built, unfolded ref_collab_sel ref_MinCurve_sel]
  let ?V = "ref_get_vec (sv_inc_rad s) (sv_azi_rad s)"
  from i have ne: "sv_md s \<noteq> []" by auto
  have lV: "length ?V = length (sv_md s)"
    by (simp add: ref_get_vec_length g(5,6))
  show "sv_delta_md s ! Suc i = sv_md s ! Suc i - sv_md s ! i"
    using i ne by (simp add: g(2) ref_delta_md_nth)
  show D: "sv_dogleg s ! Suc i = arccos (dot3 (?V ! i) (?V ! Suc i))"
    using i ne lV by (simp add: g(1) ref_dogleg_nth)
  show "?V ! j = (sin (sv_inc_rad s ! j) * sin (sv_azi_rad s ! j), sin (sv_inc_rad s ! j) * cos (sv_azi_rad s ! j), cos (sv_inc_rad s ! j))"
    if "j < length (sv_md s)" for j
    using that by (simp add: ref_get_vec_nth g(5,6))
  show "sv_vec s = Some ?V" if "arg_vec a = None"
    using g(4) [OF that] .
  show "station_xyz s (Suc i)
             = add3 (station_xyz s i)
                 (scale3 ((sv_md s ! Suc i - sv_md s ! i) / 2 * ref_rf (sv_dogleg s ! Suc i)) (add3 (?V ! i) (?V ! Suc i)))"
    if "arg_x a = None"
  proof -
    let ?P = "ref_path (sv_start_xyz s) (ref_steps (sv_md s) ?V)"
    from g(3) [OF that] ne have xyz: "sv_x s = Some (col0 ?P)" "sv_y s = Some (col1 ?P)" "sv_z s = Some (col2 ?P)"
      by simp_all
    have st: "stack3T (sv_x s) (sv_y s) (sv_z s) = Inr ?P"
      unfolding xyz by (rule stack3T_cols)
    have lS: "length (ref_steps (sv_md s) ?V) = length (sv_md s) - 1"
      by (simp add: ref_steps_length lV)
    have lP: "length ?P = length (sv_md s)"
      using ne by (simp add: ref_path_length lS)
    have "station_xyz s (Suc i) = ?P ! Suc i"
      using i by (intro station_xyz_stack [OF st]) (simp add: lP)
    also have "\<dots> = add3 (?P ! i) (ref_steps (sv_md s) ?V ! i)"
      using i by (intro ref_path_Suc) (simp add: lS)
    also have "?P ! i = station_xyz s i"
      using i by (intro station_xyz_stack [OF st, symmetric]) (simp add: lP)
    also have "ref_steps (sv_md s) ?V ! i
        = scale3 ((sv_md s ! Suc i - sv_md s ! i) / 2 * ref_rf (sv_dogleg s ! Suc i)) (add3 (?V ! i) (?V ! Suc i))"
      unfolding D using i by (intro ref_steps_nth) (simp_all add: lV)
    finally show ?thesis .
  qed
qed

text \<open>The station a returning call has interpolated, with the reference collaborators.\<close>

lemma ref_interpolated_station:
  assumes ret: "interpolate_survey ref_collab (h, tr) r x index = ((h', tr'), Inr s)"
    and i0: "0 \<le> index"
  shows "\<exists>inc azi tr1.
       interpolated_angles ref_collab tr (h ! r) x index (sv_delta_md (h ! r) ! Suc (nat index))
           (sv_dogleg (h ! r) ! Suc (nat index)) = (tr1, Inr (inc, azi))
     \<and> Suc (nat index) < length (sv_md (h ! r))
     \<and> sv_md (h' ! s) ! 1 = sv_md (h ! r) ! nat index + x
     \<and> station_angles (h' ! s) 1 = (inc, azi)
     \<and> station_xyz (h' ! s) 1
         = add3 (station_xyz (h ! r) (nat index))
             (scale3 (x / 2 * ref_rf (arccos (dot3
                   (sin (sv_inc_rad (h ! r) ! nat index) * sin (sv_azi_rad (h ! r) ! nat index),
                    sin (sv_inc_rad (h ! r) ! nat index) * cos (sv_azi_rad (h ! r) ! nat index),
                    cos (sv_inc_rad (h ! r) ! nat index))
                   (sin inc * sin azi, sin inc * cos azi, cos inc))))
                (add3 (sin (sv_inc_rad (h ! r) ! nat index) * sin (sv_azi_rad (h ! r) ! nat index),
                       sin (sv_inc_rad (h ! r) ! nat index) * cos (sv_azi_rad (h ! r) ! nat index),
                       cos (sv_inc_rad (h ! r) ! nat index))
                      (sin inc * sin azi, sin inc * cos azi, cos inc)))"
proof -
  have n1: "nat (index + 1) = Suc (nat index)"
    using i0 by simp
  have i1: "index < int (length (sv_md (h ! r))) - 1"
  proof (rule ccontr)
    assume "\<not> index < int (length (sv_md (h ! r))) - 1"
    with ret show False unfolding interpolate_survey_unfold by simp
  qed
  from interpolate_survey_InrD [OF ret i0] obtain tr1 inc azi where
    ang: "interpolated_angles ref_collab tr (h ! r) x index (sv_delta_md (h ! r) ! nat (index + 1))
           (sv_dogleg (h ! r) ! nat (index + 1)) = (tr1, Inr (inc, azi))" and
    st: "interpolated_station ref_collab h tr1 (h ! r) x index (inc, azi) = ((h', tr'), Inr s)"
    by blast
  from interpolated_station_InrD [OF st i0] obtain obj xyz where
    hs: "h' = h @ [obj]" "s = length h" and
    p: "stack3T (sv_x (h ! r)) (sv_y (h ! r)) (sv_z (h ! r)) = Inr xyz" "index < int (length xyz)" and
    f: "sv_md obj = [sv_md (h ! r) ! nat index, sv_md (h ! r) ! nat index + x]"
       "sv_inc_rad obj = [sv_inc_rad (h ! r) ! nat index, inc]"
       "sv_azi_rad obj = [sv_azi_rad (h ! r) ! nat index, azi]"
       "sv_unit obj = ''meters''"
       "sv_start_xyz obj = xyz ! nat index" and
    q: "sv_x obj = Some (col0 (mc_poss (MinCurve ref_collab (sv_md obj) (sv_inc_rad obj) (sv_azi_rad obj) (sv_start_xyz obj) (sv_unit obj))))"
       "sv_y obj = Some (col1 (mc_poss (MinCurve ref_collab (sv_md obj) (sv_inc_rad obj) (sv_azi_rad obj) (sv_start_xyz obj) (sv_unit obj))))"
       "sv_z obj = Some (col2 (mc_poss (MinCurve ref_collab (sv_md obj) (sv_inc_rad obj) (sv_azi_rad obj) (sv_start_xyz obj) (sv_unit obj))))"
    by blast
  have obj: "h' ! s = obj" by (simp add: hs)
  have start: "xyz ! nat index = station_xyz (h ! r) (nat index)"
    using p i0 by (intro station_xyz_stack [symmetric]) simp_all
  note q' = q [unfolded f ref_collab_sel ref_two_stations start]
  have "station_xyz obj 1
         = add3 (station_xyz (h ! r) (nat index))
             (scale3 (x / 2 * ref_rf (arccos (dot3
                   (sin (sv_inc_rad (h ! r) ! nat index) * sin (sv_azi_rad (h ! r) ! nat index),
                    sin (sv_inc_rad (h ! r) ! nat index) * cos (sv_azi_rad (h ! r) ! nat index),
                    cos (sv_inc_rad (h ! r) ! nat index))
                   (sin inc * sin azi, sin inc * cos azi, cos inc))))
                (add3 (sin (sv_inc_rad (h ! r) ! nat index) * sin (sv_azi_rad (h ! r) ! nat index),
                       sin (sv_inc_rad (h ! r) ! nat index) * cos (sv_azi_rad (h ! r) ! nat index),
                       cos (sv_inc_rad (h ! r) ! nat index))
                      (sin inc * sin azi, sin inc * cos azi, cos inc)))"
    unfolding station_xyz_def q' by (simp add: col0_def col1_def col2_def)
  moreover have "station_angles obj 1 = (inc, azi)" "sv_md obj ! 1 = sv_md (h ! r) ! nat index + x"
    by (simp_all add: station_angles_def f)
  moreover have "Suc (nat index) < length (sv_md (h ! r))"
    using i0 i1 by simp
  ultimately show ?thesis
    using ang unfolding obj n1 by blast
qed

text \<open>
  Claim C4, amended. Take a survey constructed with the reference collaborators, a
  valid index and a call of \<^verbatim>\<open>interpolate_survey\<close> that returns, with \<open>x = 0\<close>
  (then \<open>k\<close> is the starting station of the interval) or \<open>x\<close> equal to the delta-MD
  of the interval (then \<open>k\<close> is its ending station). The interpolated station,
  station 1 of the result, has the measured depth of station \<open>k\<close>. It has the
  position of station \<open>k\<close> when \<open>k\<close> is the starting station, and also when \<open>k\<close>
  is the ending station of a survey constructed without positions and without tangent
  vectors of the caller. On an interval of zero dogleg it has the angles of the
  starting station, for both values of \<open>x\<close>. On an interval of non-zero dogleg it
  has the angles of station \<open>k\<close> when \<^verbatim>\<open>get_angles\<close> returns these angles for the
  tangent vector of station \<open>k\<close>.
\<close>

theorem interpolate_survey_endpoints:
  assumes built: "Survey_init ref_collab tr0 a = (tr1, Inr (h ! r))"
    and i0: "0 \<le> index" and i1: "index < int (length (sv_md (h ! r))) - 1"
    and xk: "x = 0 \<and> k = nat index \<or> x = sv_delta_md (h ! r) ! nat (index + 1) \<and> k = nat (index + 1)"
    and ret: "interpolate_survey ref_collab (h, tr) r x index = ((h', tr'), Inr s)"
  shows "sv_md (h' ! s) ! 1 = sv_md (h ! r) ! k
       \<and> (k = nat index \<or> arg_x a = None \<and> arg_vec a = None
            \<longrightarrow> station_xyz (h' ! s) 1 = station_xyz (h ! r) k)
       \<and> (sv_dogleg (h ! r) ! nat (index + 1) = 0
            \<longrightarrow> station_angles (h' ! s) 1 = station_angles (h ! r) (nat index))
       \<and> (sv_dogleg (h ! r) ! nat (index + 1) \<noteq> 0
            \<and> get_angles ref_collab (the (sv_vec (h ! r)) ! k) = [station_angles (h ! r) k]
            \<longrightarrow> station_angles (h' ! s) 1 = station_angles (h ! r) k)"
proof -
  define i where "i = nat index"
  define D where "D = sv_dogleg (h ! r) ! Suc i"
  define dmd where "dmd = sv_delta_md (h ! r) ! Suc i"
  define T where "T = (\<lambda>j. (sin (sv_inc_rad (h ! r) ! j) * sin (sv_azi_rad (h ! r) ! j),
                          sin (sv_inc_rad (h ! r) ! j) * cos (sv_azi_rad (h ! r) ! j),
                          cos (sv_inc_rad (h ! r) ! j)))"
  have n1: "nat (index + 1) = Suc i"
    using i0 by (simp add: i_def)
  from ref_interpolated_station [OF ret i0] obtain inc azi tr2 where
    ang: "interpolated_angles ref_collab tr (h ! r) x index dmd D = (tr2, Inr (inc, azi))" and
    si: "Suc i < length (sv_md (h ! r))" and
    md: "sv_md (h' ! s) ! 1 = sv_md (h ! r) ! i + x" and
    angles: "station_angles (h' ! s) 1 = (inc, azi)" and
    xyz: "station_xyz (h' ! s) 1
         = add3 (station_xyz (h ! r) i)
             (scale3 (x / 2 * ref_rf (arccos (dot3 (T i) (sin inc * sin azi, sin inc * cos azi, cos inc))))
                (add3 (T i) (sin inc * sin azi, sin inc * cos azi, cos inc)))"
    unfolding i_def D_def dmd_def T_def by blast
  note c = ref_constructed_interval [OF built si]
  have V: "ref_get_vec (sv_inc_rad (h ! r)) (sv_azi_rad (h ! r)) ! i = T i"
    "ref_get_vec (sv_inc_rad (h ! r)) (sv_azi_rad (h ! r)) ! Suc i = T (Suc i)"
    using si by (simp_all add: c(3) T_def)
  have dmd: "dmd = sv_md (h ! r) ! Suc i - sv_md (h ! r) ! i"
    unfolding dmd_def by (rule c(1))
  have Dv: "D = arccos (dot3 (T i) (T (Suc i)))"
    unfolding D_def c(2) V ..
  have unit: "dot3 (T j) (T j) = 1" for j
    unfolding T_def by (rule tangent_unit)
  note a0 = interpolated_angles_InrD [OF ang i0, folded i_def]
  have tangent: "inc = sv_inc_rad (h ! r) ! i \<and> azi = sv_azi_rad (h ! r) ! i" if "D = 0"
    using a0(1) [OF that] .
  have slerp: "\<exists>vs. sv_vec (h ! r) = Some vs \<and> (\<exists>rest. ref_get_angles (vs ! k) = (inc, azi) # rest)"
    if nz: "D \<noteq> 0"
  proof -
    from a0(2) [OF nz] obtain vs rest where
      z: "dmd \<noteq> 0" "sin D \<noteq> 0" and vs: "sv_vec (h ! r) = Some vs" and
      ga: "get_angles ref_collab
             (add3 (scale3 (sin (D - x * (D / dmd)) / sin D) (vs ! i))
                   (scale3 (sin (x * (D / dmd)) / sin D) (vs ! nat (index + 1)))) = (inc, azi) # rest"
      by blast
    from xk have "add3 (scale3 (sin (D - x * (D / dmd)) / sin D) (vs ! i))
                   (scale3 (sin (x * (D / dmd)) / sin D) (vs ! nat (index + 1))) = vs ! k"
    proof
      assume "x = 0 \<and> k = nat index"
      then show ?thesis
        using slerp_start [OF z(2)] by (simp add: i_def)
    next
      assume "x = sv_delta_md (h ! r) ! nat (index + 1) \<and> k = nat (index + 1)"
      then have "x = dmd" "k = nat (index + 1)"
        by (simp_all add: n1 dmd_def)
      then show ?thesis
        using slerp_end [OF z(2,1)] by simp
    qed
    with ga vs show ?thesis
      by (auto simp: ref_collab_sel)
  qed
  have "sv_md (h' ! s) ! 1 = sv_md (h ! r) ! k"
    using xk md dmd by (auto simp: n1 i_def dmd_def)
  moreover have "station_xyz (h' ! s) 1 = station_xyz (h ! r) k"
    if "k = nat index \<or> arg_x a = None \<and> arg_vec a = None"
    using xk
  proof
    assume "x = 0 \<and> k = nat index"
    then show ?thesis
      unfolding xyz by (simp add: add3_zero_step i_def)
  next
    assume e: "x = sv_delta_md (h ! r) ! nat (index + 1) \<and> k = nat (index + 1)"
    then have xe: "x = dmd" and ke: "k = Suc i"
      by (simp_all add: n1 dmd_def)
    from ke that have none: "arg_x a = None" "arg_vec a = None"
      by (simp_all add: i_def)
    have same: "(sin inc * sin azi, sin inc * cos azi, cos inc) = T (Suc i)"
    proof (cases "D = 0")
      case True
      from tangent [OF True] have "(sin inc * sin azi, sin inc * cos azi, cos inc) = T i"
        by (simp add: T_def)
      also have "T i = T (Suc i)"
        using True unfolding Dv by (intro zero_dogleg_same_tangent unit)
      finally show ?thesis .
    next
      case False
      from slerp [OF False] c(4) [OF none(2)] obtain rest where
        "ref_get_angles (T (Suc i)) = (inc, azi) # rest"
        by (auto simp: ke V)
      moreover from ref_get_angles_single obtain ia where "ref_get_angles (T (Suc i)) = [ia]" ..
      ultimately have "ref_get_angles (T (Suc i)) = [(inc, azi)]"
        by simp
      then show ?thesis
        unfolding T_def by (rule tangent_of_angles_of_tangent)
    qed
    have "station_xyz (h ! r) (Suc i)
            = add3 (station_xyz (h ! r) i)
                (scale3 ((sv_md (h ! r) ! Suc i - sv_md (h ! r) ! i) / 2 * ref_rf (sv_dogleg (h ! r) ! Suc i))
                   (add3 (T i) (T (Suc i))))"
      using c(5) [OF none(1)] unfolding V .
    then show ?thesis
      unfolding xyz same ke xe dmd Dv [symmetric] D_def by simp
  qed
  moreover have "station_angles (h' ! s) 1 = station_angles (h ! r) (nat index)"
    if "sv_dogleg (h ! r) ! nat (index + 1) = 0"
    using tangent that unfolding angles by (simp add: n1 D_def station_angles_def i_def)
  moreover have "station_angles (h' ! s) 1 = station_angles (h ! r) k"
    if "sv_dogleg (h ! r) ! nat (index + 1) \<noteq> 0
            \<and> get_angles ref_collab (the (sv_vec (h ! r)) ! k) = [station_angles (h ! r) k]"
  proof -
    from that have "D \<noteq> 0" by (simp add: n1 D_def)
    from slerp [OF this] that show ?thesis
      unfolding angles by (auto simp: ref_collab_sel)
  qed
  ultimately show ?thesis by blast
qed

lemma new_Survey_default:
  fixes c :: "'w collab"
  assumes "length inc = length md" and "length azi = length md"
  shows "\<exists>s. fst (new_Survey c ([], []) ((Survey_args md inc azi)\<lparr>arg_deg := d\<rparr>))
               = ([s], [Call_MinCurve, Call_get_nev, Call_get_vec])
           \<and> Survey_init c [] ((Survey_args md inc azi)\<lparr>arg_deg := d\<rparr>)
               = ([Call_MinCurve, Call_get_nev, Call_get_vec], Inr s)"
proof -
  let ?a = "(Survey_args md inc azi)\<lparr>arg_deg := d\<rparr> :: 'w init_args"
  have "\<exists>s. Survey_init c [] ?a =
           ([] @ [Call_MinCurve] @ (if arg_n ?a = None then [Call_get_nev] else [])
               @ (if arg_vec ?a = None then [Call_get_vec] else [])
               @ (if arg_error_model ?a = None then [] else [Call_ErrorModel]), Inr s)"
    by (rule Survey_init_succeeds) (simp_all add: Survey_args_def assms)
  then obtain s where "Survey_init c [] ?a = ([Call_MinCurve, Call_get_nev, Call_get_vec], Inr s)"
    by (auto simp: Survey_args_def)
  then show ?thesis by (auto simp: new_Survey_def)
qed

lemma vertical_well_facts:
  "\<exists>s. vertical_well = ([s], [Call_MinCurve, Call_get_nev, Call_get_vec]) \<and> stations_ok s
     \<and> sv_md s = [0, 100] \<and> sv_inc_rad s = [0, 0] \<and> sv_azi_rad s = [0, 0]
     \<and> sv_dogleg s = [0, 0] \<and> sv_delta_md s = [0, 100]
     \<and> sv_x s = Some [0, 0] \<and> sv_y s = Some [0, 0] \<and> sv_z s = Some [0, 100]
     \<and> sv_n s = Some [0, 0] \<and> sv_e s = Some [0, 0] \<and> sv_tvd s = Some [0, 100]
     \<and> sv_vec s = Some [(0, 0, 1), (0, 0, 1)]"
proof -
  from new_Survey_default [of "[0, 0]" "[0, 100]" "[0, 0]" ref_collab True] obtain s where
    w: "vertical_well = ([s], [Call_MinCurve, Call_get_nev, Call_get_vec])" and
    i: "Survey_init ref_collab [] ((Survey_args [0, 100] [0, 0] [0, 0])\<lparr>arg_deg := True\<rparr>)
          = ([Call_MinCurve, Call_get_nev, Call_get_vec], Inr s)"
    unfolding vertical_well_def by (auto simp: Survey_args_def)
  have none: "arg_x ((Survey_args [0, 100] [0, 0] [0, 0])\<lparr>arg_deg := True\<rparr> :: unit init_args) = None"
    "arg_n ((Survey_args [0, 100] [0, 0] [0, 0])\<lparr>arg_deg := True\<rparr> :: unit init_args) = None"
    "arg_vec ((Survey_args [0, 100] [0, 0] [0, 0])\<lparr>arg_deg := True\<rparr> :: unit init_args) = None"
    by (simp_all add: Survey_args_def)
  have f: "sv_md s = [0, 100]" "sv_inc_rad s = [0, 0]" "sv_azi_rad s = [0, 0]"
    "sv_start_xyz s = (0, 0, 0)" "sv_start_nev s = (0, 0, 0)" "sv_unit s = ''meters''"
    using Survey_init_fields [OF i] by (simp_all add: Survey_args_def radians_def)
  note d = Survey_init_derived [OF i none, unfolded f]
  have mc: "ref_MinCurve [0, 100] [0, 0] [0, 0] (0, 0, 0) ''meters''
      = \<lparr>mc_dogleg = [0, 0], mc_rf = [1, 1], mc_delta_md = [0, 100], mc_dls = [0, 0],
         mc_poss = [(0, 0, 0), (0, 0, 100)]\<rparr>"
    by (simp add: ref_MinCurve_def ref_get_vec_def dot3_def ref_rf_def scale3_def add3_def degrees_def Let_def)
  have v: "sv_dogleg s = [0, 0]" "sv_delta_md s = [0, 100]"
     "sv_x s = Some [0, 0]" "sv_y s = Some [0, 0]" "sv_z s = Some [0, 100]"
     "sv_n s = Some [0, 0]" "sv_e s = Some [0, 0]" "sv_tvd s = Some [0, 100]"
     "sv_vec s = Some [(0, 0, 1), (0, 0, 1)]"
    using d by (simp_all add: ref_collab_def mc col0_def col1_def col2_def ref_get_nev_def ref_get_vec_def)
  have "stations_ok s"
    by (simp add: stations_ok_def has_length_def f v)
  with w f v show ?thesis by blast
qed

lemma twisted_well_facts:
  "\<exists>s. twisted_well = ([s], [Call_MinCurve, Call_get_nev, Call_get_vec]) \<and> stations_ok s
     \<and> sv_md s = [0, 100] \<and> sv_inc_rad s = [0, 0] \<and> sv_azi_rad s = [0, 1]
     \<and> sv_dogleg s = [0, 0] \<and> sv_delta_md s = [0, 100]
     \<and> sv_x s = Some [0, 0] \<and> sv_y s = Some [0, 0] \<and> sv_z s = Some [0, 100]
     \<and> sv_n s = Some [0, 0] \<and> sv_e s = Some [0, 0] \<and> sv_tvd s = Some [0, 100]
     \<and> sv_vec s = Some [(0, 0, 1), (0, 0, 1)]"
proof -
  from new_Survey_default [of "[0, 0]" "[0, 100]" "[0, 1]" ref_collab False] obtain s where
    w: "twisted_well = ([s], [Call_MinCurve, Call_get_nev, Call_get_vec])" and
    i: "Survey_init ref_collab [] ((Survey_args [0, 100] [0, 0] [0, 1])\<lparr>arg_deg := False\<rparr>)
          = ([Call_MinCurve, Call_get_nev, Call_get_vec], Inr s)"
    unfolding twisted_well_def by auto
  have none: "arg_x ((Survey_args [0, 100] [0, 0] [0, 1])\<lparr>arg_deg := False\<rparr> :: unit init_args) = None"
    "arg_n ((Survey_args [0, 100] [0, 0] [0, 1])\<lparr>arg_deg := False\<rparr> :: unit init_args) = None"
    "arg_vec ((Survey_args [0, 100] [0, 0] [0, 1])\<lparr>arg_deg := False\<rparr> :: unit init_args) = None"
    by (simp_all add: Survey_args_def)
  have f: "sv_md s = [0, 100]" "sv_inc_rad s = [0, 0]" "sv_azi_rad s = [0, 1]"
    "sv_start_xyz s = (0, 0, 0)" "sv_start_nev s = (0, 0, 0)" "sv_unit s = ''meters''"
    using Survey_init_fields [OF i] by (simp_all add: Survey_args_def)
  note d = Survey_init_derived [OF i none, unfolded f]
  have mc: "ref_MinCurve [0, 100] [0, 0] [0, 1] (0, 0, 0) ''meters''
      = \<lparr>mc_dogleg = [0, 0], mc_rf = [1, 1], mc_delta_md = [0, 100], mc_dls = [0, 0],
         mc_poss = [(0, 0, 0), (0, 0, 100)]\<rparr>"
    by (simp add: ref_MinCurve_def ref_get_vec_def dot3_def ref_rf_def scale3_def add3_def degrees_def Let_def)
  have v: "sv_dogleg s = [0, 0]" "sv_delta_md s = [0, 100]"
     "sv_x s = Some [0, 0]" "sv_y s = Some [0, 0]" "sv_z s = Some [0, 100]"
     "sv_n s = Some [0, 0]" "sv_e s = Some [0, 0]" "sv_tvd s = Some [0, 100]"
     "sv_vec s = Some [(0, 0, 1), (0, 0, 1)]"
    using d by (simp_all add: ref_collab_def mc col0_def col1_def col2_def ref_get_nev_def ref_get_vec_def)
  have "stations_ok s"
    by (simp add: stations_ok_def has_length_def f v)
  with w f v show ?thesis by blast
qed

lemma build_section_facts:
  "\<exists>s. build_section = ([s], [Call_MinCurve, Call_get_nev, Call_get_vec]) \<and> stations_ok s
     \<and> sv_md s = [0, 100] \<and> sv_inc_rad s = [0, pi / 2] \<and> sv_azi_rad s = [0, 0]
     \<and> sv_dogleg s = [0, pi / 2] \<and> sv_delta_md s = [0, 100]
     \<and> sv_vec s = Some [(0, 0, 1), (0, 1, 0)]"
proof -
  from new_Survey_default [of "[0, pi / 2]" "[0, 100]" "[0, 0]" ref_collab False] obtain s where
    w: "build_section = ([s], [Call_MinCurve, Call_get_nev, Call_get_vec])" and
    i: "Survey_init ref_collab [] ((Survey_args [0, 100] [0, pi / 2] [0, 0])\<lparr>arg_deg := False\<rparr>)
          = ([Call_MinCurve, Call_get_nev, Call_get_vec], Inr s)"
    unfolding build_section_def by auto
  have none: "arg_x ((Survey_args [0, 100] [0, pi / 2] [0, 0])\<lparr>arg_deg := False\<rparr> :: unit init_args) = None"
    "arg_n ((Survey_args [0, 100] [0, pi / 2] [0, 0])\<lparr>arg_deg := False\<rparr> :: unit init_args) = None"
    "arg_vec ((Survey_args [0, 100] [0, pi / 2] [0, 0])\<lparr>arg_deg := False\<rparr> :: unit init_args) = None"
    by (simp_all add: Survey_args_def)
  have f: "sv_md s = [0, 100]" "sv_inc_rad s = [0, pi / 2]" "sv_azi_rad s = [0, 0]"
    "sv_start_xyz s = (0, 0, 0)" "sv_start_nev s = (0, 0, 0)" "sv_unit s = ''meters''"
    using Survey_init_fields [OF i] by (simp_all add: Survey_args_def)
  note d = Survey_init_derived [OF i none, unfolded f]
  have mc: "mc_dogleg (ref_MinCurve [0, 100] [0, pi / 2] [0, 0] (0, 0, 0) ''meters'') = [0, pi / 2]"
    "mc_delta_md (ref_MinCurve [0, 100] [0, pi / 2] [0, 0] (0, 0, 0) ''meters'') = [0, 100]"
    "length (mc_poss (ref_MinCurve [0, 100] [0, pi / 2] [0, 0] (0, 0, 0) ''meters'')) = 2"
    by (simp_all add: ref_MinCurve_def ref_get_vec_def dot3_def Let_def)
  have v: "sv_dogleg s = [0, pi / 2]" "sv_delta_md s = [0, 100]" "sv_vec s = Some [(0, 0, 1), (0, 1, 0)]"
    using d by (simp_all add: ref_collab_def mc ref_get_vec_def)
  have l: "has_length (sv_x s) (length (sv_md s))" "has_length (sv_y s) (length (sv_md s))"
    "has_length (sv_z s) (length (sv_md s))" "has_length (sv_n s) (length (sv_md s))"
    "has_length (sv_e s) (length (sv_md s))" "has_length (sv_tvd s) (length (sv_md s))"
    using d by (simp_all add: has_length_def f ref_collab_def mc col0_def col1_def col2_def ref_get_nev_def)
  have "stations_ok s"
    unfolding stations_ok_def Let_def using l by (simp add: f v has_length_def)
  with w f v show ?thesis by blast
qed

lemma tangent_section:
  fixes c :: "'w collab"
  assumes ok: "stations_ok (h ! r)" and i0: "0 \<le> index"
    and i1: "index < int (length (sv_md (h ! r))) - 1"
    and x: "x \<le> sv_delta_md (h ! r) ! nat (index + 1)"
    and D0: "sv_dogleg (h ! r) ! nat (index + 1) = 0"
  shows "\<exists>obj.
     interpolate_survey c (h, tr) r x index
       = ((h @ [obj], tr @ [Call_MinCurve, Call_get_nev, Call_get_vec, Call_MinCurve]), Inr (length h))
     \<and> sv_md obj = [sv_md (h ! r) ! nat index, sv_md (h ! r) ! nat index + x]
     \<and> sv_inc_rad obj = [sv_inc_rad (h ! r) ! nat index, sv_inc_rad (h ! r) ! nat index]
     \<and> sv_azi_rad obj = [sv_azi_rad (h ! r) ! nat index, sv_azi_rad (h ! r) ! nat index]
     \<and> sv_unit obj = ''meters''
     \<and> sv_start_xyz obj = (the (sv_x (h ! r)) ! nat index, the (sv_y (h ! r)) ! nat index, the (sv_z (h ! r)) ! nat index)
     \<and> sv_x obj = Some (col0 (mc_poss (MinCurve c (sv_md obj) (sv_inc_rad obj) (sv_azi_rad obj) (sv_start_xyz obj) (sv_unit obj))))
     \<and> sv_y obj = Some (col1 (mc_poss (MinCurve c (sv_md obj) (sv_inc_rad obj) (sv_azi_rad obj) (sv_start_xyz obj) (sv_unit obj))))
     \<and> sv_z obj = Some (col2 (mc_poss (MinCurve c (sv_md obj) (sv_inc_rad obj) (sv_azi_rad obj) (sv_start_xyz obj) (sv_unit obj))))"
proof -
  from ok have len: "length (sv_inc_rad (h ! r)) = length (sv_md (h ! r))"
    "length (sv_azi_rad (h ! r)) = length (sv_md (h ! r))"
    by (simp_all add: stations_ok_def Let_def)
  have ang: "interpolated_angles c tr (h ! r) x index (sv_delta_md (h ! r) ! nat (index + 1))
                (sv_dogleg (h ! r) ! nat (index + 1))
              = (tr, Inr (sv_inc_rad (h ! r) ! nat index, sv_azi_rad (h ! r) ! nat index))"
    unfolding D0 using i0 i1 by (intro interpolated_angles_tangent) (simp_all add: len)
  from interpolate_survey_ok [OF ok i0 i1 x ang] show ?thesis
    by auto
qed

text \<open>
  Claim C1 on the code: for the vertical well \<open>md = [0, 100]\<close>, \<open>x = 50\<close> and
  \<open>index = 0\<close> the survey returned has the two stations \<open>md = [0, 50]\<close>, the station
  at \<open>index\<close> and the interpolated one. The station at \<open>index + 1\<close> (\<open>md = 100\<close>) is
  not part of it.
\<close>

theorem interpolate_survey_two_stations:
  "snd (interpolate_survey ref_collab vertical_well 0 50 0) = Inr 1
   \<and> sv_md (fst (fst (interpolate_survey ref_collab vertical_well 0 50 0)) ! 1) = [0, 50]
   \<and> sv_inc_rad (fst (fst (interpolate_survey ref_collab vertical_well 0 50 0)) ! 1) = [0, 0]
   \<and> sv_azi_rad (fst (fst (interpolate_survey ref_collab vertical_well 0 50 0)) ! 1) = [0, 0]
   \<and> sv_z (fst (fst (interpolate_survey ref_collab vertical_well 0 50 0)) ! 1) = Some [0, 50]
   \<and> sv_md (fst vertical_well ! 0) = [0, 100]"
proof -
  from vertical_well_facts obtain s where
    w: "vertical_well = ([s], [Call_MinCurve, Call_get_nev, Call_get_vec])" and ok: "stations_ok s"
    and f: "sv_md s = [0, 100]" "sv_inc_rad s = [0, 0]" "sv_azi_rad s = [0, 0]"
      "sv_dogleg s = [0, 0]" "sv_delta_md s = [0, 100]"
      "sv_x s = Some [0, 0]" "sv_y s = Some [0, 0]" "sv_z s = Some [0, 100]"
    by blast
  from tangent_section [of "[s]" 0 0 50 ref_collab "[Call_MinCurve, Call_get_nev, Call_get_vec]"]
  obtain obj where
    r: "interpolate_survey ref_collab vertical_well 0 50 0
          = (([s] @ [obj], [Call_MinCurve, Call_get_nev, Call_get_vec]
                @ [Call_MinCurve, Call_get_nev, Call_get_vec, Call_MinCurve]), Inr (length [s]))"
    and g: "sv_md obj = [0, 50]" "sv_inc_rad obj = [0, 0]" "sv_azi_rad obj = [0, 0]"
      "sv_unit obj = ''meters''" "sv_start_xyz obj = (0, 0, 0)"
      "sv_z obj = Some (col2 (mc_poss (MinCurve ref_collab (sv_md obj) (sv_inc_rad obj) (sv_azi_rad obj) (sv_start_xyz obj) (sv_unit obj))))"
    using ok by (auto simp: f w)
  have z: "sv_z obj = Some [0, 50]"
    unfolding g(6) unfolding g(1-5)
    by (simp add: ref_collab_def ref_MinCurve_def ref_get_vec_def dot3_def ref_rf_def scale3_def add3_def
          degrees_def Let_def col2_def)
  show ?thesis
    unfolding r by (simp add: g(1-3) z w f)
qed

theorem interpolate_survey_tangent_witness:
  "snd (interpolate_survey ref_collab vertical_well 0 50 0) = Inr 1
   \<and> sv_inc_rad (fst (fst (interpolate_survey ref_collab vertical_well 0 50 0)) ! 1) ! 1
       = sv_inc_rad (fst vertical_well ! 0) ! 0
   \<and> sv_azi_rad (fst (fst (interpolate_survey ref_collab vertical_well 0 50 0)) ! 1) ! 1
       = sv_azi_rad (fst vertical_well ! 0) ! 0
   \<and> snd (fst (interpolate_survey ref_collab vertical_well 0 50 0))
       = snd vertical_well @ [Call_MinCurve, Call_get_nev, Call_get_vec, Call_MinCurve]"
proof -
  from vertical_well_facts obtain s where
    w: "vertical_well = ([s], [Call_MinCurve, Call_get_nev, Call_get_vec])" and ok: "stations_ok s"
    and f: "sv_md s = [0, 100]" "sv_dogleg s = [0, 0]" "sv_delta_md s = [0, 100]"
    by blast
  from interpolate_survey_tangent [of "[s]" 0 0 50 ref_collab "[Call_MinCurve, Call_get_nev, Call_get_vec]"]
  obtain obj where
    "interpolate_survey ref_collab vertical_well 0 50 0
          = (([s] @ [obj], [Call_MinCurve, Call_get_nev, Call_get_vec]
                @ [Call_MinCurve, Call_get_nev, Call_get_vec, Call_MinCurve]), Inr (length [s]))"
    "sv_inc_rad obj ! 1 = sv_inc_rad s ! 0" "sv_azi_rad obj ! 1 = sv_azi_rad s ! 0"
    using ok by (auto simp: f w)
  then show ?thesis by (simp add: w)
qed

subsection \<open>The two ends of an interval, on concrete surveys\<close>

lemma Arg_Complex_1_0: "Arg (Complex 1 0) = 0"
proof (rule cis_Arg_unique)
  show "sgn (Complex 1 0) = cis 0"
    by (simp add: complex_eq_iff sgn_eq cmod_def)
qed simp_all

lemma ref_get_angles_vertical: "ref_get_angles (0, 0, 1) = [(0, 0)]"
proof -
  have "Complex 0 0 = 0"
    by (simp add: complex_eq_iff)
  then show ?thesis
    by (simp add: ref_get_angles_def Let_def Arg_zero)
qed

lemma ref_get_angles_north: "ref_get_angles (0, 1, 0) = [(pi / 2, 0)]"
  by (simp add: ref_get_angles_def Let_def Arg_Complex_1_0)

lemma turned_build_section_facts:
  "\<exists>s. turned_build_section = ([s], [Call_MinCurve, Call_get_nev, Call_get_vec]) \<and> stations_ok s
     \<and> sv_md s = [0, 100] \<and> sv_inc_rad s = [0, pi / 2] \<and> sv_azi_rad s = [1, 1]
     \<and> sv_dogleg s = [0, pi / 2] \<and> sv_delta_md s = [0, 100]
     \<and> sv_vec s = Some [(0, 0, 1), (sin 1, cos 1, 0)]"
proof -
  from new_Survey_default [of "[0, pi / 2]" "[0, 100]" "[1, 1]" ref_collab False] obtain s where
    w: "turned_build_section = ([s], [Call_MinCurve, Call_get_nev, Call_get_vec])" and
    i: "Survey_init ref_collab [] ((Survey_args [0, 100] [0, pi / 2] [1, 1])\<lparr>arg_deg := False\<rparr>)
          = ([Call_MinCurve, Call_get_nev, Call_get_vec], Inr s)"
    unfolding turned_build_section_def by auto
  have none: "arg_x ((Survey_args [0, 100] [0, pi / 2] [1, 1])\<lparr>arg_deg := False\<rparr> :: unit init_args) = None"
    "arg_n ((Survey_args [0, 100] [0, pi / 2] [1, 1])\<lparr>arg_deg := False\<rparr> :: unit init_args) = None"
    "arg_vec ((Survey_args [0, 100] [0, pi / 2] [1, 1])\<lparr>arg_deg := False\<rparr> :: unit init_args) = None"
    by (simp_all add: Survey_args_def)
  have f: "sv_md s = [0, 100]" "sv_inc_rad s = [0, pi / 2]" "sv_azi_rad s = [1, 1]"
    "sv_start_xyz s = (0, 0, 0)" "sv_start_nev s = (0, 0, 0)" "sv_unit s = ''meters''"
    using Survey_init_fields [OF i] by (simp_all add: Survey_args_def)
  note d = Survey_init_derived [OF i none, unfolded f]
  have mc: "mc_dogleg (ref_MinCurve [0, 100] [0, pi / 2] [1, 1] (0, 0, 0) ''meters'') = [0, pi / 2]"
    "mc_delta_md (ref_MinCurve [0, 100] [0, pi / 2] [1, 1] (0, 0, 0) ''meters'') = [0, 100]"
    "length (mc_poss (ref_MinCurve [0, 100] [0, pi / 2] [1, 1] (0, 0, 0) ''meters'')) = 2"
    by (simp_all add: ref_MinCurve_def ref_get_vec_def dot3_def Let_def)
  have v: "sv_dogleg s = [0, pi / 2]" "sv_delta_md s = [0, 100]" "sv_vec s = Some [(0, 0, 1), (sin 1, cos 1, 0)]"
    using d by (simp_all add: ref_collab_def mc ref_get_vec_def)
  have l: "has_length (sv_x s) (length (sv_md s))" "has_length (sv_y s) (length (sv_md s))"
    "has_length (sv_z s) (length (sv_md s))" "has_length (sv_n s) (length (sv_md s))"
    "has_length (sv_e s) (length (sv_md s))" "has_length (sv_tvd s) (length (sv_md s))"
    using d by (simp_all add: has_length_def f ref_collab_def mc col0_def col1_def col2_def ref_get_nev_def)
  have "stations_ok s"
    unfolding stations_ok_def Let_def using l by (simp add: f v has_length_def)
  with w f v show ?thesis by blast
qed

lemma reversed_well_facts:
  "\<exists>s. reversed_well = ([s], [Call_MinCurve, Call_get_nev, Call_get_vec])
     \<and> sv_md s = [100, 0] \<and> sv_delta_md s = [0, - 100]"
proof -
  from new_Survey_default [of "[0, 0]" "[100, 0]" "[0, 0]" ref_collab True] obtain s where
    w: "reversed_well = ([s], [Call_MinCurve, Call_get_nev, Call_get_vec])" and
    i: "Survey_init ref_collab [] ((Survey_args [100, 0] [0, 0] [0, 0])\<lparr>arg_deg := True\<rparr>)
          = ([Call_MinCurve, Call_get_nev, Call_get_vec], Inr s)"
    unfolding reversed_well_def by (auto simp: Survey_args_def)
  have f: "sv_md s = [100, 0]"
    using Survey_init_fields(1) [OF i] by (simp add: Survey_args_def)
  have "sv_delta_md s = [0, - 100]"
    using Survey_init_solver(2) [OF i] unfolding f by (simp add: ref_collab_sel ref_MinCurve_sel)
  with w f show ?thesis by blast
qed

lemma offset_well_facts:
  "\<exists>s. offset_well = ([s], [Call_MinCurve, Call_get_nev, Call_get_vec]) \<and> stations_ok s
     \<and> sv_md s = [0, 100] \<and> sv_inc_rad s = [0, 0] \<and> sv_azi_rad s = [0, 0]
     \<and> sv_dogleg s = [0, 0] \<and> sv_delta_md s = [0, 100]
     \<and> sv_x s = Some [0, 5] \<and> sv_y s = Some [0, 0] \<and> sv_z s = Some [0, 100]"
proof -
  let ?a = "(Survey_args [0, 100] [0, 0] [0, 0])\<lparr>arg_x := Some [0, 5], arg_y := Some [0, 0], arg_z := Some [0, 100]\<rparr> :: unit init_args"
  have "\<exists>s. Survey_init ref_collab [] ?a =
           ([] @ [Call_MinCurve] @ (if arg_n ?a = None then [Call_get_nev] else [])
               @ (if arg_vec ?a = None then [Call_get_vec] else [])
               @ (if arg_error_model ?a = None then [] else [Call_ErrorModel]), Inr s)"
    by (rule Survey_init_succeeds) (simp_all add: Survey_args_def stack3T_Some)
  then obtain s where i: "Survey_init ref_collab [] ?a = ([Call_MinCurve, Call_get_nev, Call_get_vec], Inr s)"
    by (auto simp: Survey_args_def)
  then have w: "offset_well = ([s], [Call_MinCurve, Call_get_nev, Call_get_vec])"
    by (simp add: offset_well_def new_Survey_def)
  have f: "sv_md s = [0, 100]" "sv_inc_rad s = [0, 0]" "sv_azi_rad s = [0, 0]"
    "sv_start_xyz s = (0, 0, 0)" "sv_start_nev s = (0, 0, 0)" "sv_unit s = ''meters''"
    using Survey_init_fields [OF i] by (simp_all add: Survey_args_def radians_def)
  note g = Survey_init_solver [OF i, unfolded f ref_collab_sel ref_MinCurve_sel]
  have v: "sv_dogleg s = [0, 0]" "sv_delta_md s = [0, 100]"
    using g(1,2) by (simp_all add: ref_get_vec_def dot3_def)
  have p: "sv_x s = Some [0, 5]" "sv_y s = Some [0, 0]" "sv_z s = Some [0, 100]"
    using Survey_init_supplied(1) [OF i, of "[0, 5]"] by (simp_all add: Survey_args_def)
  have vec: "sv_vec s = Some (ref_get_vec [0, 0] [0, 0])"
    using g(4) by (simp add: Survey_args_def)
  from Survey_init_supplied(3) [OF i] obtain pos where
    pos: "stack3T (sv_x s) (sv_y s) (sv_z s) = Inr pos" and
    nev: "sv_n s = Some (col0 (get_nev ref_collab pos (sv_start_xyz s) (sv_start_nev s)))"
         "sv_e s = Some (col1 (get_nev ref_collab pos (sv_start_xyz s) (sv_start_nev s)))"
         "sv_tvd s = Some (col2 (get_nev ref_collab pos (sv_start_xyz s) (sv_start_nev s)))"
    by (auto simp: Survey_args_def)
  from pos have "length pos = 2"
    by (auto simp: p stack3T_Some)
  then have l: "has_length (sv_n s) (length (sv_md s))" "has_length (sv_e s) (length (sv_md s))"
    "has_length (sv_tvd s) (length (sv_md s))"
    by (simp_all add: nev has_length_def ref_collab_sel ref_get_nev_def col0_def col1_def col2_def f)
  have "stations_ok s"
    unfolding stations_ok_def Let_def using l
    by (simp add: f v p vec has_length_def ref_get_vec_def)
  with w f v p show ?thesis by blast
qed

lemma restated_build_section_facts:
  "\<exists>s. restated_build_section = ([s], [Call_MinCurve, Call_get_nev]) \<and> stations_ok s
     \<and> sv_md s = [0, 100] \<and> sv_inc_rad s = [0, pi / 2] \<and> sv_azi_rad s = [0, 0]
     \<and> sv_dogleg s = [0, pi / 2] \<and> sv_delta_md s = [0, 100]
     \<and> sv_vec s = Some [(0, 0, 1), (0, 0, 1)]
     \<and> sv_x s = Some [0, 0] \<and> sv_y s = Some [0, 200 / pi] \<and> sv_z s = Some [0, 200 / pi]"
proof -
  let ?a = "(Survey_args [0, 100] [0, pi / 2] [0, 0])\<lparr>arg_deg := False, arg_vec := Some [(0, 0, 1), (0, 0, 1)]\<rparr> :: unit init_args"
  have "\<exists>s. Survey_init ref_collab [] ?a =
           ([] @ [Call_MinCurve] @ (if arg_n ?a = None then [Call_get_nev] else [])
               @ (if arg_vec ?a = None then [Call_get_vec] else [])
               @ (if arg_error_model ?a = None then [] else [Call_ErrorModel]), Inr s)"
    by (rule Survey_init_succeeds) (simp_all add: Survey_args_def)
  then obtain s where i: "Survey_init ref_collab [] ?a = ([Call_MinCurve, Call_get_nev], Inr s)"
    by (auto simp: Survey_args_def)
  then have w: "restated_build_section = ([s], [Call_MinCurve, Call_get_nev])"
    by (simp add: restated_build_section_def new_Survey_def)
  have f: "sv_md s = [0, 100]" "sv_inc_rad s = [0, pi / 2]" "sv_azi_rad s = [0, 0]"
    "sv_start_xyz s = (0, 0, 0)" "sv_start_nev s = (0, 0, 0)" "sv_unit s = ''meters''"
    using Survey_init_fields [OF i] by (simp_all add: Survey_args_def)
  note g = Survey_init_solver [OF i, unfolded f ref_collab_sel ref_MinCurve_sel]
  have v: "sv_dogleg s = [0, pi / 2]" "sv_delta_md s = [0, 100]"
    using g(1,2) by (simp_all add: ref_get_vec_def dot3_def)
  have steps: "ref_path (0, 0, 0) (ref_steps [0, 100] (ref_get_vec [0, pi / 2] [0, 0]))
      = [(0, 0, 0), (0, 200 / pi, 200 / pi)]"
    by (simp add: ref_get_vec_def dot3_def ref_rf_def tan_45 scale3_def add3_def)
  have p: "sv_x s = Some [0, 0]" "sv_y s = Some [0, 200 / pi]" "sv_z s = Some [0, 200 / pi]"
    using g(3) by (simp_all add: Survey_args_def steps col0_def col1_def col2_def)
  have vec: "sv_vec s = Some [(0, 0, 1), (0, 0, 1)]"
    using Survey_init_supplied(2) [OF i, of "[(0, 0, 1), (0, 0, 1)]"] by (simp add: Survey_args_def)
  from Survey_init_supplied(3) [OF i] obtain pos where
    pos: "stack3T (sv_x s) (sv_y s) (sv_z s) = Inr pos" and
    nev: "sv_n s = Some (col0 (get_nev ref_collab pos (sv_start_xyz s) (sv_start_nev s)))"
         "sv_e s = Some (col1 (get_nev ref_collab pos (sv_start_xyz s) (sv_start_nev s)))"
         "sv_tvd s = Some (col2 (get_nev ref_collab pos (sv_start_xyz s) (sv_start_nev s)))"
    by (auto simp: Survey_args_def)
  from pos have "length pos = 2"
    by (auto simp: p stack3T_Some)
  then have l: "has_length (sv_n s) (length (sv_md s))" "has_length (sv_e s) (length (sv_md s))"
    "has_length (sv_tvd s) (length (sv_md s))"
    by (simp_all add: nev has_length_def ref_collab_sel ref_get_nev_def col0_def col1_def col2_def f)
  have "stations_ok s"
    unfolding stations_ok_def Let_def using l
    by (simp add: f v p vec has_length_def)
  with w f v p vec show ?thesis by blast
qed

lemma two_station_tangent:
  "mc_poss (ref_MinCurve [0, 100] [0, 0] [0, 0] (0, 0, 0) u) = [(0, 0, 0), (0, 0, 100)]"
  by (simp add: ref_two_stations dot3_def ref_rf_def scale3_def add3_def)

lemma end_of_twisted_well:
  "snd (interpolate_survey ref_collab twisted_well 0 100 0) = Inr 1
   \<and> sv_delta_md (fst twisted_well ! 0) ! 1 = 100
   \<and> station_angles (fst twisted_well ! 0) 1 = (0, 1)
   \<and> station_angles (fst (fst (interpolate_survey ref_collab twisted_well 0 100 0)) ! 1) 1 = (0, 0)"
proof -
  from twisted_well_facts obtain s where
    w: "twisted_well = ([s], [Call_MinCurve, Call_get_nev, Call_get_vec])" and ok: "stations_ok s"
    and f: "sv_md s = [0, 100]" "sv_inc_rad s = [0, 0]" "sv_azi_rad s = [0, 1]"
      "sv_dogleg s = [0, 0]" "sv_delta_md s = [0, 100]"
    by blast
  from tangent_section [of "[s]" 0 0 100 ref_collab "[Call_MinCurve, Call_get_nev, Call_get_vec]"]
  obtain obj where
    r: "interpolate_survey ref_collab twisted_well 0 100 0
          = (([s] @ [obj], [Call_MinCurve, Call_get_nev, Call_get_vec]
                @ [Call_MinCurve, Call_get_nev, Call_get_vec, Call_MinCurve]), Inr (length [s]))"
    and g: "sv_inc_rad obj = [0, 0]" "sv_azi_rad obj = [0, 0]"
    using ok by (auto simp: f w)
  show ?thesis
    unfolding r by (simp add: g w f station_angles_def)
qed

lemma start_of_turned_build_section:
  "snd (interpolate_survey ref_collab turned_build_section 0 0 0) = Inr 1
   \<and> station_angles (fst turned_build_section ! 0) 0 = (0, 1)
   \<and> station_angles (fst (fst (interpolate_survey ref_collab turned_build_section 0 0 0)) ! 1) 1 = (0, 0)"
proof -
  from turned_build_section_facts obtain s where
    w: "turned_build_section = ([s], [Call_MinCurve, Call_get_nev, Call_get_vec])" and ok: "stations_ok s"
    and f: "sv_md s = [0, 100]" "sv_inc_rad s = [0, pi / 2]" "sv_azi_rad s = [1, 1]"
      "sv_dogleg s = [0, pi / 2]" "sv_delta_md s = [0, 100]" "sv_vec s = Some [(0, 0, 1), (sin 1, cos 1, 0)]"
    by blast
  have ga: "get_angles ref_collab (the (sv_vec ([s] ! 0)) ! 0) = (0, 0) # []"
    by (simp add: f ref_collab_sel ref_get_angles_vertical)
  from slerp_section [of "[s]" 0 0 0 0 ref_collab 0 0 "[]" "[Call_MinCurve, Call_get_nev, Call_get_vec]"]
  obtain obj where
    r: "interpolate_survey ref_collab turned_build_section 0 0 0
          = (([s] @ [obj], [Call_MinCurve, Call_get_nev, Call_get_vec]
                @ [Call_get_angles, Call_MinCurve, Call_get_nev, Call_get_vec, Call_MinCurve]), Inr (length [s]))"
    and g: "sv_inc_rad obj = [0, 0]" "sv_azi_rad obj = [1, 0]"
    using ok ga by (auto simp: f w)
  show ?thesis
    unfolding r by (simp add: g w f station_angles_def)
qed

lemma end_of_offset_well:
  "snd (interpolate_survey ref_collab offset_well 0 100 0) = Inr 1
   \<and> sv_delta_md (fst offset_well ! 0) ! 1 = 100
   \<and> station_xyz (fst offset_well ! 0) 1 = (5, 0, 100)
   \<and> station_xyz (fst (fst (interpolate_survey ref_collab offset_well 0 100 0)) ! 1) 1 = (0, 0, 100)"
proof -
  from offset_well_facts obtain s where
    w: "offset_well = ([s], [Call_MinCurve, Call_get_nev, Call_get_vec])" and ok: "stations_ok s"
    and f: "sv_md s = [0, 100]" "sv_inc_rad s = [0, 0]" "sv_azi_rad s = [0, 0]"
      "sv_dogleg s = [0, 0]" "sv_delta_md s = [0, 100]"
      "sv_x s = Some [0, 5]" "sv_y s = Some [0, 0]" "sv_z s = Some [0, 100]"
    by blast
  from tangent_section [of "[s]" 0 0 100 ref_collab "[Call_MinCurve, Call_get_nev, Call_get_vec]"]
  obtain obj where
    r: "interpolate_survey ref_collab offset_well 0 100 0
          = (([s] @ [obj], [Call_MinCurve, Call_get_nev, Call_get_vec]
                @ [Call_MinCurve, Call_get_nev, Call_get_vec, Call_MinCurve]), Inr (length [s]))"
    and g: "sv_md obj = [0, 100]" "sv_inc_rad obj = [0, 0]" "sv_azi_rad obj = [0, 0]"
      "sv_unit obj = ''meters''" "sv_start_xyz obj = (0, 0, 0)"
    and q: "sv_x obj = Some (col0 (mc_poss (MinCurve ref_collab (sv_md obj) (sv_inc_rad obj) (sv_azi_rad obj) (sv_start_xyz obj) (sv_unit obj))))"
      "sv_y obj = Some (col1 (mc_poss (MinCurve ref_collab (sv_md obj) (sv_inc_rad obj) (sv_azi_rad obj) (sv_start_xyz obj) (sv_unit obj))))"
      "sv_z obj = Some (col2 (mc_poss (MinCurve ref_collab (sv_md obj) (sv_inc_rad obj) (sv_azi_rad obj) (sv_start_xyz obj) (sv_unit obj))))"
    using ok by (auto simp: f w)
  have p: "station_xyz obj 1 = (0, 0, 100)"
    unfolding station_xyz_def q unfolding g ref_collab_sel two_station_tangent
    by (simp add: col0_def col1_def col2_def)
  have p0: "station_xyz s 1 = (5, 0, 100)"
    by (simp add: station_xyz_def f)
  show ?thesis
    unfolding r using p p0 by (simp add: w f)
qed

lemma end_of_restated_build_section:
  "snd (interpolate_survey ref_collab restated_build_section 0 100 0) = Inr 1
   \<and> sv_delta_md (fst restated_build_section ! 0) ! 1 = 100
   \<and> station_xyz (fst restated_build_section ! 0) 1 = (0, 200 / pi, 200 / pi)
   \<and> station_xyz (fst (fst (interpolate_survey ref_collab restated_build_section 0 100 0)) ! 1) 1 = (0, 0, 100)"
proof -
  from restated_build_section_facts obtain s where
    w: "restated_build_section = ([s], [Call_MinCurve, Call_get_nev])" and ok: "stations_ok s"
    and f: "sv_md s = [0, 100]" "sv_inc_rad s = [0, pi / 2]" "sv_azi_rad s = [0, 0]"
      "sv_dogleg s = [0, pi / 2]" "sv_delta_md s = [0, 100]"
      "sv_vec s = Some [(0, 0, 1), (0, 0, 1)]"
      "sv_x s = Some [0, 0]" "sv_y s = Some [0, 200 / pi]" "sv_z s = Some [0, 200 / pi]"
    by blast
  have ga: "get_angles ref_collab (the (sv_vec ([s] ! 0)) ! 1) = (0, 0) # []"
    by (simp add: f ref_collab_sel ref_get_angles_vertical)
  from slerp_section [of "[s]" 0 0 100 1 ref_collab 0 0 "[]" "[Call_MinCurve, Call_get_nev]"]
  obtain obj where
    r: "interpolate_survey ref_collab restated_build_section 0 100 0
          = (([s] @ [obj], [Call_MinCurve, Call_get_nev]
                @ [Call_get_angles, Call_MinCurve, Call_get_nev, Call_get_vec, Call_MinCurve]), Inr (length [s]))"
    and g: "sv_md obj = [0, 100]" "sv_inc_rad obj = [0, 0]" "sv_azi_rad obj = [0, 0]"
      "sv_unit obj = ''meters''" "sv_start_xyz obj = (0, 0, 0)"
    and q: "sv_x obj = Some (col0 (mc_poss (MinCurve ref_collab (sv_md obj) (sv_inc_rad obj) (sv_azi_rad obj) (sv_start_xyz obj) (sv_unit obj))))"
      "sv_y obj = Some (col1 (mc_poss (MinCurve ref_collab (sv_md obj) (sv_inc_rad obj) (sv_azi_rad obj) (sv_start_xyz obj) (sv_unit obj))))"
      "sv_z obj = Some (col2 (mc_poss (MinCurve ref_collab (sv_md obj) (sv_inc_rad obj) (sv_azi_rad obj) (sv_start_xyz obj) (sv_unit obj))))"
    using ok ga by (auto simp: f w)
  have p: "station_xyz obj 1 = (0, 0, 100)"
    unfolding station_xyz_def q unfolding g ref_collab_sel two_station_tangent
    by (simp add: col0_def col1_def col2_def)
  have p0: "station_xyz s 1 = (0, 200 / pi, 200 / pi)"
    by (simp add: station_xyz_def f)
  show ?thesis
    unfolding r using p p0 by (simp add: w f)
qed

lemma start_of_reversed_well:
  "snd (interpolate_survey ref_collab reversed_well 0 0 0) = Inl OutOfRange
   \<and> sv_md (fst reversed_well ! 0) = [100, 0]"
proof -
  from reversed_well_facts obtain s where
    w: "reversed_well = ([s], [Call_MinCurve, Call_get_nev, Call_get_vec])"
    and f: "sv_md s = [100, 0]" "sv_delta_md s = [0, - 100]"
    by blast
  show ?thesis
    unfolding w interpolate_survey_unfold by (simp add: f py_index_def)
qed

text \<open>
  Claim C4 as stated fails, in five ways. A vertical interval between azimuths 0 and
  1 has zero dogleg, and with \<open>x\<close> equal to its delta-MD the interpolated station has
  azimuth 0, not the azimuth 1 of the ending station. On a build section that starts
  vertical at azimuth 1, \<open>x = 0\<close> gives azimuth 0, the azimuth \<^verbatim>\<open>get_angles\<close> returns
  for a vertical tangent. On a vertical well constructed with the positions of the
  caller, \<open>x\<close> equal to delta-MD gives the position \<open>(0, 0, 100)\<close> of the solver, not
  the position \<open>(5, 0, 100)\<close> of the ending station. On a build section constructed
  with vertical tangent vectors of the caller, \<open>x\<close> equal to delta-MD gives the
  position \<open>(0, 0, 100)\<close>, not the end of the arc. On a well whose measured depth
  decreases, the call with \<open>x = 0\<close> fails the assertion on \<open>x\<close> and returns nothing.
\<close>

theorem interpolate_survey_endpoints_differ:
  "(snd (interpolate_survey ref_collab twisted_well 0 100 0) = Inr 1
     \<and> sv_delta_md (fst twisted_well ! 0) ! 1 = 100
     \<and> station_angles (fst twisted_well ! 0) 1 = (0, 1)
     \<and> station_angles (fst (fst (interpolate_survey ref_collab twisted_well 0 100 0)) ! 1) 1 = (0, 0))
   \<and> (snd (interpolate_survey ref_collab turned_build_section 0 0 0) = Inr 1
     \<and> station_angles (fst turned_build_section ! 0) 0 = (0, 1)
     \<and> station_angles (fst (fst (interpolate_survey ref_collab turned_build_section 0 0 0)) ! 1) 1 = (0, 0))
   \<and> (snd (interpolate_survey ref_collab offset_well 0 100 0) = Inr 1
     \<and> sv_delta_md (fst offset_well ! 0) ! 1 = 100
     \<and> station_xyz (fst offset_well ! 0) 1 = (5, 0, 100)
     \<and> station_xyz (fst (fst (interpolate_survey ref_collab offset_well 0 100 0)) ! 1) 1 = (0, 0, 100))
   \<and> (snd (interpolate_survey ref_collab restated_build_section 0 100 0) = Inr 1
     \<and> sv_delta_md (fst restated_build_section ! 0) ! 1 = 100
     \<and> station_xyz (fst restated_build_section ! 0) 1 = (0, 200 / pi, 200 / pi)
     \<and> station_xyz (fst (fst (interpolate_survey ref_collab restated_build_section 0 100 0)) ! 1) 1 = (0, 0, 100))
   \<and> (snd (interpolate_survey ref_collab reversed_well 0 0 0) = Inl OutOfRange
     \<and> sv_md (fst reversed_well ! 0) = [100, 0])"
  by (intro conjI end_of_twisted_well [THEN conjunct1] end_of_twisted_well [THEN conjunct2]
        start_of_turned_build_section end_of_offset_well end_of_restated_build_section start_of_reversed_well)

theorem interpolate_survey_endpoints_witness:
  "snd (interpolate_survey ref_collab build_section 0 100 0) = Inr 1
   \<and> sv_md (fst (fst (interpolate_survey ref_collab build_section 0 100 0)) ! 1) ! 1 = 100
   \<and> station_xyz (fst (fst (interpolate_survey ref_collab build_section 0 100 0)) ! 1) 1
       = station_xyz (fst build_section ! 0) 1
   \<and> station_angles (fst (fst (interpolate_survey ref_collab build_section 0 100 0)) ! 1) 1 = (pi / 2, 0)
   \<and> station_angles (fst build_section ! 0) 1 = (pi / 2, 0)"
proof -
  let ?a = "(Survey_args [0, 100] [0, pi / 2] [0, 0])\<lparr>arg_deg := False\<rparr> :: unit init_args"
  let ?tr = "[Call_MinCurve, Call_get_nev, Call_get_vec]"
  from new_Survey_default [of "[0, pi / 2]" "[0, 100]" "[0, 0]" ref_collab False] obtain s where
    w: "build_section = ([s], ?tr)" and
    built: "Survey_init ref_collab [] ?a = (?tr, Inr ([s] ! 0))"
    unfolding build_section_def by auto
  from build_section_facts obtain s' where
    w': "build_section = ([s'], ?tr)" and ok': "stations_ok s'"
    and f': "sv_md s' = [0, 100]" "sv_inc_rad s' = [0, pi / 2]" "sv_azi_rad s' = [0, 0]"
      "sv_dogleg s' = [0, pi / 2]" "sv_delta_md s' = [0, 100]" "sv_vec s' = Some [(0, 0, 1), (0, 1, 0)]"
    by blast
  from w' have "s' = s" unfolding w by simp
  note ok = ok' [unfolded this] and f = f' [unfolded this]
  have ga: "get_angles ref_collab (the (sv_vec ([s] ! 0)) ! 1) = (pi / 2, 0) # []"
    by (simp add: f ref_collab_sel ref_get_angles_north)
  from slerp_section [of "[s]" 0 0 100 1 ref_collab "pi / 2" 0 "[]" ?tr]
  obtain obj where
    ret: "interpolate_survey ref_collab ([s], ?tr) 0 100 0
          = (([s] @ [obj], ?tr @ [Call_get_angles, Call_MinCurve, Call_get_nev, Call_get_vec, Call_MinCurve]), Inr 1)"
    using ok ga by (auto simp: f)
  have none: "arg_x ?a = None" "arg_vec ?a = None"
    by (simp_all add: Survey_args_def)
  from interpolate_survey_endpoints [OF built _ _ _ ret, of 1]
  have "sv_md (([s] @ [obj]) ! 1) ! 1 = sv_md s ! 1
      \<and> station_xyz (([s] @ [obj]) ! 1) 1 = station_xyz s 1
      \<and> station_angles (([s] @ [obj]) ! 1) 1 = station_angles s 1"
    using none ga by (simp add: f station_angles_def)
  then show ?thesis
    unfolding w ret by (simp add: f station_angles_def)
qed

theorem interpolate_survey_index_check_witness:
  "interpolate_survey ref_collab vertical_well 0 50 1 = (vertical_well, Inl IndexOutOfRange)
   \<and> snd (interpolate_survey ref_collab vertical_well 0 50 0) \<noteq> Inl IndexOutOfRange"
proof -
  from vertical_well_facts obtain s where
    w: "vertical_well = ([s], [Call_MinCurve, Call_get_nev, Call_get_vec])" and f: "sv_md s = [0, 100]"
    by blast
  show ?thesis
    using interpolate_survey_index_check [of ref_collab "[s]" "[Call_MinCurve, Call_get_nev, Call_get_vec]" 0 50 1]
      interpolate_survey_index_check [of ref_collab "[s]" "[Call_MinCurve, Call_get_nev, Call_get_vec]" 0 50 0]
    by (simp add: w f)
qed

theorem interpolate_survey_x_check_witness:
  "interpolate_survey ref_collab vertical_well 0 150 0 = (vertical_well, Inl OutOfRange)
   \<and> snd (interpolate_survey ref_collab vertical_well 0 100 0) \<noteq> Inl OutOfRange"
proof -
  from vertical_well_facts obtain s where
    w: "vertical_well = ([s], [Call_MinCurve, Call_get_nev, Call_get_vec])"
    and f: "sv_md s = [0, 100]" "sv_delta_md s = [0, 100]"
    by blast
  show ?thesis
    using interpolate_survey_x_check [of 0 "[s]" 0 ref_collab "[Call_MinCurve, Call_get_nev, Call_get_vec]" 150]
      interpolate_survey_x_check [of 0 "[s]" 0 ref_collab "[Call_MinCurve, Call_get_nev, Call_get_vec]" 100]
    by (simp add: w f)
qed

theorem interpolate_survey_frame_witness:
  "fst (fst (interpolate_survey ref_collab vertical_well 0 50 0)) ! 0 = fst vertical_well ! 0
   \<and> length (fst vertical_well) \<le> length (fst (fst (interpolate_survey ref_collab vertical_well 0 50 0)))"
proof -
  from vertical_well_facts obtain s where
    w: "vertical_well = ([s], [Call_MinCurve, Call_get_nev, Call_get_vec])"
    by blast
  obtain h' tr' res where
    r: "interpolate_survey ref_collab ([s], [Call_MinCurve, Call_get_nev, Call_get_vec]) 0 50 0 = ((h', tr'), res)"
    by (metis prod.collapse)
  from interpolate_survey_frame [OF r] show ?thesis
    by (simp add: w r)
qed

lemma constructed_stations_ok:
  assumes init: "Survey_init c tr a = (tr', Inr s)"
    and none: "arg_x a = None" "arg_n a = None" "arg_vec a = None"
    and solver: "length (mc_dogleg (MinCurve c (sv_md s) (sv_inc_rad s) (sv_azi_rad s) (sv_start_xyz s) (sv_unit s))) = length (arg_md a)"
      "length (mc_delta_md (MinCurve c (sv_md s) (sv_inc_rad s) (sv_azi_rad s) (sv_start_xyz s) (sv_unit s))) = length (arg_md a)"
      "length (mc_poss (MinCurve c (sv_md s) (sv_inc_rad s) (sv_azi_rad s) (sv_start_xyz s) (sv_unit s))) = length (arg_md a)"
    and helpers: "length (get_nev c (mc_poss (MinCurve c (sv_md s) (sv_inc_rad s) (sv_azi_rad s) (sv_start_xyz s) (sv_unit s)))
                     (sv_start_xyz s) (sv_start_nev s)) = length (arg_md a)"
      "length (get_vec c (sv_inc_rad s) (sv_azi_rad s)) = length (arg_md a)"
  shows "stations_ok s"
proof -
  note d = Survey_init_derived [OF init none]
  note f = Survey_init_fields [OF init]
  from init have len: "length (arg_inc a) = length (arg_md a)" "length (arg_azi a) = length (arg_md a)"
    by (auto elim: Survey_init_InrE)
  have l: "length (sv_inc_rad s) = length (arg_md a)" "length (sv_azi_rad s) = length (arg_md a)"
    by (simp_all add: f(2,3) len)
  show ?thesis
    using solver helpers l unfolding stations_ok_def Let_def d has_length_def
    by (simp add: f(1) col0_def col1_def col2_def)
qed

lemma long_vertical_well_facts:
  "\<exists>s. long_vertical_well = ([s], [Call_MinCurve, Call_get_nev, Call_get_vec])
     \<and> sv_md s = [0, 100, 200] \<and> sv_inc_rad s = [0, 0, 0] \<and> sv_azi_rad s = [0, 0, 0]
     \<and> sv_dogleg s = [0, 0, 0] \<and> sv_delta_md s = [0, 100, 100]
     \<and> sv_x s = Some [0, 0, 0] \<and> sv_y s = Some [0, 0, 0] \<and> sv_z s = Some [0, 100, 200]
     \<and> sv_n s = Some [0, 0, 0] \<and> sv_e s = Some [0, 0, 0] \<and> sv_tvd s = Some [0, 100, 200]"
proof -
  from new_Survey_default [of "[0, 0, 0]" "[0, 100, 200]" "[0, 0, 0]" ref_collab True] obtain s where
    w: "long_vertical_well = ([s], [Call_MinCurve, Call_get_nev, Call_get_vec])" and
    i: "Survey_init ref_collab [] ((Survey_args [0, 100, 200] [0, 0, 0] [0, 0, 0])\<lparr>arg_deg := True\<rparr>)
          = ([Call_MinCurve, Call_get_nev, Call_get_vec], Inr s)"
    unfolding long_vertical_well_def by (auto simp: Survey_args_def)
  have none: "arg_x ((Survey_args [0, 100, 200] [0, 0, 0] [0, 0, 0])\<lparr>arg_deg := True\<rparr> :: unit init_args) = None"
    "arg_n ((Survey_args [0, 100, 200] [0, 0, 0] [0, 0, 0])\<lparr>arg_deg := True\<rparr> :: unit init_args) = None"
    "arg_vec ((Survey_args [0, 100, 200] [0, 0, 0] [0, 0, 0])\<lparr>arg_deg := True\<rparr> :: unit init_args) = None"
    by (simp_all add: Survey_args_def)
  have f: "sv_md s = [0, 100, 200]" "sv_inc_rad s = [0, 0, 0]" "sv_azi_rad s = [0, 0, 0]"
    "sv_start_xyz s = (0, 0, 0)" "sv_start_nev s = (0, 0, 0)" "sv_unit s = ''meters''"
    using Survey_init_fields [OF i] by (simp_all add: Survey_args_def radians_def)
  note d = Survey_init_derived [OF i none, unfolded f]
  have mc: "ref_MinCurve [0, 100, 200] [0, 0, 0] [0, 0, 0] (0, 0, 0) ''meters''
      = \<lparr>mc_dogleg = [0, 0, 0], mc_rf = [1, 1, 1], mc_delta_md = [0, 100, 100], mc_dls = [0, 0, 0],
         mc_poss = [(0, 0, 0), (0, 0, 100), (0, 0, 200)]\<rparr>"
    by (simp add: ref_MinCurve_def ref_get_vec_def dot3_def ref_rf_def scale3_def add3_def degrees_def Let_def)
  have v: "sv_dogleg s = [0, 0, 0]" "sv_delta_md s = [0, 100, 100]"
     "sv_x s = Some [0, 0, 0]" "sv_y s = Some [0, 0, 0]" "sv_z s = Some [0, 100, 200]"
     "sv_n s = Some [0, 0, 0]" "sv_e s = Some [0, 0, 0]" "sv_tvd s = Some [0, 100, 200]"
    using d by (simp_all add: ref_collab_def mc col0_def col1_def col2_def ref_get_nev_def)
  with w f show ?thesis by blast
qed

text \<open>
  Claim C5 as stated fails: on a survey of three stations the index \<open>-2\<close> is outside
  \<open>[0, n-2]\<close> and is accepted. It is read as a subscript from the end, and the result
  starts at the station of measured depth 100.
\<close>

theorem interpolate_survey_negative_index:
  "snd (interpolate_survey ref_collab long_vertical_well 0 50 (- 2)) = Inr 1
   \<and> sv_md (fst (fst (interpolate_survey ref_collab long_vertical_well 0 50 (- 2))) ! 1) = [100, 150]
   \<and> length (sv_md (fst long_vertical_well ! 0)) = 3"
proof -
  from long_vertical_well_facts obtain s where
    w: "long_vertical_well = ([s], [Call_MinCurve, Call_get_nev, Call_get_vec])"
    and f: "sv_md s = [0, 100, 200]" "sv_inc_rad s = [0, 0, 0]" "sv_azi_rad s = [0, 0, 0]"
      "sv_dogleg s = [0, 0, 0]" "sv_delta_md s = [0, 100, 100]"
      "sv_x s = Some [0, 0, 0]" "sv_y s = Some [0, 0, 0]" "sv_z s = Some [0, 100, 200]"
      "sv_n s = Some [0, 0, 0]" "sv_e s = Some [0, 0, 0]" "sv_tvd s = Some [0, 100, 200]"
    by blast
  let ?a = "(Survey_args [100, 150] [0, 0] [0, 0])
              \<lparr>arg_start_xyz := (0, 0, 100), arg_start_nev := (0, 0, 100), arg_deg := False\<rparr> :: unit init_args"
  let ?tr = "[Call_MinCurve, Call_get_nev, Call_get_vec]"
  from construct_result_interpolated [where c = ref_collab and tr = ?tr and h = "[s]"]
  obtain obj0 obj where
    i: "Survey_init ref_collab ?tr ?a = (?tr @ [Call_MinCurve, Call_get_nev, Call_get_vec], Inr obj0)" and
    c: "construct_result ref_collab ([s], ?tr) ?a
          = (([s] @ [obj], ?tr @ [Call_MinCurve, Call_get_nev, Call_get_vec, Call_MinCurve]), Inr (length [s]))" and
    o: "obj = obj0\<lparr>sv_dogleg := mc_dogleg (MinCurve ref_collab (sv_md obj0) (sv_inc_rad obj0) (sv_azi_rad obj0) (sv_start_xyz obj0) (sv_unit obj0)),
                      sv_rf := mc_rf (MinCurve ref_collab (sv_md obj0) (sv_inc_rad obj0) (sv_azi_rad obj0) (sv_start_xyz obj0) (sv_unit obj0)),
                      sv_delta_md := mc_delta_md (MinCurve ref_collab (sv_md obj0) (sv_inc_rad obj0) (sv_azi_rad obj0) (sv_start_xyz obj0) (sv_unit obj0)),
                      sv_dls := mc_dls (MinCurve ref_collab (sv_md obj0) (sv_inc_rad obj0) (sv_azi_rad obj0) (sv_start_xyz obj0) (sv_unit obj0))\<rparr>"
    by blast
  have md: "sv_md obj = [100, 150]"
    using Survey_init_fields(1) [OF i] by (simp add: o Survey_args_def)
  have r: "interpolate_survey ref_collab long_vertical_well 0 50 (- 2)
             = (([s] @ [obj], ?tr @ [Call_MinCurve, Call_get_nev, Call_get_vec, Call_MinCurve]), Inr (length [s]))"
    unfolding w interpolate_survey_unfold
    by (simp add: f py_index_def interpolated_angles_def interpolated_station_def stack3T_def c)
  show ?thesis
    unfolding r by (simp add: md w f)
qed

end
